theory Spec2Isabelle
  imports Main "HOL-Library.Word"
begin

unbundle bit_operations_syntax

section \<open>Handles, results and fatal conditions\<close>

text \<open>
  The layer of \<^verbatim>\<open>amber_scoop/layer_impl.cpp\<close> compares Vulkan handles with
  \<^verbatim>\<open>nullptr\<close>, so handles are pointers of a 64-bit platform: 64-bit words, the
  null handle being 0. \<^verbatim>\<open>VkDeviceSize\<close> is \<^verbatim>\<open>uint64_t\<close>.
\<close>

type_synonym handle = "64 word"
type_synonym VkDeviceSize = "64 word"
type_synonym uint32_t = "32 word"

definition nullptr :: handle where
  "nullptr = 0"

type_synonym VkResult = int

definition VK_SUCCESS :: VkResult where
  "VK_SUCCESS = 0"

text \<open>
  Every way in which the C++ stops abnormally is a value: a failed \<^verbatim>\<open>assert\<close>
  (the model is the build with assertions enabled), the \<^verbatim>\<open>std::out_of_range\<close>
  thrown by \<^verbatim>\<open>at()\<close> on a missing key, and a read past the end of an array, which
  is undefined behaviour in C++.
\<close>

datatype error =
    AssertFailed string
  | OutOfRange string
  | UndefinedBehaviour string

section \<open>The unordered maps of the layer\<close>

text \<open>
  A \<^verbatim>\<open>std::unordered_map\<close> is an association list with distinct keys. The
  iteration order of the C++ container is unspecified; the list order stands for it, and
  no theorem below depends on which order it is. \<^verbatim>\<open>insert\<close> of the C++
  container adds the pair only when the key is absent, and leaves an existing element
  untouched.
\<close>

type_synonym ('k, 'v) unordered_map = "('k \<times> 'v) list"

definition umap_count :: "('k, 'v) unordered_map \<Rightarrow> 'k \<Rightarrow> nat" where
  "umap_count m k = (case map_of m k of None \<Rightarrow> 0 | Some _ \<Rightarrow> 1)"

definition umap_at :: "string \<Rightarrow> ('k, 'v) unordered_map \<Rightarrow> 'k \<Rightarrow> error + 'v" where
  "umap_at nm m k = (case map_of m k of None \<Rightarrow> Inl (OutOfRange nm) | Some v \<Rightarrow> Inr v)"

definition umap_insert :: "'k \<Rightarrow> 'v \<Rightarrow> ('k, 'v) unordered_map \<Rightarrow> ('k, 'v) unordered_map" where
  "umap_insert k v m = (case map_of m k of None \<Rightarrow> m @ [(k, v)] | Some _ \<Rightarrow> m)"

text \<open>Reading element \<open>i\<close> of a C array of known length.\<close>

definition array_read :: "string \<Rightarrow> 'a list \<Rightarrow> nat \<Rightarrow> error + 'a" where
  "array_read nm xs i = (if i < length xs then Inr (xs ! i) else Inl (UndefinedBehaviour nm))"

section \<open>Creation records\<close>

datatype VkFormat =
    VK_FORMAT_R32_UINT
  | VK_FORMAT_R32_SINT
  | VK_FORMAT_R32_SFLOAT
  | VK_FORMAT_R32G32_UINT
  | VK_FORMAT_R32G32_SINT
  | VK_FORMAT_R32G32_SFLOAT
  | VK_FORMAT_R32G32B32_UINT
  | VK_FORMAT_R32G32B32_SINT
  | VK_FORMAT_R32G32B32_SFLOAT
  | VK_FORMAT_R32G32B32A32_UINT
  | VK_FORMAT_R32G32B32A32_SINT
  | VK_FORMAT_R32G32B32A32_SFLOAT
  | VK_FORMAT_other nat

datatype VkIndexType =
    VK_INDEX_TYPE_UINT16
  | VK_INDEX_TYPE_UINT32
  | VK_INDEX_TYPE_other nat

datatype VkPipelineBindPoint =
    VK_PIPELINE_BIND_POINT_GRAPHICS
  | VK_PIPELINE_BIND_POINT_COMPUTE
  | VK_PIPELINE_BIND_POINT_other nat

datatype VkVertexInputRate =
    VK_VERTEX_INPUT_RATE_VERTEX
  | VK_VERTEX_INPUT_RATE_INSTANCE

datatype VkPrimitiveTopology =
    VK_PRIMITIVE_TOPOLOGY_POINT_LIST
  | VK_PRIMITIVE_TOPOLOGY_LINE_LIST
  | VK_PRIMITIVE_TOPOLOGY_LINE_STRIP
  | VK_PRIMITIVE_TOPOLOGY_TRIANGLE_LIST
  | VK_PRIMITIVE_TOPOLOGY_TRIANGLE_STRIP
  | VK_PRIMITIVE_TOPOLOGY_TRIANGLE_FAN
  | VK_PRIMITIVE_TOPOLOGY_LINE_LIST_WITH_ADJACENCY
  | VK_PRIMITIVE_TOPOLOGY_LINE_STRIP_WITH_ADJACENCY
  | VK_PRIMITIVE_TOPOLOGY_TRIANGLE_LIST_WITH_ADJACENCY
  | VK_PRIMITIVE_TOPOLOGY_TRIANGLE_STRIP_WITH_ADJACENCY
  | VK_PRIMITIVE_TOPOLOGY_PATCH_LIST
  | VK_PRIMITIVE_TOPOLOGY_other nat

datatype VkDescriptorType =
    VK_DESCRIPTOR_TYPE_SAMPLER
  | VK_DESCRIPTOR_TYPE_COMBINED_IMAGE_SAMPLER
  | VK_DESCRIPTOR_TYPE_SAMPLED_IMAGE
  | VK_DESCRIPTOR_TYPE_STORAGE_IMAGE
  | VK_DESCRIPTOR_TYPE_UNIFORM_TEXEL_BUFFER
  | VK_DESCRIPTOR_TYPE_STORAGE_TEXEL_BUFFER
  | VK_DESCRIPTOR_TYPE_UNIFORM_BUFFER
  | VK_DESCRIPTOR_TYPE_STORAGE_BUFFER
  | VK_DESCRIPTOR_TYPE_UNIFORM_BUFFER_DYNAMIC
  | VK_DESCRIPTOR_TYPE_STORAGE_BUFFER_DYNAMIC
  | VK_DESCRIPTOR_TYPE_INPUT_ATTACHMENT
  | VK_DESCRIPTOR_TYPE_other nat

definition VK_SHADER_STAGE_VERTEX_BIT :: uint32_t where
  "VK_SHADER_STAGE_VERTEX_BIT = 0x1"

definition VK_SHADER_STAGE_FRAGMENT_BIT :: uint32_t where
  "VK_SHADER_STAGE_FRAGMENT_BIT = 0x10"

definition VK_BUFFER_USAGE_INDEX_BUFFER_BIT :: uint32_t where
  "VK_BUFFER_USAGE_INDEX_BUFFER_BIT = 0x40"

definition VK_BUFFER_USAGE_VERTEX_BUFFER_BIT :: uint32_t where
  "VK_BUFFER_USAGE_VERTEX_BUFFER_BIT = 0x80"

definition VK_WHOLE_SIZE :: VkDeviceSize where
  "VK_WHOLE_SIZE = - 1"

text \<open>
  The create-info structures, with the fields the layer reads. A pointer to an array and
  its count are one list; \<^verbatim>\<open>DeepCopy\<close> of \<^verbatim>\<open>vk_deep_copy.h\<close> copies a structure
  with the arrays it points to, which in a model of values is the identity.
\<close>

record VkBufferCreateInfo =
  buf_size :: VkDeviceSize
  buf_usage :: uint32_t

record VkPipelineShaderStageCreateInfo =
  stage :: uint32_t
  module :: handle

record VkVertexInputBindingDescription =
  vib_binding :: uint32_t
  stride :: uint32_t
  inputRate :: VkVertexInputRate

record VkVertexInputAttributeDescription =
  location :: uint32_t
  binding :: uint32_t
  format :: VkFormat
  offset :: uint32_t

record VkPipelineVertexInputStateCreateInfo =
  pVertexBindingDescriptions :: "VkVertexInputBindingDescription list"
  pVertexAttributeDescriptions :: "VkVertexInputAttributeDescription list"

record VkGraphicsPipelineCreateInfo =
  pStages :: "VkPipelineShaderStageCreateInfo list"
  pVertexInputState :: VkPipelineVertexInputStateCreateInfo
  topology :: VkPrimitiveTopology

record VkShaderModuleCreateInfo =
  codeSize :: "64 word"
  pCode :: "uint32_t list"

record VkDescriptorSetLayoutBinding =
  dslb_binding :: uint32_t
  descriptorType :: VkDescriptorType

record VkDescriptorSetLayoutCreateInfo =
  pBindings :: "VkDescriptorSetLayoutBinding list"

record VkDescriptorSetAllocateInfo =
  descriptorSetCount :: uint32_t
  pSetLayouts :: "handle list"

record VkPipelineLayoutCreateInfo =
  pl_pSetLayouts :: "handle list"

record VkSubpassDescription =
  colorAttachmentCount :: uint32_t

record VkRenderPassCreateInfo =
  pSubpasses :: "VkSubpassDescription list"

record VkFramebufferCreateInfo =
  width :: uint32_t
  height :: uint32_t

record VkRenderPassBeginInfo =
  renderPass :: handle
  framebuffer :: handle

record VkDescriptorBufferInfo =
  dbi_buffer :: handle
  dbi_offset :: VkDeviceSize
  dbi_range :: VkDeviceSize

record VkBufferCopy =
  srcOffset :: VkDeviceSize
  dstOffset :: VkDeviceSize
  copy_size :: VkDeviceSize

record BufferCopy =
  srcBuffer :: handle
  dstBuffer :: handle
  regions :: "VkBufferCopy list"

section \<open>Resource registries\<close>

text \<open>
  The process-wide registries of lines 267 to 286. A memory-mapping entry is the tuple
  (offset, size, flags, pointer).
\<close>

type_synonym mapping_entry = "VkDeviceSize \<times> VkDeviceSize \<times> uint32_t \<times> handle"

record registries =
  mappedMemory :: "(handle, mapping_entry) unordered_map"
  bufferToMemory :: "(handle, handle \<times> VkDeviceSize) unordered_map"
  buffers :: "(handle, VkBufferCreateInfo) unordered_map"
  descriptorSets :: "(handle, handle) unordered_map"
  descriptorSetLayouts :: "(handle, VkDescriptorSetLayoutCreateInfo) unordered_map"
  framebuffers :: "(handle, VkFramebufferCreateInfo) unordered_map"
  graphicsPipelines :: "(handle, VkGraphicsPipelineCreateInfo) unordered_map"
  pipelineLayouts :: "(handle, VkPipelineLayoutCreateInfo) unordered_map"
  renderPasses :: "(handle, VkRenderPassCreateInfo) unordered_map"
  shaderModules :: "(handle, VkShaderModuleCreateInfo) unordered_map"
  descriptorSetToBindingBuffer ::
    "(handle, (uint32_t, VkDescriptorBufferInfo) unordered_map) unordered_map"

definition no_registries :: registries where
  "no_registries =
     \<lparr>mappedMemory = [], bufferToMemory = [], buffers = [], descriptorSets = [],
      descriptorSetLayouts = [], framebuffers = [], graphicsPipelines = [],
      pipelineLayouts = [], renderPasses = [], shaderModules = [],
      descriptorSetToBindingBuffer = []\<rparr>"

section \<open>Capture glue: creation, binding and mapping calls\<close>

text \<open>
  Each intercepted call forwards to \<^verbatim>\<open>next\<close> first. The forwarded call is a
  parameter of the model: what it returned and what it wrote through its output pointer.
  The result of the intercepted call is the pair of the returned \<^verbatim>\<open>VkResult\<close> and
  the registries afterwards.
\<close>

fun insert_descriptor_sets ::
  "handle list \<Rightarrow> handle list \<Rightarrow> nat list \<Rightarrow> (handle, handle) unordered_map
     \<Rightarrow> error + (handle, handle) unordered_map" where
  "insert_descriptor_sets sets layouts [] m = Inr m"
| "insert_descriptor_sets sets layouts (i # is) m =
     (case array_read ''pDescriptorSets'' sets i of Inl e \<Rightarrow> Inl e | Inr s \<Rightarrow>
      case array_read ''pSetLayouts'' layouts i of Inl e \<Rightarrow> Inl e | Inr l \<Rightarrow>
        insert_descriptor_sets sets layouts is (umap_insert s l m))"

definition vkAllocateDescriptorSets ::
  "(VkDescriptorSetAllocateInfo \<Rightarrow> VkResult \<times> handle list) \<Rightarrow> VkDescriptorSetAllocateInfo
     \<Rightarrow> registries \<Rightarrow> error + VkResult \<times> registries" where
  "vkAllocateDescriptorSets next pAllocateInfo g =
     (let (result, pDescriptorSets) = next pAllocateInfo in
      if result = VK_SUCCESS then
        (case insert_descriptor_sets pDescriptorSets (pSetLayouts pAllocateInfo)
                [0 ..< unat (descriptorSetCount pAllocateInfo)] (descriptorSets g) of
           Inl e \<Rightarrow> Inl e
         | Inr m \<Rightarrow> Inr (result, g\<lparr>descriptorSets := m\<rparr>))
      else Inr (result, g))"

definition vkBindBufferMemory ::
  "(handle \<Rightarrow> handle \<Rightarrow> VkDeviceSize \<Rightarrow> VkResult) \<Rightarrow> handle \<Rightarrow> handle \<Rightarrow> VkDeviceSize
     \<Rightarrow> registries \<Rightarrow> VkResult \<times> registries" where
  "vkBindBufferMemory next buffer memory memoryOffset g =
     (let result = next buffer memory memoryOffset in
      if result = VK_SUCCESS then
        (result, g\<lparr>bufferToMemory := umap_insert buffer (memory, memoryOffset) (bufferToMemory g)\<rparr>)
      else (result, g))"

definition vkCreateBuffer ::
  "(VkBufferCreateInfo \<Rightarrow> VkResult \<times> handle) \<Rightarrow> VkBufferCreateInfo
     \<Rightarrow> registries \<Rightarrow> VkResult \<times> registries" where
  "vkCreateBuffer next pCreateInfo g =
     (let (result, pBuffer) = next pCreateInfo in
      if result = VK_SUCCESS then
        (result, g\<lparr>buffers := umap_insert pBuffer pCreateInfo (buffers g)\<rparr>)
      else (result, g))"

definition vkCreateDescriptorSetLayout ::
  "(VkDescriptorSetLayoutCreateInfo \<Rightarrow> VkResult \<times> handle) \<Rightarrow> VkDescriptorSetLayoutCreateInfo
     \<Rightarrow> registries \<Rightarrow> VkResult \<times> registries" where
  "vkCreateDescriptorSetLayout next pCreateInfo g =
     (let (result, pSetLayout) = next pCreateInfo in
      if result = VK_SUCCESS then
        (result, g\<lparr>descriptorSetLayouts :=
                     umap_insert pSetLayout pCreateInfo (descriptorSetLayouts g)\<rparr>)
      else (result, g))"

definition vkCreateFramebuffer ::
  "(VkFramebufferCreateInfo \<Rightarrow> VkResult \<times> handle) \<Rightarrow> VkFramebufferCreateInfo
     \<Rightarrow> registries \<Rightarrow> VkResult \<times> registries" where
  "vkCreateFramebuffer next pCreateInfo g =
     (let (result, pFramebuffer) = next pCreateInfo in
      if result = VK_SUCCESS then
        (result, g\<lparr>framebuffers := umap_insert pFramebuffer pCreateInfo (framebuffers g)\<rparr>)
      else (result, g))"

fun insert_pipelines ::
  "handle list \<Rightarrow> VkGraphicsPipelineCreateInfo list \<Rightarrow> nat list
     \<Rightarrow> (handle, VkGraphicsPipelineCreateInfo) unordered_map
     \<Rightarrow> error + (handle, VkGraphicsPipelineCreateInfo) unordered_map" where
  "insert_pipelines ps infos [] m = Inr m"
| "insert_pipelines ps infos (i # is) m =
     (case array_read ''pPipelines'' ps i of Inl e \<Rightarrow> Inl e | Inr p \<Rightarrow>
      case array_read ''pCreateInfos'' infos i of Inl e \<Rightarrow> Inl e | Inr ci \<Rightarrow>
        insert_pipelines ps infos is (umap_insert p ci m))"

definition vkCreateGraphicsPipelines ::
  "(uint32_t \<Rightarrow> VkGraphicsPipelineCreateInfo list \<Rightarrow> VkResult \<times> handle list) \<Rightarrow> uint32_t
     \<Rightarrow> VkGraphicsPipelineCreateInfo list \<Rightarrow> registries \<Rightarrow> error + VkResult \<times> registries" where
  "vkCreateGraphicsPipelines next createInfoCount pCreateInfos g =
     (let (result, pPipelines) = next createInfoCount pCreateInfos in
      if result = VK_SUCCESS then
        (case insert_pipelines pPipelines pCreateInfos [0 ..< unat createInfoCount]
                (graphicsPipelines g) of
           Inl e \<Rightarrow> Inl e
         | Inr m \<Rightarrow> Inr (result, g\<lparr>graphicsPipelines := m\<rparr>))
      else Inr (result, g))"

definition vkCreatePipelineLayout ::
  "(VkPipelineLayoutCreateInfo \<Rightarrow> VkResult \<times> handle) \<Rightarrow> VkPipelineLayoutCreateInfo
     \<Rightarrow> registries \<Rightarrow> VkResult \<times> registries" where
  "vkCreatePipelineLayout next pCreateInfo g =
     (let (result, pPipelineLayout) = next pCreateInfo in
      if result = VK_SUCCESS then
        (result, g\<lparr>pipelineLayouts := umap_insert pPipelineLayout pCreateInfo (pipelineLayouts g)\<rparr>)
      else (result, g))"

definition vkCreateRenderPass ::
  "(VkRenderPassCreateInfo \<Rightarrow> VkResult \<times> handle) \<Rightarrow> VkRenderPassCreateInfo
     \<Rightarrow> registries \<Rightarrow> VkResult \<times> registries" where
  "vkCreateRenderPass next pCreateInfo g =
     (let (result, pRenderPass) = next pCreateInfo in
      if result = VK_SUCCESS then
        (result, g\<lparr>renderPasses := umap_insert pRenderPass pCreateInfo (renderPasses g)\<rparr>)
      else (result, g))"

definition vkCreateShaderModule ::
  "(VkShaderModuleCreateInfo \<Rightarrow> VkResult \<times> handle) \<Rightarrow> VkShaderModuleCreateInfo
     \<Rightarrow> registries \<Rightarrow> VkResult \<times> registries" where
  "vkCreateShaderModule next pCreateInfo g =
     (let (result, pShaderModule) = next pCreateInfo in
      if result = VK_SUCCESS then
        (result, g\<lparr>shaderModules := umap_insert pShaderModule pCreateInfo (shaderModules g)\<rparr>)
      else (result, g))"

definition vkMapMemory ::
  "(handle \<Rightarrow> VkDeviceSize \<Rightarrow> VkDeviceSize \<Rightarrow> uint32_t \<Rightarrow> VkResult \<times> handle) \<Rightarrow> handle
     \<Rightarrow> VkDeviceSize \<Rightarrow> VkDeviceSize \<Rightarrow> uint32_t \<Rightarrow> registries \<Rightarrow> VkResult \<times> registries" where
  "vkMapMemory next memory offs sz flags g =
     (let (result, ppData) = next memory offs sz flags in
      if result = VK_SUCCESS then
        (result, g\<lparr>mappedMemory := umap_insert memory (offs, sz, flags, ppData) (mappedMemory g)\<rparr>)
      else (result, g))"

section \<open>Command log\<close>

text \<open>
  Modelled from the spec: \<^verbatim>\<open>CopyArray\<close> is declared in
  \<^verbatim>\<open>amber_scoop/vk_deep_copy.h\<close>, which is not part of the sources at hand. The
  spec says that a command record carries its variable-length argument arrays
  deep-copied; the copy of an array with \<open>n\<close> elements is the list of its first \<open>n\<close>
  elements.
\<close>

definition CopyArray :: "'a list \<Rightarrow> uint32_t \<Rightarrow> 'a list" where
  "CopyArray p n = take (unat n) p"

text \<open>
  The command records of lines 84 to 254. The constructor of the datatype is the
  \<^verbatim>\<open>kind_\<close> tag; the cast methods \<^verbatim>\<open>AsDraw\<close>, \<^verbatim>\<open>AsCopyBuffer\<close>, ... are
  pattern matching. Fields are in the order of the C++ structures.
\<close>

datatype Cmd =
    CmdBeginRenderPass VkRenderPassBeginInfo nat
  | CmdBindDescriptorSets VkPipelineBindPoint handle uint32_t uint32_t "handle list"
      uint32_t "uint32_t list"
  | CmdBindIndexBuffer handle VkDeviceSize VkIndexType
  | CmdBindPipeline VkPipelineBindPoint handle
  | CmdBindVertexBuffers uint32_t uint32_t "handle list" "VkDeviceSize list"
  | CmdCopyBuffer handle handle uint32_t "VkBufferCopy list"
  | CmdDraw uint32_t uint32_t uint32_t uint32_t
  | CmdDrawIndexed uint32_t uint32_t uint32_t "32 word" uint32_t

text \<open>The constructors of the two records that copy arrays (lines 134 to 145, 190 to 195).\<close>

definition new_CmdBindDescriptorSets ::
  "VkPipelineBindPoint \<Rightarrow> handle \<Rightarrow> uint32_t \<Rightarrow> uint32_t \<Rightarrow> handle list \<Rightarrow> uint32_t
     \<Rightarrow> uint32_t list \<Rightarrow> Cmd" where
  "new_CmdBindDescriptorSets pipelineBindPoint layout firstSet dsCount pDescriptorSets
       dynamicOffsetCount pDynamicOffsets =
     CmdBindDescriptorSets pipelineBindPoint layout firstSet dsCount
       (CopyArray pDescriptorSets dsCount) dynamicOffsetCount
       (CopyArray pDynamicOffsets dynamicOffsetCount)"

definition new_CmdBindVertexBuffers ::
  "uint32_t \<Rightarrow> uint32_t \<Rightarrow> handle list \<Rightarrow> VkDeviceSize list \<Rightarrow> Cmd" where
  "new_CmdBindVertexBuffers firstBinding bindingCount pBuffers pOffsets =
     CmdBindVertexBuffers firstBinding bindingCount (CopyArray pBuffers bindingCount)
       (CopyArray pOffsets bindingCount)"

definition AddCommand ::
  "handle \<Rightarrow> Cmd \<Rightarrow> (handle, Cmd list) unordered_map \<Rightarrow> (handle, Cmd list) unordered_map" where
  "AddCommand command_buffer command command_buffers =
     (let cbs = (if umap_count command_buffers command_buffer = 0
                 then umap_insert command_buffer [] command_buffers else command_buffers)
      in map (\<lambda>(k, cmds). if k = command_buffer then (k, cmds @ [command]) else (k, cmds)) cbs)"

section \<open>Draw-call state tracker\<close>

record IndexBufferBinding =
  ib_buffer :: handle
  ib_offset :: VkDeviceSize
  ib_indexType :: VkIndexType

record DrawCallStateTracker =
  graphicsPipelineIsBound :: bool
  boundGraphicsPipeline :: handle
  currentRenderPass :: "VkRenderPassBeginInfo option"
  currentSubpass :: uint32_t
  boundGraphicsDescriptorSets :: "(uint32_t, handle) unordered_map"
  boundVertexBuffers :: "(uint32_t, handle) unordered_map"
  boundIndexBuffer :: IndexBufferBinding

text \<open>
  The value-initialised tracker of line 661: no pipeline, a null render pass, empty maps,
  and an index-buffer binding of zeros (\<^verbatim>\<open>VK_INDEX_TYPE_UINT16\<close> is the enumerator 0).
\<close>

definition fresh_tracker :: DrawCallStateTracker where
  "fresh_tracker =
     \<lparr>graphicsPipelineIsBound = False, boundGraphicsPipeline = nullptr,
      currentRenderPass = None, currentSubpass = 0, boundGraphicsDescriptorSets = [],
      boundVertexBuffers = [],
      boundIndexBuffer = \<lparr>ib_buffer = nullptr, ib_offset = 0, ib_indexType = VK_INDEX_TYPE_UINT16\<rparr>\<rparr>"

text \<open>The loop of lines 674 to 682, over \<open>descriptorSetOffset\<close>.\<close>

fun bind_descriptor_sets_loop ::
  "uint32_t \<Rightarrow> handle list \<Rightarrow> nat list \<Rightarrow> (uint32_t, handle) unordered_map
     \<Rightarrow> error + (uint32_t, handle) unordered_map" where
  "bind_descriptor_sets_loop firstSet pDescriptorSets [] m = Inr m"
| "bind_descriptor_sets_loop firstSet pDescriptorSets (i # is) m =
     (case array_read ''pDescriptorSets_'' pDescriptorSets i of
        Inl e \<Rightarrow> Inl e
      | Inr ds \<Rightarrow> bind_descriptor_sets_loop firstSet pDescriptorSets is
                   (umap_insert (firstSet + of_nat i) ds m))"

text \<open>
  The loop of lines 703 to 711, over \<open>bindingOffset\<close>: the key is
  \<open>bindingOffset + firstBinding_\<close>, and the element read from the copied array is the
  one at index \<open>bindingOffset + firstBinding_\<close> too (both sums in \<^verbatim>\<open>uint32_t\<close>).
\<close>

fun bind_vertex_buffers_loop ::
  "uint32_t \<Rightarrow> handle list \<Rightarrow> nat list \<Rightarrow> (uint32_t, handle) unordered_map
     \<Rightarrow> error + (uint32_t, handle) unordered_map" where
  "bind_vertex_buffers_loop firstBinding pBuffers [] m = Inr m"
| "bind_vertex_buffers_loop firstBinding pBuffers (i # is) m =
     (case array_read ''pBuffers_'' pBuffers (unat (of_nat i + firstBinding)) of
        Inl e \<Rightarrow> Inl e
      | Inr b \<Rightarrow> bind_vertex_buffers_loop firstBinding pBuffers is
                  (umap_insert (of_nat i + firstBinding) b m))"

text \<open>
  One record folded into the running snapshot and into the global list of buffer copies
  (the branches of lines 667 to 723). The two draw records do not change either; what
  they emit is \<open>HandleDrawCall\<close> below. The copy-buffer record keeps the caller's
  pointer to the regions, not a copy; the model takes the regions as they are when the
  record is replayed.
\<close>

fun track :: "Cmd \<Rightarrow> DrawCallStateTracker \<times> BufferCopy list
    \<Rightarrow> error + DrawCallStateTracker \<times> BufferCopy list" where
  "track (CmdBeginRenderPass pRenderPassBegin contents) (t, bufferCopies) =
     Inr (t\<lparr>currentRenderPass := Some pRenderPassBegin, currentSubpass := 0\<rparr>, bufferCopies)"
| "track (CmdBindDescriptorSets pipelineBindPoint layout firstSet dsCount pDescriptorSets
       dynamicOffsetCount pDynamicOffsets) (t, bufferCopies) =
     (if pipelineBindPoint = VK_PIPELINE_BIND_POINT_GRAPHICS then
        (case bind_descriptor_sets_loop firstSet pDescriptorSets [0 ..< unat dsCount]
                (boundGraphicsDescriptorSets t) of
           Inl e \<Rightarrow> Inl e
         | Inr m \<Rightarrow> Inr (t\<lparr>boundGraphicsDescriptorSets := m\<rparr>, bufferCopies))
      else Inr (t, bufferCopies))"
| "track (CmdBindIndexBuffer buffer offs indexType) (t, bufferCopies) =
     Inr (t\<lparr>boundIndexBuffer :=
               \<lparr>ib_buffer = buffer, ib_offset = offs, ib_indexType = indexType\<rparr>\<rparr>, bufferCopies)"
| "track (CmdBindPipeline pipelineBindPoint pipeline) (t, bufferCopies) =
     (case pipelineBindPoint of
        VK_PIPELINE_BIND_POINT_GRAPHICS \<Rightarrow>
          Inr (t\<lparr>graphicsPipelineIsBound := True, boundGraphicsPipeline := pipeline\<rparr>, bufferCopies)
      | _ \<Rightarrow> Inr (t, bufferCopies))"
| "track (CmdBindVertexBuffers firstBinding bindingCount pBuffers pOffsets) (t, bufferCopies) =
     (case bind_vertex_buffers_loop firstBinding pBuffers [0 ..< unat bindingCount]
             (boundVertexBuffers t) of
        Inl e \<Rightarrow> Inl e
      | Inr m \<Rightarrow> Inr (t\<lparr>boundVertexBuffers := m\<rparr>, bufferCopies))"
| "track (CmdCopyBuffer src dst regionCount pRegions) (t, bufferCopies) =
     (if unat regionCount \<le> length pRegions then
        Inr (t, bufferCopies @
               [\<lparr>srcBuffer = src, dstBuffer = dst, regions = take (unat regionCount) pRegions\<rparr>])
      else Inl (UndefinedBehaviour ''pRegions_''))"
| "track (CmdDraw vertexCount instanceCount firstVertex firstInstance) (t, bufferCopies) =
     Inr (t, bufferCopies)"
| "track (CmdDrawIndexed indexCount instanceCount firstIndex vertexOffset firstInstance)
       (t, bufferCopies) =
     Inr (t, bufferCopies)"

section \<open>Scene serializer: formats, host memory and output\<close>

datatype FormatType =
    tInt8 | tInt16 | tInt32 | tInt64 | tUint8 | tUint16 | tUint32 | tUint64 | tFloat | tDouble

text \<open>
  What is written to a stream with \<^verbatim>\<open><<\<close>, one piece per operand: text, an unsigned
  or signed integer (printed in decimal), or a \<^verbatim>\<open>float\<close>, kept as its 32 bits since
  its decimal text is a matter of floating point. \<^verbatim>\<open>std::endl\<close> and the \<^verbatim>\<open>\n\<close> of
  a string literal are both the newline.
\<close>

datatype chunk = Str string | UInt nat | SInt int | Float "32 word"

definition endl :: chunk where
  "endl = Str [CHR 0x0A]"

text \<open>
  What the serializer reads from outside the layer: the bytes of host memory behind the
  mapped pointers, and the two services of \<^verbatim>\<open>common/spirv_util.h\<close> and SPIRV-Tools
  (target environment of a version word, validity of the tools object for an environment,
  disassembly), which are parameters. Multi-byte loads are little-endian.
\<close>

record host =
  memory :: "64 word \<Rightarrow> 8 word"
  GetTargetEnvFromSpirvBinary :: "uint32_t \<Rightarrow> bool \<times> nat"
  tools_IsValid :: "nat \<Rightarrow> bool"
  Disassemble :: "nat \<Rightarrow> uint32_t list \<Rightarrow> string"

definition load_u16 :: "(64 word \<Rightarrow> 8 word) \<Rightarrow> 64 word \<Rightarrow> 16 word" where
  "load_u16 mem a = word_of_nat (unat (mem a) + 256 * unat (mem (a + 1)))"

definition load_u32 :: "(64 word \<Rightarrow> 8 word) \<Rightarrow> 64 word \<Rightarrow> 32 word" where
  "load_u32 mem a =
     word_of_nat (unat (mem a) + 256 * unat (mem (a + 1)) + 65536 * unat (mem (a + 2))
                  + 16777216 * unat (mem (a + 3)))"

fun getComponentWidth :: "VkFormat \<Rightarrow> error + uint32_t" where
  "getComponentWidth (VK_FORMAT_other n) = Inl (AssertFailed ''Unknown format.'')"
| "getComponentWidth f = Inr 4"

fun getComponentCount :: "VkFormat \<Rightarrow> error + uint32_t" where
  "getComponentCount VK_FORMAT_R32G32B32A32_SFLOAT = Inr 4"
| "getComponentCount VK_FORMAT_R32G32B32A32_UINT = Inr 4"
| "getComponentCount VK_FORMAT_R32G32B32A32_SINT = Inr 4"
| "getComponentCount VK_FORMAT_R32G32B32_SFLOAT = Inr 3"
| "getComponentCount VK_FORMAT_R32G32B32_UINT = Inr 3"
| "getComponentCount VK_FORMAT_R32G32B32_SINT = Inr 3"
| "getComponentCount VK_FORMAT_R32G32_SFLOAT = Inr 2"
| "getComponentCount VK_FORMAT_R32G32_UINT = Inr 2"
| "getComponentCount VK_FORMAT_R32G32_SINT = Inr 2"
| "getComponentCount VK_FORMAT_R32_SFLOAT = Inr 1"
| "getComponentCount VK_FORMAT_R32_UINT = Inr 1"
| "getComponentCount VK_FORMAT_R32_SINT = Inr 1"
| "getComponentCount (VK_FORMAT_other n) = Inl (AssertFailed ''Unknown format.'')"

fun getFormatTypeName :: "VkFormat \<Rightarrow> error + string" where
  "getFormatTypeName VK_FORMAT_R32G32B32A32_SFLOAT = Inr ''float''"
| "getFormatTypeName VK_FORMAT_R32G32B32_SFLOAT = Inr ''float''"
| "getFormatTypeName VK_FORMAT_R32G32_SFLOAT = Inr ''float''"
| "getFormatTypeName VK_FORMAT_R32_SFLOAT = Inr ''float''"
| "getFormatTypeName VK_FORMAT_R32G32B32A32_UINT = Inr ''uint32''"
| "getFormatTypeName VK_FORMAT_R32G32B32_UINT = Inr ''uint32''"
| "getFormatTypeName VK_FORMAT_R32G32_UINT = Inr ''uint32''"
| "getFormatTypeName VK_FORMAT_R32_UINT = Inr ''uint32''"
| "getFormatTypeName VK_FORMAT_R32G32B32A32_SINT = Inr ''int32''"
| "getFormatTypeName VK_FORMAT_R32G32B32_SINT = Inr ''int32''"
| "getFormatTypeName VK_FORMAT_R32G32_SINT = Inr ''int32''"
| "getFormatTypeName VK_FORMAT_R32_SINT = Inr ''int32''"
| "getFormatTypeName (VK_FORMAT_other n) = Inl (AssertFailed ''Unknown format.'')"

definition getBufferTypeName :: "VkFormat \<Rightarrow> error + chunk list" where
  "getBufferTypeName vkFormat =
     (case getComponentCount vkFormat of
        Inl e \<Rightarrow> Inl e
      | Inr componentCount \<Rightarrow>
          (case getFormatTypeName vkFormat of
             Inl e \<Rightarrow> Inl e
           | Inr nm \<Rightarrow>
               if componentCount = 1 then Inr [Str nm]
               else Inr [Str ''vec'', UInt (unat componentCount), Str ''<'', Str nm, Str ''>'']))"

fun getFormatTypeCode :: "VkFormat \<Rightarrow> error + FormatType" where
  "getFormatTypeCode VK_FORMAT_R32G32B32A32_SFLOAT = Inr tFloat"
| "getFormatTypeCode VK_FORMAT_R32G32B32_SFLOAT = Inr tFloat"
| "getFormatTypeCode VK_FORMAT_R32G32_SFLOAT = Inr tFloat"
| "getFormatTypeCode VK_FORMAT_R32_SFLOAT = Inr tFloat"
| "getFormatTypeCode VK_FORMAT_R32G32B32A32_UINT = Inr tUint32"
| "getFormatTypeCode VK_FORMAT_R32G32B32_UINT = Inr tUint32"
| "getFormatTypeCode VK_FORMAT_R32G32_UINT = Inr tUint32"
| "getFormatTypeCode VK_FORMAT_R32_UINT = Inr tUint32"
| "getFormatTypeCode VK_FORMAT_R32G32B32A32_SINT = Inr tInt32"
| "getFormatTypeCode VK_FORMAT_R32G32B32_SINT = Inr tInt32"
| "getFormatTypeCode VK_FORMAT_R32G32_SINT = Inr tInt32"
| "getFormatTypeCode VK_FORMAT_R32_SINT = Inr tInt32"
| "getFormatTypeCode (VK_FORMAT_other n) = Inl (AssertFailed ''Unknown format.'')"

definition topologies :: "VkPrimitiveTopology \<Rightarrow> string option" where
  "topologies tp =
     (case tp of
        VK_PRIMITIVE_TOPOLOGY_POINT_LIST \<Rightarrow> Some ''POINT_LIST''
      | VK_PRIMITIVE_TOPOLOGY_LINE_LIST \<Rightarrow> Some ''LINE_LIST''
      | VK_PRIMITIVE_TOPOLOGY_LINE_STRIP \<Rightarrow> Some ''LINE_STRIP''
      | VK_PRIMITIVE_TOPOLOGY_TRIANGLE_LIST \<Rightarrow> Some ''TRIANGLE_LIST''
      | VK_PRIMITIVE_TOPOLOGY_TRIANGLE_STRIP \<Rightarrow> Some ''TRIANGLE_STRIP''
      | VK_PRIMITIVE_TOPOLOGY_TRIANGLE_FAN \<Rightarrow> Some ''TRIANGLE_FAN''
      | VK_PRIMITIVE_TOPOLOGY_LINE_LIST_WITH_ADJACENCY \<Rightarrow> Some ''LINE_LIST_WITH_ADJACENCY''
      | VK_PRIMITIVE_TOPOLOGY_LINE_STRIP_WITH_ADJACENCY \<Rightarrow> Some ''LINE_STRIP_WITH_ADJACENCY''
      | VK_PRIMITIVE_TOPOLOGY_TRIANGLE_LIST_WITH_ADJACENCY \<Rightarrow>
          Some ''TRIANGLE_LIST_WITH_ADJACENCY''
      | VK_PRIMITIVE_TOPOLOGY_TRIANGLE_STRIP_WITH_ADJACENCY \<Rightarrow>
          Some ''TRIANGLE_STRIP_WITH_ADJACENCY''
      | VK_PRIMITIVE_TOPOLOGY_PATCH_LIST \<Rightarrow> Some ''PATCH_LIST''
      | VK_PRIMITIVE_TOPOLOGY_other n \<Rightarrow> None)"

text \<open>\<^verbatim>\<open>GetDisassembly\<close>, lines 288 to 303.\<close>

definition GetDisassembly :: "host \<Rightarrow> registries \<Rightarrow> handle \<Rightarrow> error + string" where
  "GetDisassembly h g shaderModule =
     (case umap_at ''shaderModules'' (shaderModules g) shaderModule of
        Inl e \<Rightarrow> Inl e
      | Inr createInfo \<Rightarrow>
     (case array_read ''pCode'' (pCode createInfo) 1 of
        Inl e \<Rightarrow> Inl e
      | Inr version_word \<Rightarrow>
          let maybeTargetEnv = GetTargetEnvFromSpirvBinary h version_word in
          if \<not> fst maybeTargetEnv then Inl (AssertFailed ''SPIR-V version should be valid.'')
          else if \<not> tools_IsValid h (snd maybeTargetEnv)
            then Inl (AssertFailed ''Invalid tools object created.'')
          else
            let code_size_in_words = (ucast (codeSize createInfo) :: uint32_t) div 4 in
            if unat code_size_in_words \<le> length (pCode createInfo)
            then Inr (Disassemble h (snd maybeTargetEnv)
                        (take (unat code_size_in_words) (pCode createInfo)))
            else Inl (UndefinedBehaviour ''pCode'')))"

text \<open>The four string streams of lines 845 to 848.\<close>

record streams =
  bufferDeclarationStringStream :: "chunk list"
  descriptorSetBindingStringStream :: "chunk list"
  framebufferAttachmentStringStream :: "chunk list"
  graphicsPipelineStringStream :: "chunk list"

definition empty_streams :: streams where
  "empty_streams =
     \<lparr>bufferDeclarationStringStream = [], descriptorSetBindingStringStream = [],
      framebufferAttachmentStringStream = [], graphicsPipelineStringStream = []\<rparr>"

text \<open>The loop over the pipeline stages, lines 799 to 811.\<close>

fun find_shaders ::
  "VkPipelineShaderStageCreateInfo list \<Rightarrow> handle \<times> handle \<Rightarrow> error + handle \<times> handle" where
  "find_shaders [] (vertexShader, fragmentShader) = Inr (vertexShader, fragmentShader)"
| "find_shaders (stageCreateInfo # rest) (vertexShader, fragmentShader) =
     (if stage stageCreateInfo = VK_SHADER_STAGE_VERTEX_BIT
        then find_shaders rest (module stageCreateInfo, fragmentShader)
      else if stage stageCreateInfo = VK_SHADER_STAGE_FRAGMENT_BIT
        then find_shaders rest (vertexShader, module stageCreateInfo)
      else Inl (AssertFailed ''Not handled.''))"

definition resolve_shaders ::
  "VkGraphicsPipelineCreateInfo \<Rightarrow> error + handle \<times> handle" where
  "resolve_shaders graphicsPipelineCreateInfo =
     (case find_shaders (pStages graphicsPipelineCreateInfo) (nullptr, nullptr) of
        Inl e \<Rightarrow> Inl e
      | Inr (vertexShader, fragmentShader) \<Rightarrow>
          if vertexShader = nullptr
            then Inl (AssertFailed ''Vertex shader required for graphics pipeline.'')
          else if fragmentShader = nullptr
            then Inl (AssertFailed ''Fragment shader required for graphics pipeline.'')
          else Inr (vertexShader, fragmentShader))"

section \<open>Scene serializer: vertex data\<close>

text \<open>
  The staging-buffer check of lines 863 to 877: the loop leaves \<open>vertexBuffer\<close> at the
  source of the first copy whose destination is the bound buffer, or at
  \<^verbatim>\<open>nullptr\<close>; a null result is replaced by the bound buffer.
\<close>

fun find_vertex_staging :: "BufferCopy list \<Rightarrow> handle \<Rightarrow> handle" where
  "find_vertex_staging [] bound = nullptr"
| "find_vertex_staging (bufferCopy # rest) bound =
     (if dstBuffer bufferCopy \<noteq> bound then find_vertex_staging rest bound
      else srcBuffer bufferCopy)"

definition vertex_data_source :: "BufferCopy list \<Rightarrow> handle \<Rightarrow> handle" where
  "vertex_data_source bufferCopies bound =
     (let vertexBuffer = find_vertex_staging bufferCopies bound in
      if vertexBuffer = nullptr then bound else vertexBuffer)"

definition vertex_buffer_name :: "uint32_t \<Rightarrow> nat \<Rightarrow> chunk list" where
  "vertex_buffer_name bindingNumber loc = [Str ''vert_'', UInt (unat bindingNumber), Str ''_'', UInt loc]"

text \<open>
  Lines 889 to 910: one string stream per index \<open>location\<close> of the array of attribute
  descriptions, and one \<^verbatim>\<open>VERTEX_DATA\<close> line in the pipeline stream. The loop variable
  is both the index into \<^verbatim>\<open>pVertexAttributeDescriptions\<close> and the location that is
  printed.
\<close>

fun vertex_headers ::
  "uint32_t \<Rightarrow> VkVertexInputAttributeDescription list \<Rightarrow> nat \<Rightarrow> chunk list \<times> chunk list list
     \<Rightarrow> error + chunk list \<times> chunk list list" where
  "vertex_headers bindingNumber [] loc (gp, bufferDeclStrings) = Inr (gp, bufferDeclStrings)"
| "vertex_headers bindingNumber (description # rest) loc (gp, bufferDeclStrings) =
     (case getBufferTypeName (format description) of
        Inl e \<Rightarrow> Inl e
      | Inr ty \<Rightarrow>
          vertex_headers bindingNumber rest (Suc loc)
            (gp @ [Str ''  VERTEX_DATA ''] @ vertex_buffer_name bindingNumber loc
                @ [Str '' LOCATION '', UInt loc, endl],
             bufferDeclStrings @
               [[Str ''BUFFER ''] @ vertex_buffer_name bindingNumber loc @ [Str '' DATA_TYPE '']
                  @ ty @ [Str '' DATA '', endl, Str ''  '']]))"

text \<open>The loop over the components of one attribute, lines 928 to 945.\<close>

fun read_components ::
  "(64 word \<Rightarrow> 8 word) \<Rightarrow> VkFormat \<Rightarrow> uint32_t \<Rightarrow> nat \<Rightarrow> 64 word
     \<Rightarrow> error + chunk list \<times> 64 word" where
  "read_components mem fmt componentWidth 0 readPtr = Inr ([], readPtr)"
| "read_components mem fmt componentWidth (Suc n) readPtr =
     (case getFormatTypeCode fmt of
        Inl e \<Rightarrow> Inl e
      | Inr code \<Rightarrow>
          (case (case code of
                   tFloat \<Rightarrow> Inr (Float (load_u32 mem readPtr))
                 | tInt32 \<Rightarrow> Inr (SInt (sint (load_u32 mem readPtr)))
                 | tUint32 \<Rightarrow> Inr (UInt (unat (load_u32 mem readPtr)))
                 | _ \<Rightarrow> Inl (AssertFailed ''Unimplemented format'')) of
             Inl e \<Rightarrow> Inl e
           | Inr lit \<Rightarrow>
               (case read_components mem fmt componentWidth n (readPtr + ucast componentWidth) of
                  Inl e \<Rightarrow> Inl e
                | Inr (lits, p) \<Rightarrow> Inr ([lit, Str '' ''] @ lits, p))))"

text \<open>
  The loop over the attribute descriptions for one element of the buffer, lines 918 to
  946. \<open>readPtr\<close> runs on from one attribute to the next.
\<close>

fun read_locations ::
  "(64 word \<Rightarrow> 8 word) \<Rightarrow> VkVertexInputAttributeDescription list \<Rightarrow> nat \<Rightarrow> 64 word
     \<Rightarrow> chunk list list \<Rightarrow> error + chunk list list" where
  "read_locations mem [] loc readPtr strs = Inr strs"
| "read_locations mem (description # rest) loc readPtr strs =
     (case getComponentCount (format description) of
        Inl e \<Rightarrow> Inl e
      | Inr components \<Rightarrow>
     (case getComponentWidth (format description) of
        Inl e \<Rightarrow> Inl e
      | Inr componentWidth \<Rightarrow>
     (case read_components mem (format description) componentWidth (unat components) readPtr of
        Inl e \<Rightarrow> Inl e
      | Inr (lits, readPtr') \<Rightarrow>
          if loc < length strs
          then read_locations mem rest (Suc loc) readPtr' (strs[loc := strs ! loc @ lits])
          else Inl (OutOfRange ''bufferDeclStrings''))))"

text \<open>
  The loop over the elements of the buffer, lines 913 to 947. \<open>bufferOffset\<close> is a
  \<^verbatim>\<open>uint32_t\<close> compared with the 64-bit size of the buffer and advanced by the
  stride: with a stride of 0, or a size of 2^32 or more, the loop does not end, which is
  the value \<open>None\<close>.
\<close>

partial_function (option) vertex_walk ::
  "(64 word \<Rightarrow> 8 word) \<Rightarrow> VkVertexInputAttributeDescription list \<Rightarrow> 64 word \<Rightarrow> VkDeviceSize
     \<Rightarrow> uint32_t \<Rightarrow> uint32_t \<Rightarrow> chunk list list \<Rightarrow> (error + chunk list list) option" where
  "vertex_walk mem attrs bufferPtr sz strd bufferOffset strs =
     (if ucast bufferOffset < sz then
        (case read_locations mem attrs 0 (bufferPtr + ucast bufferOffset) strs of
           Inl e \<Rightarrow> Some (Inl e)
         | Inr strs' \<Rightarrow> vertex_walk mem attrs bufferPtr sz strd (bufferOffset + strd) strs')
      else Some (Inr strs))"

declare vertex_walk.simps [code]

definition end_streams :: "chunk list list \<Rightarrow> chunk list" where
  "end_streams bufferDeclStrings =
     concat (map (\<lambda>stream. stream @ [endl, Str ''END'', endl, endl]) bufferDeclStrings)"

text \<open>Lines 886 to 953, once the pointer \<open>bufferPtr\<close> to the data is known.\<close>

definition vertex_data ::
  "host \<Rightarrow> VkGraphicsPipelineCreateInfo \<Rightarrow> uint32_t \<Rightarrow> VkBufferCreateInfo
     \<Rightarrow> VkVertexInputBindingDescription \<Rightarrow> 64 word \<Rightarrow> streams \<Rightarrow> (error + streams) option" where
  "vertex_data h graphicsPipelineCreateInfo bindingNumber buffer bindingDescription bufferPtr s =
     (let attrs = pVertexAttributeDescriptions (pVertexInputState graphicsPipelineCreateInfo) in
      case vertex_headers bindingNumber attrs 0 (graphicsPipelineStringStream s, []) of
        Inl e \<Rightarrow> Some (Inl e)
      | Inr (gp, bufferDeclStrings) \<Rightarrow>
          (case vertex_walk (memory h) attrs bufferPtr (buf_size buffer)
                  (stride bindingDescription) 0 bufferDeclStrings of
             None \<Rightarrow> None
           | Some (Inl e) \<Rightarrow> Some (Inl e)
           | Some (Inr strs) \<Rightarrow>
               Some (Inr (s\<lparr>graphicsPipelineStringStream := gp,
                            bufferDeclarationStringStream :=
                              bufferDeclarationStringStream s @ end_streams strs\<rparr>))))"

text \<open>The body of the loop over the bound vertex buffers, lines 850 to 957.\<close>

definition vertex_binding ::
  "host \<Rightarrow> registries \<Rightarrow> BufferCopy list \<Rightarrow> VkGraphicsPipelineCreateInfo \<Rightarrow> uint32_t \<times> handle
     \<Rightarrow> streams \<Rightarrow> (error + streams) option" where
  "vertex_binding h g bufferCopies graphicsPipelineCreateInfo vertexBufferBinding s =
     (case umap_at ''buffers'' (buffers g) (snd vertexBufferBinding) of
        Inl e \<Rightarrow> Some (Inl e)
      | Inr buffer \<Rightarrow>
      if buf_usage buffer AND VK_BUFFER_USAGE_VERTEX_BUFFER_BIT = 0
        then Some (Inl (AssertFailed ''buffer.usage & VK_BUFFER_USAGE_VERTEX_BUFFER_BIT''))
      else
     (case array_read ''pVertexBindingDescriptions''
             (pVertexBindingDescriptions (pVertexInputState graphicsPipelineCreateInfo))
             (unat (fst vertexBufferBinding)) of
        Inl e \<Rightarrow> Some (Inl e)
      | Inr bindingDescription \<Rightarrow>
      if inputRate bindingDescription \<noteq> VK_VERTEX_INPUT_RATE_VERTEX
        then Some (Inl (AssertFailed ''inputRate not implemented''))
      else if umap_count (bufferToMemory g) (snd vertexBufferBinding) \<noteq> 0 then
        (let vertexBuffer = vertex_data_source bufferCopies (snd vertexBufferBinding) in
         case umap_at ''bufferToMemory'' (bufferToMemory g) vertexBuffer of
           Inl e \<Rightarrow> Some (Inl e)
         | Inr (deviceMemory, memoryOffset) \<Rightarrow>
         if umap_count (mappedMemory g) deviceMemory = 0
           then Some (Inl (AssertFailed ''Vertex buffer mapping not found''))
         else
        (case umap_at ''mappedMemory'' (mappedMemory g) deviceMemory of
           Inl e \<Rightarrow> Some (Inl e)
         | Inr memoryMapping \<Rightarrow>
             vertex_data h graphicsPipelineCreateInfo (fst vertexBufferBinding) buffer
               bindingDescription (snd (snd (snd memoryMapping))) s))
      else Some (Inr (s\<lparr>bufferDeclarationStringStream :=
                         bufferDeclarationStringStream s @ [Str ''...'']\<rparr>))))"

fun vertex_section ::
  "host \<Rightarrow> registries \<Rightarrow> BufferCopy list \<Rightarrow> VkGraphicsPipelineCreateInfo
     \<Rightarrow> (uint32_t, handle) unordered_map \<Rightarrow> streams \<Rightarrow> (error + streams) option" where
  "vertex_section h g bufferCopies pci [] s = Some (Inr s)"
| "vertex_section h g bufferCopies pci (vertexBufferBinding # rest) s =
     (case vertex_binding h g bufferCopies pci vertexBufferBinding s of
        None \<Rightarrow> None
      | Some (Inl e) \<Rightarrow> Some (Inl e)
      | Some (Inr s') \<Rightarrow> vertex_section h g bufferCopies pci rest s')"

section \<open>Scene serializer: index data\<close>

text \<open>
  The staging-buffer check for the index buffer, lines 968 to 986: it also takes the
  source offset of the single region of the copy.
\<close>

fun find_index_staging :: "BufferCopy list \<Rightarrow> handle \<Rightarrow> error + handle \<times> VkDeviceSize" where
  "find_index_staging [] bound = Inr (nullptr, 0)"
| "find_index_staging (bufferCopy # rest) bound =
     (if dstBuffer bufferCopy = bound then
        (if length (regions bufferCopy) \<noteq> 1
           then Inl (AssertFailed ''Only one copy region supported.'')
         else Inr (srcBuffer bufferCopy, srcOffset (regions bufferCopy ! 0)))
      else find_index_staging rest bound)"

text \<open>The two loops over \<open>indexIdx\<close>, lines 1006 to 1009 and 1014 to 1017.\<close>

fun emit_indices16 :: "(64 word \<Rightarrow> 8 word) \<Rightarrow> 64 word \<Rightarrow> nat list \<Rightarrow> chunk list" where
  "emit_indices16 mem ptr [] = []"
| "emit_indices16 mem ptr (indexIdx # rest) =
     [UInt (unat (load_u16 mem (ptr + 2 * of_nat indexIdx))), Str '' '']
        @ emit_indices16 mem ptr rest"

fun emit_indices32 :: "(64 word \<Rightarrow> 8 word) \<Rightarrow> 64 word \<Rightarrow> nat list \<Rightarrow> chunk list" where
  "emit_indices32 mem ptr [] = []"
| "emit_indices32 mem ptr (indexIdx # rest) =
     [UInt (unat (load_u32 mem (ptr + 4 * of_nat indexIdx))), Str '' '']
        @ emit_indices32 mem ptr rest"

text \<open>
  The address the index data is read from, lines 996 to 1001: \<open>Inl\<close> when the buffer,
  its memory or the mapping is missing.
\<close>

definition index_data_pointer ::
  "registries \<Rightarrow> BufferCopy list \<Rightarrow> IndexBufferBinding \<Rightarrow> error + 64 word" where
  "index_data_pointer g bufferCopies ib =
     (case find_index_staging bufferCopies (ib_buffer ib) of
        Inl e \<Rightarrow> Inl e
      | Inr (staged, bufferCopyOffset) \<Rightarrow>
          let indexBuffer = (if staged = nullptr then ib_buffer ib else staged) in
          (case umap_at ''bufferToMemory'' (bufferToMemory g) indexBuffer of
             Inl e \<Rightarrow> Inl e
           | Inr (deviceMemory, memoryOffset) \<Rightarrow>
               if umap_count (mappedMemory g) deviceMemory = 0
                 then Inl (AssertFailed ''Index buffer mapping not found'')
               else
                 (case umap_at ''mappedMemory'' (mappedMemory g) deviceMemory of
                    Inl e \<Rightarrow> Inl e
                  | Inr memoryMapping \<Rightarrow>
                      Inr (snd (snd (snd memoryMapping)) + bufferCopyOffset + ib_offset ib))))"

text \<open>Lines 959 to 1025.\<close>

definition index_section ::
  "host \<Rightarrow> registries \<Rightarrow> BufferCopy list \<Rightarrow> DrawCallStateTracker \<Rightarrow> uint32_t \<Rightarrow> streams
     \<Rightarrow> error + streams" where
  "index_section h g bufferCopies t indexCount s =
     (if indexCount > 0 then
        (case umap_at ''buffers'' (buffers g) (ib_buffer (boundIndexBuffer t)) of
           Inl e \<Rightarrow> Inl e
         | Inr buffer \<Rightarrow>
         if buf_usage buffer AND VK_BUFFER_USAGE_INDEX_BUFFER_BIT = 0
           then Inl (AssertFailed ''buffer.usage & VK_BUFFER_USAGE_INDEX_BUFFER_BIT'')
         else if umap_count (bufferToMemory g) (ib_buffer (boundIndexBuffer t)) = 0
           then Inl (AssertFailed ''Index buffer memory not found'')
         else
        (case index_data_pointer g bufferCopies (boundIndexBuffer t) of
           Inl e \<Rightarrow> Inl e
         | Inr bufferPtr \<Rightarrow>
        (case (case ib_indexType (boundIndexBuffer t) of
                 VK_INDEX_TYPE_UINT16 \<Rightarrow>
                   Inr (emit_indices16 (memory h) bufferPtr [0 ..< unat indexCount])
               | VK_INDEX_TYPE_UINT32 \<Rightarrow>
                   Inr (emit_indices32 (memory h) bufferPtr [0 ..< unat indexCount])
               | VK_INDEX_TYPE_other n \<Rightarrow> Inl (AssertFailed ''Invalid indexType'')) of
           Inl e \<Rightarrow> Inl e
         | Inr literals \<Rightarrow>
             Inr (s\<lparr>graphicsPipelineStringStream :=
                      graphicsPipelineStringStream s @ [Str ''  INDEX_DATA index_buffer'', endl],
                    bufferDeclarationStringStream :=
                      bufferDeclarationStringStream s
                        @ [Str ''BUFFER index_buffer DATA_TYPE uint32 '', Str ''DATA '', endl,
                           Str ''  '']
                        @ literals @ [endl, Str ''END'', endl, endl]\<rparr>))))
      else Inr s)"

section \<open>Scene serializer: descriptor sets\<close>

definition descriptor_buffer_name :: "uint32_t \<Rightarrow> uint32_t \<Rightarrow> chunk list" where
  "descriptor_buffer_name descriptorSetNumber bindingNumber =
     [Str ''buf_'', UInt (unat descriptorSetNumber), Str ''_'', UInt (unat bindingNumber)]"

text \<open>The loop over \<open>bidx\<close>, lines 1064 to 1069.\<close>

fun emit_floats :: "(64 word \<Rightarrow> 8 word) \<Rightarrow> 64 word \<Rightarrow> nat list \<Rightarrow> chunk list" where
  "emit_floats mem thePtr [] = []"
| "emit_floats mem thePtr (bidx # rest) =
     (if bidx > 0 then [Str '' ''] else []) @ [Float (load_u32 mem (thePtr + 4 * of_nat bidx))]
        @ emit_floats mem thePtr rest"

text \<open>
  What is written between the header and the \<^verbatim>\<open>END\<close> of the data block of one
  binding slot, lines 1052 to 1073. \<open>bidx\<close> is an \<^verbatim>\<open>int\<close>: a range of 2^31 floats
  or more overflows it.
\<close>

definition descriptor_data ::
  "host \<Rightarrow> registries \<Rightarrow> VkBufferCreateInfo \<Rightarrow> VkDescriptorBufferInfo \<Rightarrow> error + chunk list" where
  "descriptor_data h g bufferCreateInfo bufferInfo =
     (if umap_count (bufferToMemory g) (dbi_buffer bufferInfo) \<noteq> 0 then
        (case umap_at ''bufferToMemory'' (bufferToMemory g) (dbi_buffer bufferInfo) of
           Inl e \<Rightarrow> Inl e
         | Inr (deviceMemory, memoryOffset) \<Rightarrow>
             if umap_count (mappedMemory g) deviceMemory \<noteq> 0 then
               (case umap_at ''mappedMemory'' (mappedMemory g) deviceMemory of
                  Inl e \<Rightarrow> Inl e
                | Inr memoryMappingEntry \<Rightarrow>
                    let range = (if dbi_range bufferInfo = VK_WHOLE_SIZE
                                 then buf_size bufferCreateInfo else dbi_range bufferInfo) in
                    if fst memoryMappingEntry \<noteq> 0
                      then Inl (AssertFailed ''std::get<0>(memoryMappingEntry) == 0'')
                    else if \<not> fst (snd memoryMappingEntry) \<ge> range
                      then Inl (AssertFailed ''std::get<1>(memoryMappingEntry) >= range'')
                    else if unat (range div 4) \<ge> 2 ^ 31
                      then Inl (UndefinedBehaviour ''bidx++'')
                    else Inr (emit_floats (memory h) (snd (snd (snd memoryMappingEntry)))
                                [0 ..< unat (range div 4)]))
             else Inr [])
      else Inr [Str ''...''])"

text \<open>The body of the loop over the binding slots of one descriptor set, lines 1035 to 1086.\<close>

definition descriptor_slot ::
  "host \<Rightarrow> registries \<Rightarrow> uint32_t \<Rightarrow> VkDescriptorSetLayoutCreateInfo
     \<Rightarrow> uint32_t \<times> VkDescriptorBufferInfo \<Rightarrow> streams \<Rightarrow> error + streams" where
  "descriptor_slot h g descriptorSetNumber layoutCreateInfo bindingAndBuffer s =
     (let bindingNumber = fst bindingAndBuffer; bufferInfo = snd bindingAndBuffer;
          bufferName = descriptor_buffer_name descriptorSetNumber bindingNumber in
      case umap_at ''buffers'' (buffers g) (dbi_buffer bufferInfo) of
        Inl e \<Rightarrow> Inl e
      | Inr bufferCreateInfo \<Rightarrow>
      if dbi_offset bufferInfo \<noteq> 0 then Inl (AssertFailed ''bufferInfo.offset == 0'')
      else
     (case descriptor_data h g bufferCreateInfo bufferInfo of
        Inl e \<Rightarrow> Inl e
      | Inr dat \<Rightarrow>
     (case array_read ''pBindings'' (pBindings layoutCreateInfo) (unat bindingNumber) of
        Inl e \<Rightarrow> Inl e
      | Inr layoutBinding \<Rightarrow>
          Inr (s\<lparr>bufferDeclarationStringStream :=
                   bufferDeclarationStringStream s
                     @ [Str ''BUFFER ''] @ bufferName
                     @ [Str '' DATA_TYPE '', Str ''float'', Str '' DATA'', endl, Str ''  '']
                     @ dat @ [endl, Str ''END'', endl, endl],
                 descriptorSetBindingStringStream :=
                   descriptorSetBindingStringStream s
                     @ [Str ''  BIND BUFFER ''] @ bufferName @ [Str '' AS '',
                        Str (if descriptorType layoutBinding = VK_DESCRIPTOR_TYPE_UNIFORM_BUFFER
                             then ''uniform'' else ''...''),
                        Str '' DESCRIPTOR_SET '', UInt (unat descriptorSetNumber),
                        Str '' BINDING '', UInt (unat bindingNumber), endl]\<rparr>))))"

fun descriptor_slots ::
  "host \<Rightarrow> registries \<Rightarrow> uint32_t \<Rightarrow> VkDescriptorSetLayoutCreateInfo
     \<Rightarrow> (uint32_t, VkDescriptorBufferInfo) unordered_map \<Rightarrow> streams \<Rightarrow> error + streams" where
  "descriptor_slots h g descriptorSetNumber layoutCreateInfo [] s = Inr s"
| "descriptor_slots h g descriptorSetNumber layoutCreateInfo (bindingAndBuffer # rest) s =
     (case descriptor_slot h g descriptorSetNumber layoutCreateInfo bindingAndBuffer s of
        Inl e \<Rightarrow> Inl e
      | Inr s' \<Rightarrow> descriptor_slots h g descriptorSetNumber layoutCreateInfo rest s')"

text \<open>The loop over the bound descriptor sets, lines 1027 to 1087.\<close>

fun descriptor_section ::
  "host \<Rightarrow> registries \<Rightarrow> (uint32_t, handle) unordered_map \<Rightarrow> streams \<Rightarrow> error + streams" where
  "descriptor_section h g [] s = Inr s"
| "descriptor_section h g (descriptorSet # rest) s =
     (case umap_at ''descriptorSets'' (descriptorSets g) (snd descriptorSet) of
        Inl e \<Rightarrow> Inl e
      | Inr layout \<Rightarrow>
     (case umap_at ''descriptorSetLayouts'' (descriptorSetLayouts g) layout of
        Inl e \<Rightarrow> Inl e
      | Inr layoutCreateInfo \<Rightarrow>
     (case umap_at ''descriptorSetToBindingBuffer'' (descriptorSetToBindingBuffer g)
             (snd descriptorSet) of
        Inl e \<Rightarrow> Inl e
      | Inr bindingAndBuffers \<Rightarrow>
     (case descriptor_slots h g (fst descriptorSet) layoutCreateInfo bindingAndBuffers s of
        Inl e \<Rightarrow> Inl e
      | Inr s' \<Rightarrow> descriptor_section h g rest s'))))"

section \<open>Scene serializer: \<^verbatim>\<open>HandleDrawCall\<close>\<close>

text \<open>The loop over the colour attachments of the current subpass, lines 1091 to 1102.\<close>

fun framebuffer_attachments :: "nat list \<Rightarrow> streams \<Rightarrow> streams" where
  "framebuffer_attachments [] s = s"
| "framebuffer_attachments (colorAttachment # rest) s =
     framebuffer_attachments rest
       (s\<lparr>bufferDeclarationStringStream :=
            bufferDeclarationStringStream s
              @ [Str ''BUFFER framebuffer_'', UInt colorAttachment,
                 Str '' FORMAT B8G8R8A8_UNORM'', endl, endl],
          framebufferAttachmentStringStream :=
            framebufferAttachmentStringStream s
              @ [Str ''  BIND BUFFER framebuffer_'', UInt colorAttachment,
                 Str '' AS color LOCATION '', UInt colorAttachment, endl]\<rparr>)"

text \<open>
  How a call of \<^verbatim>\<open>HandleDrawCall\<close> ends: it returns to the replay having written
  nothing, or it has written a script to the standard output and ends the process with
  \<^verbatim>\<open>exit(0)\<close>, or it stops on a fatal condition after the output written so far.
\<close>

datatype draw_result =
    Returned
  | Exited "chunk list"
  | Aborted "chunk list" error

definition render_pass_assertion :: string where
  "render_pass_assertion = ''drawCallStateTracker.currentRenderPass''"

text \<open>What lines 813 to 843 print around the two disassemblies.\<close>

definition amber_header :: "chunk list" where
  "amber_header =
     [Str ''#!amber'', endl, endl,
      Str ''SHADER vertex vertex_shader SPIRV-ASM'', endl]"

definition shader_header :: "string \<Rightarrow> chunk list" where
  "shader_header vertex_disassembly =
     amber_header
       @ [Str vertex_disassembly, Str ''END'', endl, endl,
          Str ''SHADER fragment fragment_shader SPIRV-ASM'', endl]"

definition texture_preamble :: "chunk list" where
  "texture_preamble =
     [Str ''END'', endl, endl,
      Str ''# Shaders for creating a 2x2 texture.'', endl,
      Str ''SHADER vertex vert_shader PASSTHROUGH'', endl,
      Str ''SHADER fragment frag_shader_red GLSL'', endl,
      Str ''#version 430'', endl,
      Str ''layout(location = 0) out vec4 color_out;'', endl,
      Str ''void main() {'', endl,
      Str ''  color_out = vec4(1.0, 0.0, 0.0, 1.0);'', endl,
      Str ''}'', endl,
      Str ''END'', endl, endl,
      Str ''BUFFER texture FORMAT R8G8B8A8_UNORM'', endl,
      Str ''SAMPLER sampler'', endl, endl,
      Str ''PIPELINE graphics texture_create_pipeline'', endl,
      Str ''  ATTACH vert_shader'', endl,
      Str ''  ATTACH frag_shader_red'', endl,
      Str ''  FRAMEBUFFER_SIZE 2 2'', endl,
      Str ''  BIND BUFFER texture AS color LOCATION 0'', endl,
      Str ''END'', endl]"

text \<open>What lines 1104 to 1108 and 1111 to 1136 print.\<close>

definition pipeline_opening :: "streams \<Rightarrow> chunk list" where
  "pipeline_opening s =
     bufferDeclarationStringStream s
       @ [Str ''PIPELINE graphics pipeline'', endl,
          Str ''  ATTACH vertex_shader'', endl,
          Str ''  ATTACH fragment_shader'', endl]"

definition pipeline_body :: "VkFramebufferCreateInfo \<Rightarrow> streams \<Rightarrow> chunk list" where
  "pipeline_body framebufferCreateInfo s =
     [Str ''  FRAMEBUFFER_SIZE '', UInt (unat (width framebufferCreateInfo)), Str '' '',
      UInt (unat (height framebufferCreateInfo)), endl]
       @ framebufferAttachmentStringStream s
       @ descriptorSetBindingStringStream s
       @ graphicsPipelineStringStream s
       @ [Str ''  BIND SAMPLER sampler DESCRIPTOR_SET 0 BINDING 1'', endl,
          Str ''  BIND BUFFER texture AS sampled_image DESCRIPTOR_SET 0 BINDING 2'', endl,
          Str ''END'', endl, endl,
          Str ''CLEAR_COLOR pipeline 0 0 0 255'', endl, endl,
          Str ''# Generate a 2x2 texture with a one pixel sized chessboard pattern.'', endl,
          Str ''CLEAR_COLOR texture_create_pipeline 0 0 255 255'', endl,
          Str ''CLEAR texture_create_pipeline'', endl,
          Str ''RUN texture_create_pipeline DRAW_RECT POS 0 0 SIZE 1 1'', endl,
          Str ''RUN texture_create_pipeline DRAW_RECT POS 1 1 SIZE 1 1'', endl, endl,
          Str ''CLEAR pipeline'', endl]"

text \<open>
  Lines 845 to 1102: the string streams that the vertex buffers, the index buffer, the
  descriptor sets and the colour attachments fill, none of which is printed before all
  are complete.
\<close>

definition fill_streams ::
  "host \<Rightarrow> registries \<Rightarrow> BufferCopy list \<Rightarrow> DrawCallStateTracker \<Rightarrow> uint32_t
     \<Rightarrow> VkGraphicsPipelineCreateInfo \<Rightarrow> VkRenderPassBeginInfo \<Rightarrow> (error + streams) option" where
  "fill_streams h g bufferCopies t indexCount graphicsPipelineCreateInfo rp =
     (case vertex_section h g bufferCopies graphicsPipelineCreateInfo (boundVertexBuffers t)
             empty_streams of
        None \<Rightarrow> None
      | Some (Inl e) \<Rightarrow> Some (Inl e)
      | Some (Inr s1) \<Rightarrow>
     (case index_section h g bufferCopies t indexCount s1 of
        Inl e \<Rightarrow> Some (Inl e)
      | Inr s2 \<Rightarrow>
     (case descriptor_section h g (boundGraphicsDescriptorSets t) s2 of
        Inl e \<Rightarrow> Some (Inl e)
      | Inr s3 \<Rightarrow>
     (case umap_at ''renderPasses'' (renderPasses g) (renderPass rp) of
        Inl e \<Rightarrow> Some (Inl e)
      | Inr renderPassCreateInfo \<Rightarrow>
     (case array_read ''pSubpasses'' (pSubpasses renderPassCreateInfo)
             (unat (currentSubpass t)) of
        Inl e \<Rightarrow> Some (Inl e)
      | Inr subpass \<Rightarrow>
          Some (Inr (framebuffer_attachments [0 ..< unat (colorAttachmentCount subpass)] s3)))))))"

text \<open>\<^verbatim>\<open>HandleDrawCall\<close>, lines 787 to 1149. \<open>None\<close> is a call that does not end.\<close>

definition HandleDrawCall ::
  "host \<Rightarrow> registries \<Rightarrow> BufferCopy list \<Rightarrow> DrawCallStateTracker \<Rightarrow> uint32_t
     \<Rightarrow> draw_result option" where
  "HandleDrawCall h g bufferCopies drawCallStateTracker indexCount =
     (if \<not> graphicsPipelineIsBound drawCallStateTracker then Some Returned
      else
     (case currentRenderPass drawCallStateTracker of
        None \<Rightarrow> Some (Aborted [] (AssertFailed render_pass_assertion))
      | Some rp \<Rightarrow>
     (case umap_at ''graphicsPipelines'' (graphicsPipelines g)
             (boundGraphicsPipeline drawCallStateTracker) of
        Inl e \<Rightarrow> Some (Aborted [] e)
      | Inr graphicsPipelineCreateInfo \<Rightarrow>
     (case resolve_shaders graphicsPipelineCreateInfo of
        Inl e \<Rightarrow> Some (Aborted [] e)
      | Inr (vertexShader, fragmentShader) \<Rightarrow>
     (case GetDisassembly h g vertexShader of
        Inl e \<Rightarrow> Some (Aborted amber_header e)
      | Inr vertex_disassembly \<Rightarrow>
     (case GetDisassembly h g fragmentShader of
        Inl e \<Rightarrow> Some (Aborted (shader_header vertex_disassembly) e)
      | Inr fragment_disassembly \<Rightarrow>
          let out1 = shader_header vertex_disassembly @ [Str fragment_disassembly]
                       @ texture_preamble in
     (case fill_streams h g bufferCopies drawCallStateTracker indexCount
             graphicsPipelineCreateInfo rp of
        None \<Rightarrow> None
      | Some (Inl e) \<Rightarrow> Some (Aborted out1 e)
      | Some (Inr s) \<Rightarrow>
          let out2 = out1 @ pipeline_opening s in
     (case umap_at ''framebuffers'' (framebuffers g) (framebuffer rp) of
        Inl e \<Rightarrow> Some (Aborted out2 e)
      | Inr framebufferCreateInfo \<Rightarrow>
          let out3 = out2 @ pipeline_body framebufferCreateInfo s in
     (case topologies (topology graphicsPipelineCreateInfo) of
        None \<Rightarrow> Some (Aborted out3 (OutOfRange ''topologies''))
      | Some tp \<Rightarrow>
          Some (Exited
            (out3 @ (if indexCount > 0
                     then [Str ''RUN pipeline DRAW_ARRAY AS '', Str tp, Str '' INDEXED'', endl]
                     else [Str ''RUN pipeline DRAW_ARRAY AS '', Str tp, endl]))))))))))))"

section \<open>Replay at submission\<close>

text \<open>
  How the replay of a command buffer ends: at the end of the log, with the snapshot and
  the list of buffer copies; or with the process ended by the serializer.
\<close>

datatype replay_result =
    Finished DrawCallStateTracker "BufferCopy list"
  | Exit "chunk list"
  | Abort "chunk list" error

text \<open>
  One record of the log, lines 667 to 730: the two draw records call the serializer, with
  an index count of 0 for a draw that is not indexed; every other record is folded into the
  snapshot by \<open>track\<close>. The closed datatype leaves no record for the final
  \<^verbatim>\<open>assert(false && "Unknown command.")\<close>.
\<close>

fun replay ::
  "host \<Rightarrow> registries \<Rightarrow> Cmd list \<Rightarrow> DrawCallStateTracker \<times> BufferCopy list
     \<Rightarrow> replay_result option" where
  "replay h g [] (t, bufferCopies) = Some (Finished t bufferCopies)"
| "replay h g (CmdDraw vertexCount instanceCount firstVertex firstInstance # rest)
       (t, bufferCopies) =
     (case HandleDrawCall h g bufferCopies t 0 of
        None \<Rightarrow> None
      | Some Returned \<Rightarrow> replay h g rest (t, bufferCopies)
      | Some (Exited out) \<Rightarrow> Some (Exit out)
      | Some (Aborted out e) \<Rightarrow> Some (Abort out e))"
| "replay h g (CmdDrawIndexed indexCount instanceCount firstIndex vertexOffset firstInstance
       # rest) (t, bufferCopies) =
     (case HandleDrawCall h g bufferCopies t indexCount of
        None \<Rightarrow> None
      | Some Returned \<Rightarrow> replay h g rest (t, bufferCopies)
      | Some (Exited out) \<Rightarrow> Some (Exit out)
      | Some (Aborted out e) \<Rightarrow> Some (Abort out e))"
| "replay h g (cmd # rest) (t, bufferCopies) =
     (case track cmd (t, bufferCopies) of
        Inl e \<Rightarrow> Some (Abort [] e)
      | Inr st \<Rightarrow> replay h g rest st)"

text \<open>
  The loops over the command buffers of the submissions, lines 654 to 733: a fresh
  snapshot for each command buffer, no replay for a command buffer without a log, and
  the list of buffer copies carried from one command buffer to the next.
\<close>

fun replay_command_buffers ::
  "host \<Rightarrow> registries \<Rightarrow> (handle, Cmd list) unordered_map \<Rightarrow> handle list \<Rightarrow> BufferCopy list
     \<Rightarrow> replay_result option" where
  "replay_command_buffers h g command_buffers [] bufferCopies =
     Some (Finished fresh_tracker bufferCopies)"
| "replay_command_buffers h g command_buffers (command_buffer # rest) bufferCopies =
     (if umap_count command_buffers command_buffer = 0
        then replay_command_buffers h g command_buffers rest bufferCopies
      else
        (case umap_at ''command_buffers'' command_buffers command_buffer of
           Inl e \<Rightarrow> Some (Abort [] e)
         | Inr cmds \<Rightarrow>
             (case replay h g cmds (fresh_tracker, bufferCopies) of
                None \<Rightarrow> None
              | Some (Finished t bufferCopies') \<Rightarrow>
                  replay_command_buffers h g command_buffers rest bufferCopies'
              | Some r \<Rightarrow> Some r)))"

text \<open>
  \<^verbatim>\<open>vkQueueSubmit\<close>: \<open>pSubmits\<close> is the list of the command-buffer arrays of the
  submissions, replayed in order, before the call is forwarded.
\<close>

definition vkQueueSubmit ::
  "host \<Rightarrow> registries \<Rightarrow> (handle, Cmd list) unordered_map \<Rightarrow> (handle list list \<Rightarrow> VkResult)
     \<Rightarrow> handle list list \<Rightarrow> BufferCopy list \<Rightarrow> (replay_result + VkResult \<times> BufferCopy list) option" where
  "vkQueueSubmit h g command_buffers next pSubmits bufferCopies =
     (case replay_command_buffers h g command_buffers (concat pSubmits) bufferCopies of
        None \<Rightarrow> None
      | Some (Finished t bufferCopies') \<Rightarrow> Some (Inr (next pSubmits, bufferCopies'))
      | Some r \<Rightarrow> Some (Inl r))"

section \<open>Preconditions and sample inputs\<close>

text \<open>
  The precondition on a log that every draw or draw-indexed record that is reached with a
  graphics pipeline bound comes after a begin-render-pass record; \<open>begun\<close> says whether
  a begin-render-pass record has been seen already, \<open>bound\<close> whether a graphics pipeline
  has been bound already.
\<close>

fun draws_preceded :: "bool \<Rightarrow> bool \<Rightarrow> Cmd list \<Rightarrow> bool" where
  "draws_preceded begun bound [] = True"
| "draws_preceded begun bound (CmdBeginRenderPass rp contents # rest) =
     draws_preceded True bound rest"
| "draws_preceded begun bound (CmdBindPipeline bp p # rest) =
     draws_preceded begun (bound \<or> bp = VK_PIPELINE_BIND_POINT_GRAPHICS) rest"
| "draws_preceded begun bound (CmdDraw a b c d # rest) =
     ((bound \<longrightarrow> begun) \<and> draws_preceded begun bound rest)"
| "draws_preceded begun bound (CmdDrawIndexed a b c d e # rest) =
     ((bound \<longrightarrow> begun) \<and> draws_preceded begun bound rest)"
| "draws_preceded begun bound (cmd # rest) = draws_preceded begun bound rest"

text \<open>
  A host for the sample runs: the byte at an address is the low byte of the address, every
  version word is valid and the disassembly is a fixed text.
\<close>

definition sample_host :: host where
  "sample_host =
     \<lparr>memory = (\<lambda>a. ucast a), GetTargetEnvFromSpirvBinary = (\<lambda>w. (True, 0)),
      tools_IsValid = (\<lambda>env. True), Disassemble = (\<lambda>env binary. ''OpNop'')\<rparr>"

text \<open>A driver whose \<^verbatim>\<open>vkMapMemory\<close> succeeds and maps at the pointer \<open>p\<close>.\<close>

definition maps_at ::
  "handle \<Rightarrow> handle \<Rightarrow> VkDeviceSize \<Rightarrow> VkDeviceSize \<Rightarrow> uint32_t \<Rightarrow> VkResult \<times> handle" where
  "maps_at p mem offs sz flags = (VK_SUCCESS, p)"

text \<open>The unsigned literals of a piece of output, in order.\<close>

fun uint_literals :: "chunk list \<Rightarrow> nat list" where
  "uint_literals [] = []"
| "uint_literals (UInt n # rest) = n # uint_literals rest"
| "uint_literals (c # rest) = uint_literals rest"

text \<open>
  The data type that a pipeline declares for a location, in the words of the spec: the
  format of the vertex-input attribute description whose \<open>location\<close> member is that
  location (the first one, should several name it).
\<close>

definition declared_type_for_location ::
  "VkVertexInputAttributeDescription list \<Rightarrow> nat \<Rightarrow> (error + chunk list) option" where
  "declared_type_for_location attrs loc =
     (case find (\<lambda>d. unat (location d) = loc) attrs of
        None \<Rightarrow> None
      | Some d \<Rightarrow> Some (getBufferTypeName (format d)))"

text \<open>
  A sample scene. Buffer 5 is an index buffer in memory 7, mapped at 0x1000. Buffer 6 is a
  vertex buffer in memory 9, which is not mapped; it is the destination of a copy from
  the staging buffer 8 in memory 11, mapped at 0x2000. Buffer 10 is a uniform buffer
  without memory, buffer 12 a uniform buffer in memory 13, which is not mapped; both are
  written to descriptor set 40. Buffer 14 is a vertex buffer without a recorded memory
  binding.
\<close>

definition sample_pipeline :: VkGraphicsPipelineCreateInfo where
  "sample_pipeline =
     \<lparr>pStages = [\<lparr>stage = VK_SHADER_STAGE_VERTEX_BIT, module = 30\<rparr>,
                 \<lparr>stage = VK_SHADER_STAGE_FRAGMENT_BIT, module = 31\<rparr>],
      pVertexInputState =
        \<lparr>pVertexBindingDescriptions =
           [\<lparr>vib_binding = 0, stride = 12, inputRate = VK_VERTEX_INPUT_RATE_VERTEX\<rparr>],
         pVertexAttributeDescriptions =
           [\<lparr>location = 0, binding = 0, format = VK_FORMAT_R32G32_SFLOAT, offset = 0\<rparr>,
            \<lparr>location = 1, binding = 0, format = VK_FORMAT_R32_UINT, offset = 8\<rparr>]\<rparr>,
      topology = VK_PRIMITIVE_TOPOLOGY_TRIANGLE_LIST\<rparr>"

text \<open>The same pipeline with the two attribute descriptions listed in the other order.\<close>

definition swapped_pipeline :: VkGraphicsPipelineCreateInfo where
  "swapped_pipeline =
     sample_pipeline\<lparr>pVertexInputState :=
        \<lparr>pVertexBindingDescriptions =
           [\<lparr>vib_binding = 0, stride = 12, inputRate = VK_VERTEX_INPUT_RATE_VERTEX\<rparr>],
         pVertexAttributeDescriptions =
           [\<lparr>location = 1, binding = 0, format = VK_FORMAT_R32_UINT, offset = 8\<rparr>,
            \<lparr>location = 0, binding = 0, format = VK_FORMAT_R32G32_SFLOAT, offset = 0\<rparr>]\<rparr>\<rparr>"

definition sample_registries :: registries where
  "sample_registries =
     \<lparr>mappedMemory = [(7, (0, 64, 0, 0x1000)), (11, (0, 64, 0, 0x2000))],
      bufferToMemory = [(5, (7, 0)), (6, (9, 0)), (8, (11, 0)), (12, (13, 0))],
      buffers =
        [(5, \<lparr>buf_size = 12, buf_usage = 0x40\<rparr>), (6, \<lparr>buf_size = 24, buf_usage = 0x80\<rparr>),
         (8, \<lparr>buf_size = 24, buf_usage = 0x1\<rparr>), (10, \<lparr>buf_size = 8, buf_usage = 0x10\<rparr>),
         (12, \<lparr>buf_size = 8, buf_usage = 0x10\<rparr>), (14, \<lparr>buf_size = 24, buf_usage = 0x80\<rparr>)],
      descriptorSets = [(40, 41)],
      descriptorSetLayouts =
        [(41, \<lparr>pBindings =
                 [\<lparr>dslb_binding = 0, descriptorType = VK_DESCRIPTOR_TYPE_UNIFORM_BUFFER\<rparr>,
                  \<lparr>dslb_binding = 1, descriptorType = VK_DESCRIPTOR_TYPE_UNIFORM_BUFFER\<rparr>]\<rparr>)],
      framebuffers = [(2, \<lparr>width = 4, height = 4\<rparr>)],
      graphicsPipelines = [(20, sample_pipeline), (21, swapped_pipeline)],
      pipelineLayouts = [],
      renderPasses = [(1, \<lparr>pSubpasses = [\<lparr>colorAttachmentCount = 1\<rparr>]\<rparr>)],
      shaderModules =
        [(30, \<lparr>codeSize = 8, pCode = [0x07230203, 0x00010000]\<rparr>),
         (31, \<lparr>codeSize = 8, pCode = [0x07230203, 0x00010000]\<rparr>)],
      descriptorSetToBindingBuffer =
        [(40, [(0, \<lparr>dbi_buffer = 10, dbi_offset = 0, dbi_range = VK_WHOLE_SIZE\<rparr>),
               (1, \<lparr>dbi_buffer = 12, dbi_offset = 0, dbi_range = VK_WHOLE_SIZE\<rparr>)])]\<rparr>"

definition sample_copies :: "BufferCopy list" where
  "sample_copies =
     [\<lparr>srcBuffer = 8, dstBuffer = 6,
       regions = [\<lparr>srcOffset = 0, dstOffset = 0, copy_size = 24\<rparr>]\<rparr>]"

definition sample_tracker :: DrawCallStateTracker where
  "sample_tracker =
     \<lparr>graphicsPipelineIsBound = True, boundGraphicsPipeline = 20,
      currentRenderPass = Some \<lparr>renderPass = 1, framebuffer = 2\<rparr>, currentSubpass = 0,
      boundGraphicsDescriptorSets = [(0, 40)], boundVertexBuffers = [(0, 6)],
      boundIndexBuffer = \<lparr>ib_buffer = 5, ib_offset = 0, ib_indexType = VK_INDEX_TYPE_UINT16\<rparr>\<rparr>"

section \<open>Closed form of the vertex data\<close>

text \<open>
  The output of the vertex-data loops written without the loops: what each block holds,
  element by element, as a function of the attribute descriptions, the pointer to the
  data, the stride and the number of elements walked. The loops of the serializer are
  compared with these below.
\<close>

text \<open>The formats that the format tables of lines 542 to 644 know.\<close>

definition supported_format :: "VkFormat \<Rightarrow> bool" where
  "supported_format fmt = (case fmt of VK_FORMAT_other n \<Rightarrow> False | _ \<Rightarrow> True)"

text \<open>The literal printed for one 32-bit component of a format, lines 929 to 943.\<close>

definition literal :: "VkFormat \<Rightarrow> 32 word \<Rightarrow> chunk" where
  "literal fmt w =
     (case getFormatTypeCode fmt of
        Inr tInt32 \<Rightarrow> SInt (sint w)
      | Inr tUint32 \<Rightarrow> UInt (unat w)
      | _ \<Rightarrow> Float w)"

text \<open>The number of components and the Amber type name of an attribute description.\<close>

definition components :: "VkVertexInputAttributeDescription \<Rightarrow> nat" where
  "components d = (case getComponentCount (format d) of Inr c \<Rightarrow> unat c | Inl e \<Rightarrow> 0)"

definition type_name :: "VkVertexInputAttributeDescription \<Rightarrow> chunk list" where
  "type_name d = (case getBufferTypeName (format d) of Inr ty \<Rightarrow> ty | Inl e \<Rightarrow> [])"

text \<open>
  The literals of the attribute description at index \<open>k\<close> for the element that starts
  at \<open>p\<close>: its components follow those of the descriptions before it in the array, four
  bytes each.
\<close>

definition attribute_literals ::
  "(64 word \<Rightarrow> 8 word) \<Rightarrow> VkVertexInputAttributeDescription list \<Rightarrow> 64 word \<Rightarrow> nat \<Rightarrow> chunk list" where
  "attribute_literals mem attrs p k =
     concat (map (\<lambda>c. [literal (format (attrs ! k))
                         (load_u32 mem (p + 4 * of_nat (sum_list (map components (take k attrs)) + c))),
                       Str '' ''])
               [0 ..< components (attrs ! k)])"

text \<open>
  \<open>N\<close> is the number of elements that the loop over \<open>bufferOffset\<close> visits: the offsets
  \<open>0\<close>, \<open>strd\<close>, ... (computed in 32 bits) are below the size for the first \<open>N\<close>
  multiples and not for the next one.
\<close>

definition walked :: "VkDeviceSize \<Rightarrow> uint32_t \<Rightarrow> nat \<Rightarrow> bool" where
  "walked sz strd N =
     (list_all (\<lambda>e. ucast (of_nat e * strd) < sz) [0 ..< N] \<and> \<not> ucast (of_nat N * strd) < sz)"

text \<open>The data of the block at index \<open>k\<close>, all the blocks of one binding, and its pipeline lines.\<close>

definition block_data ::
  "(64 word \<Rightarrow> 8 word) \<Rightarrow> VkVertexInputAttributeDescription list \<Rightarrow> 64 word \<Rightarrow> uint32_t \<Rightarrow> nat
     \<Rightarrow> nat \<Rightarrow> chunk list" where
  "block_data mem attrs ptr strd N k =
     concat (map (\<lambda>e. attribute_literals mem attrs (ptr + ucast (of_nat e * strd)) k) [0 ..< N])"

definition vertex_blocks ::
  "(64 word \<Rightarrow> 8 word) \<Rightarrow> VkVertexInputAttributeDescription list \<Rightarrow> uint32_t \<Rightarrow> 64 word
     \<Rightarrow> uint32_t \<Rightarrow> nat \<Rightarrow> chunk list" where
  "vertex_blocks mem attrs bindingNumber ptr strd N =
     concat (map (\<lambda>k. [Str ''BUFFER ''] @ vertex_buffer_name bindingNumber k @ [Str '' DATA_TYPE '']
                      @ type_name (attrs ! k) @ [Str '' DATA '', endl, Str ''  '']
                      @ block_data mem attrs ptr strd N k @ [endl, Str ''END'', endl, endl])
               [0 ..< length attrs])"

definition vertex_lines :: "uint32_t \<Rightarrow> VkVertexInputAttributeDescription list \<Rightarrow> chunk list" where
  "vertex_lines bindingNumber attrs =
     concat (map (\<lambda>k. [Str ''  VERTEX_DATA ''] @ vertex_buffer_name bindingNumber k
                      @ [Str '' LOCATION '', UInt k, endl])
               [0 ..< length attrs])"

text \<open>
  The precondition under which the serialization of one vertex-buffer binding returns a
  result: the buffer is registered with the vertex usage bit, the binding number has a
  binding description with the per-vertex input rate, and either the buffer has no
  recorded memory binding or the memory of the data source is mapped, every attribute
  format is known, the stride is not 0 and size plus stride stays within 32 bits.
\<close>

definition binding_can_be_read ::
  "registries \<Rightarrow> BufferCopy list \<Rightarrow> VkGraphicsPipelineCreateInfo \<Rightarrow> uint32_t \<times> handle \<Rightarrow> bool" where
  "binding_can_be_read g bufferCopies pci vb =
     (case map_of (buffers g) (snd vb) of
        None \<Rightarrow> False
      | Some buffer \<Rightarrow>
          buf_usage buffer AND VK_BUFFER_USAGE_VERTEX_BUFFER_BIT \<noteq> 0 \<and>
          unat (fst vb) < length (pVertexBindingDescriptions (pVertexInputState pci)) \<and>
          (let bd = pVertexBindingDescriptions (pVertexInputState pci) ! unat (fst vb) in
           inputRate bd = VK_VERTEX_INPUT_RATE_VERTEX \<and>
           (map_of (bufferToMemory g) (snd vb) = None \<or>
            (case map_of (bufferToMemory g) (vertex_data_source bufferCopies (snd vb)) of
               None \<Rightarrow> False
             | Some (deviceMemory, memoryOffset) \<Rightarrow>
                 map_of (mappedMemory g) deviceMemory \<noteq> None \<and>
                 list_all (\<lambda>d. supported_format (format d))
                   (pVertexAttributeDescriptions (pVertexInputState pci)) \<and>
                 stride bd \<noteq> 0 \<and>
                 unat (buf_size buffer) + unat (stride bd) \<le> 2 ^ 32))))"

section \<open>Facts about the unordered maps\<close>

lemma map_of_umap_insert:
  "map_of (umap_insert k v m) k' =
     (case map_of m k' of Some x \<Rightarrow> Some x | None \<Rightarrow> if k' = k then Some v else None)"
  by (auto simp: umap_insert_def map_of_append map_add_def split: option.splits)

lemma distinct_umap_insert:
  "distinct (map fst m) \<Longrightarrow> distinct (map fst (umap_insert k v m))"
  by (auto simp: umap_insert_def map_of_eq_None_iff split: option.splits)

lemma filter_key_distinct:
  "distinct (map fst m) \<Longrightarrow> map_of m k = Some v \<Longrightarrow> length (filter (\<lambda>e. fst e = k) m) = 1"
proof (induction m)
  case Nil
  then show ?case by simp
next
  case (Cons p m)
  show ?case
  proof (cases "fst p = k")
    case True
    with Cons.prems have "k \<notin> fst ` set m" by simp
    then have "\<forall>e\<in>set m. fst e \<noteq> k" by force
    then have "filter (\<lambda>e. fst e = k) m = []" by (simp add: filter_empty_conv)
    with True show ?thesis by simp
  next
    case False
    with Cons show ?thesis by (cases p) auto
  qed
qed

lemma umap_at_Inr: "umap_at nm m k = Inr v \<longleftrightarrow> map_of m k = Some v"
  by (simp add: umap_at_def split: option.splits)

lemma array_read_Inr: "array_read nm xs i = Inr v \<longleftrightarrow> i < length xs \<and> v = xs ! i"
  by (auto simp: array_read_def)

section \<open>The memory-mapping registry\<close>

text \<open>
  C5 (as amended). After a successful mapping call the registry has an entry for the memory
  handle: the (offset, size, flags, pointer) of this call when the handle had no entry
  before, and the entry it already had otherwise, so a later successful call for the same
  handle does not overwrite the earlier one. The entries of the other handles are
  untouched, and a registry with at most one entry per handle has exactly one entry for
  the handle afterwards.
\<close>

theorem vkMapMemory_keeps_first_entry:
  assumes "next mem offs sz flags = (VK_SUCCESS, ppData)"
  shows "fst (vkMapMemory next mem offs sz flags g) = VK_SUCCESS \<and>
         map_of (mappedMemory (snd (vkMapMemory next mem offs sz flags g))) mem =
           Some (case map_of (mappedMemory g) mem of
                   None \<Rightarrow> (offs, sz, flags, ppData) | Some e \<Rightarrow> e) \<and>
         (\<forall>k. k \<noteq> mem \<longrightarrow>
            map_of (mappedMemory (snd (vkMapMemory next mem offs sz flags g))) k =
              map_of (mappedMemory g) k) \<and>
         (distinct (map fst (mappedMemory g)) \<longrightarrow>
            length (filter (\<lambda>e. fst e = mem)
              (mappedMemory (snd (vkMapMemory next mem offs sz flags g)))) = 1)"
proof -
  let ?g' = "snd (vkMapMemory next mem offs sz flags g)"
  have g': "mappedMemory ?g' = umap_insert mem (offs, sz, flags, ppData) (mappedMemory g)"
    and r: "fst (vkMapMemory next mem offs sz flags g) = VK_SUCCESS"
    using assms by (simp_all add: vkMapMemory_def)
  have look: "map_of (mappedMemory ?g') mem =
      Some (case map_of (mappedMemory g) mem of
                   None \<Rightarrow> (offs, sz, flags, ppData) | Some e \<Rightarrow> e)"
    by (simp add: g' map_of_umap_insert split: option.splits)
  have other: "\<forall>k. k \<noteq> mem \<longrightarrow> map_of (mappedMemory ?g') k = map_of (mappedMemory g) k"
    by (simp add: g' map_of_umap_insert split: option.splits)
  have one: "distinct (map fst (mappedMemory g)) \<longrightarrow>
      length (filter (\<lambda>e. fst e = mem) (mappedMemory ?g')) = 1"
    using filter_key_distinct [OF _ look] distinct_umap_insert [of "mappedMemory g"]
    by (simp add: g')
  from r look other one show ?thesis by blast
qed

text \<open>The theorem at a second mapping of memory object 7, mapped first at 0x1000.\<close>

theorem vkMapMemory_keeps_first_entry_witness:
  "fst (vkMapMemory (maps_at 0x2000) 7 16 32 0
          (snd (vkMapMemory (maps_at 0x1000) 7 0 64 0 no_registries))) = VK_SUCCESS \<and>
   map_of (mappedMemory (snd (vkMapMemory (maps_at 0x2000) 7 16 32 0
          (snd (vkMapMemory (maps_at 0x1000) 7 0 64 0 no_registries))))) 7 =
     Some (0, 64, 0, 0x1000) \<and>
   length (filter (\<lambda>e. fst e = 7) (mappedMemory (snd (vkMapMemory (maps_at 0x2000) 7 16 32 0
          (snd (vkMapMemory (maps_at 0x1000) 7 0 64 0 no_registries)))))) = 1"
proof -
  have h: "maps_at 0x2000 7 16 32 0 = (VK_SUCCESS, 0x2000)"
    by (simp add: maps_at_def)
  show ?thesis
    using vkMapMemory_keeps_first_entry [where ?next = "maps_at 0x2000" and mem = 7
        and offs = 16 and sz = 32 and flags = 0 and ppData = "0x2000"
        and g = "snd (vkMapMemory (maps_at 0x1000) 7 0 64 0 no_registries)", OF h]
    by (simp add: vkMapMemory_def maps_at_def no_registries_def umap_insert_def)
qed

text \<open>
  C5 as stated fails: after two successful mapping calls for memory object 7 the entry is
  not the (offset, size, flags, pointer) of the latest call.
\<close>

theorem remapping_does_not_overwrite:
  "fst (vkMapMemory (maps_at 0x2000) 7 16 32 0
          (snd (vkMapMemory (maps_at 0x1000) 7 0 64 0 no_registries))) = VK_SUCCESS \<and>
   umap_at ''mappedMemory'' (mappedMemory (snd (vkMapMemory (maps_at 0x2000) 7 16 32 0
          (snd (vkMapMemory (maps_at 0x1000) 7 0 64 0 no_registries))))) 7
     \<noteq> Inr (16, 32, 0, 0x2000)"
  by (simp add: vkMapMemory_def maps_at_def no_registries_def umap_insert_def umap_at_def)

section \<open>Failure of the forwarded call\<close>

lemma vkAllocateDescriptorSets_passthrough:
  "(fst (n1 ai) \<noteq> VK_SUCCESS \<longrightarrow> vkAllocateDescriptorSets n1 ai g = Inr (fst (n1 ai), g)) \<and>
   (\<forall>r g'. vkAllocateDescriptorSets n1 ai g = Inr (r, g') \<longrightarrow> r = fst (n1 ai))"
  by (auto simp: vkAllocateDescriptorSets_def split: prod.splits sum.splits if_splits)

lemma vkCreateGraphicsPipelines_passthrough:
  "(fst (n6 cnt pis) \<noteq> VK_SUCCESS \<longrightarrow>
      vkCreateGraphicsPipelines n6 cnt pis g = Inr (fst (n6 cnt pis), g)) \<and>
   (\<forall>r g'. vkCreateGraphicsPipelines n6 cnt pis g = Inr (r, g') \<longrightarrow> r = fst (n6 cnt pis))"
  by (auto simp: vkCreateGraphicsPipelines_def split: prod.splits sum.splits if_splits)

lemma vkBindBufferMemory_passthrough:
  "(n2 buffer dm memoryOffset \<noteq> VK_SUCCESS \<longrightarrow>
      vkBindBufferMemory n2 buffer dm memoryOffset g = (n2 buffer dm memoryOffset, g)) \<and>
   fst (vkBindBufferMemory n2 buffer dm memoryOffset g) = n2 buffer dm memoryOffset"
  by (simp add: vkBindBufferMemory_def Let_def)

lemma vkCreateBuffer_passthrough:
  "(fst (n3 bi) \<noteq> VK_SUCCESS \<longrightarrow> vkCreateBuffer n3 bi g = (fst (n3 bi), g)) \<and>
   fst (vkCreateBuffer n3 bi g) = fst (n3 bi)"
  by (simp add: vkCreateBuffer_def split: prod.splits)

lemma vkCreateDescriptorSetLayout_passthrough:
  "(fst (n4 li) \<noteq> VK_SUCCESS \<longrightarrow> vkCreateDescriptorSetLayout n4 li g = (fst (n4 li), g)) \<and>
   fst (vkCreateDescriptorSetLayout n4 li g) = fst (n4 li)"
  by (simp add: vkCreateDescriptorSetLayout_def split: prod.splits)

lemma vkCreateFramebuffer_passthrough:
  "(fst (n5 fi) \<noteq> VK_SUCCESS \<longrightarrow> vkCreateFramebuffer n5 fi g = (fst (n5 fi), g)) \<and>
   fst (vkCreateFramebuffer n5 fi g) = fst (n5 fi)"
  by (simp add: vkCreateFramebuffer_def split: prod.splits)

lemma vkCreatePipelineLayout_passthrough:
  "(fst (n7 pli) \<noteq> VK_SUCCESS \<longrightarrow> vkCreatePipelineLayout n7 pli g = (fst (n7 pli), g)) \<and>
   fst (vkCreatePipelineLayout n7 pli g) = fst (n7 pli)"
  by (simp add: vkCreatePipelineLayout_def split: prod.splits)

lemma vkCreateRenderPass_passthrough:
  "(fst (n8 rpi) \<noteq> VK_SUCCESS \<longrightarrow> vkCreateRenderPass n8 rpi g = (fst (n8 rpi), g)) \<and>
   fst (vkCreateRenderPass n8 rpi g) = fst (n8 rpi)"
  by (simp add: vkCreateRenderPass_def split: prod.splits)

lemma vkCreateShaderModule_passthrough:
  "(fst (n9 smi) \<noteq> VK_SUCCESS \<longrightarrow> vkCreateShaderModule n9 smi g = (fst (n9 smi), g)) \<and>
   fst (vkCreateShaderModule n9 smi g) = fst (n9 smi)"
  by (simp add: vkCreateShaderModule_def split: prod.splits)

lemma vkMapMemory_passthrough:
  "(fst (n10 mem offs sz flags) \<noteq> VK_SUCCESS \<longrightarrow>
      vkMapMemory n10 mem offs sz flags g = (fst (n10 mem offs sz flags), g)) \<and>
   fst (vkMapMemory n10 mem offs sz flags g) = fst (n10 mem offs sz flags)"
  by (simp add: vkMapMemory_def split: prod.splits)

text \<open>
  C8. For every intercepted creation, binding and mapping call: when the forwarded call
  returns a result other than \<^verbatim>\<open>VK_SUCCESS\<close>, the registries are unchanged and the
  intercepted call returns that result; and whatever the forwarded call returns, the
  intercepted call returns the same result.
\<close>

theorem passthrough_result_unchanged:
  "(fst (n1 ai) \<noteq> VK_SUCCESS \<longrightarrow> vkAllocateDescriptorSets n1 ai g = Inr (fst (n1 ai), g)) \<and>
   (\<forall>r g'. vkAllocateDescriptorSets n1 ai g = Inr (r, g') \<longrightarrow> r = fst (n1 ai)) \<and>
   (n2 buffer dm memoryOffset \<noteq> VK_SUCCESS \<longrightarrow>
      vkBindBufferMemory n2 buffer dm memoryOffset g = (n2 buffer dm memoryOffset, g)) \<and>
   fst (vkBindBufferMemory n2 buffer dm memoryOffset g) = n2 buffer dm memoryOffset \<and>
   (fst (n3 bi) \<noteq> VK_SUCCESS \<longrightarrow> vkCreateBuffer n3 bi g = (fst (n3 bi), g)) \<and>
   fst (vkCreateBuffer n3 bi g) = fst (n3 bi) \<and>
   (fst (n4 li) \<noteq> VK_SUCCESS \<longrightarrow> vkCreateDescriptorSetLayout n4 li g = (fst (n4 li), g)) \<and>
   fst (vkCreateDescriptorSetLayout n4 li g) = fst (n4 li) \<and>
   (fst (n5 fi) \<noteq> VK_SUCCESS \<longrightarrow> vkCreateFramebuffer n5 fi g = (fst (n5 fi), g)) \<and>
   fst (vkCreateFramebuffer n5 fi g) = fst (n5 fi) \<and>
   (fst (n6 cnt pis) \<noteq> VK_SUCCESS \<longrightarrow>
      vkCreateGraphicsPipelines n6 cnt pis g = Inr (fst (n6 cnt pis), g)) \<and>
   (\<forall>r g'. vkCreateGraphicsPipelines n6 cnt pis g = Inr (r, g') \<longrightarrow> r = fst (n6 cnt pis)) \<and>
   (fst (n7 pli) \<noteq> VK_SUCCESS \<longrightarrow> vkCreatePipelineLayout n7 pli g = (fst (n7 pli), g)) \<and>
   fst (vkCreatePipelineLayout n7 pli g) = fst (n7 pli) \<and>
   (fst (n8 rpi) \<noteq> VK_SUCCESS \<longrightarrow> vkCreateRenderPass n8 rpi g = (fst (n8 rpi), g)) \<and>
   fst (vkCreateRenderPass n8 rpi g) = fst (n8 rpi) \<and>
   (fst (n9 smi) \<noteq> VK_SUCCESS \<longrightarrow> vkCreateShaderModule n9 smi g = (fst (n9 smi), g)) \<and>
   fst (vkCreateShaderModule n9 smi g) = fst (n9 smi) \<and>
   (fst (n10 mem offs sz flags) \<noteq> VK_SUCCESS \<longrightarrow>
      vkMapMemory n10 mem offs sz flags g = (fst (n10 mem offs sz flags), g)) \<and>
   fst (vkMapMemory n10 mem offs sz flags g) = fst (n10 mem offs sz flags)"
  using vkAllocateDescriptorSets_passthrough [of n1 ai g]
    vkBindBufferMemory_passthrough [of n2 buffer dm memoryOffset g]
    vkCreateBuffer_passthrough [of n3 bi g]
    vkCreateDescriptorSetLayout_passthrough [of n4 li g]
    vkCreateFramebuffer_passthrough [of n5 fi g]
    vkCreateGraphicsPipelines_passthrough [of n6 cnt pis g]
    vkCreatePipelineLayout_passthrough [of n7 pli g]
    vkCreateRenderPass_passthrough [of n8 rpi g]
    vkCreateShaderModule_passthrough [of n9 smi g]
    vkMapMemory_passthrough [of n10 mem offs sz flags g]
  by blast

text \<open>
  The theorem at drivers that fail: each call returns the failure and leaves the empty
  registries empty.
\<close>

theorem passthrough_result_unchanged_witness:
  "vkAllocateDescriptorSets (\<lambda>i. (- 1000069000, [])) \<lparr>descriptorSetCount = 1, pSetLayouts = [4]\<rparr>
       no_registries = Inr (- 1000069000, no_registries) \<and>
   vkBindBufferMemory (\<lambda>b m off. - 2) 3 7 0 no_registries = (- 2, no_registries) \<and>
   vkCreateBuffer (\<lambda>i. (- 1, 0)) \<lparr>buf_size = 16, buf_usage = 0x80\<rparr> no_registries
     = (- 1, no_registries) \<and>
   vkCreateDescriptorSetLayout (\<lambda>i. (- 1, 0)) \<lparr>pBindings = []\<rparr> no_registries
     = (- 1, no_registries) \<and>
   vkCreateFramebuffer (\<lambda>i. (- 2, 0)) \<lparr>width = 4, height = 4\<rparr> no_registries
     = (- 2, no_registries) \<and>
   vkCreateGraphicsPipelines (\<lambda>n is. (- 1, [])) 0 [] no_registries = Inr (- 1, no_registries) \<and>
   vkCreatePipelineLayout (\<lambda>i. (- 1, 0)) \<lparr>pl_pSetLayouts = []\<rparr> no_registries
     = (- 1, no_registries) \<and>
   vkCreateRenderPass (\<lambda>i. (- 1, 0)) \<lparr>pSubpasses = []\<rparr> no_registries
     = (- 1, no_registries) \<and>
   vkCreateShaderModule (\<lambda>i. (- 13, 0)) \<lparr>codeSize = 0, pCode = []\<rparr> no_registries
     = (- 13, no_registries) \<and>
   vkMapMemory (\<lambda>m off sz fl. (- 5, 0)) 7 0 64 0 no_registries = (- 5, no_registries)"
  using passthrough_result_unchanged [where g = no_registries
      and ?n1.0 = "\<lambda>i. (- 1000069000, [])" and ai = "\<lparr>descriptorSetCount = 1, pSetLayouts = [4]\<rparr>"
      and ?n2.0 = "\<lambda>b m off. - 2" and buffer = 3 and dm = 7 and memoryOffset = 0
      and ?n3.0 = "\<lambda>i. (- 1, 0)" and bi = "\<lparr>buf_size = 16, buf_usage = 0x80\<rparr>"
      and ?n4.0 = "\<lambda>i. (- 1, 0)" and li = "\<lparr>pBindings = []\<rparr>"
      and ?n5.0 = "\<lambda>i. (- 2, 0)" and fi = "\<lparr>width = 4, height = 4\<rparr>"
      and ?n6.0 = "\<lambda>n is. (- 1, [])" and cnt = 0 and pis = "[]"
      and ?n7.0 = "\<lambda>i. (- 1, 0)" and pli = "\<lparr>pl_pSetLayouts = []\<rparr>"
      and ?n8.0 = "\<lambda>i. (- 1, 0)" and rpi = "\<lparr>pSubpasses = []\<rparr>"
      and ?n9.0 = "\<lambda>i. (- 13, 0)" and smi = "\<lparr>codeSize = 0, pCode = []\<rparr>"
      and ?n10.0 = "\<lambda>m off sz fl. (- 5, 0)" and mem = 7 and offs = 0 and sz = 64 and flags = 0]
  by (simp add: VK_SUCCESS_def)

section \<open>Replay of the binding records\<close>

lemma map_of_map_inj:
  "inj_on f (set xs) \<Longrightarrow> x \<in> set xs \<Longrightarrow> map_of (map (\<lambda>i. (f i, g i)) xs) (f x) = Some (g x)"
proof (induction xs)
  case Nil
  then show ?case by simp
next
  case (Cons a xs)
  show ?case
  proof (cases "f x = f a")
    case True
    with Cons.prems have "x = a" by (auto simp: inj_on_def)
    then show ?thesis by simp
  next
    case False
    with Cons show ?thesis by auto
  qed
qed

lemma inj_on_word_offset:
  "n \<le> 2 ^ 32 \<Longrightarrow> inj_on (\<lambda>i. (first :: 32 word) + of_nat i) (set [0 ..< n])"
  apply (rule inj_onI)
  apply simp
  apply (drule arg_cong [where f=unat])
  apply (simp add: unat_of_nat)
  done

lemma unat_le_32: "unat (n :: 32 word) \<le> 2 ^ 32"
  using unsigned_less [of n, where 'a = nat] by simp

lemma bind_descriptor_sets_loop_ok:
  "\<forall>i\<in>set is. i < length sets \<Longrightarrow>
   \<exists>m'. bind_descriptor_sets_loop first sets is m = Inr m' \<and>
     (\<forall>k. map_of m' k =
        (case map_of m k of Some v \<Rightarrow> Some v
         | None \<Rightarrow> map_of (map (\<lambda>i. (first + of_nat i, sets ! i)) is) k))"
proof (induction "is" arbitrary: m)
  case Nil
  then show ?case by (simp split: option.splits)
next
  case (Cons i "is")
  from Cons.prems have "\<forall>j\<in>set is. j < length sets" and i: "i < length sets" by auto
  from Cons.IH [OF this(1), of "umap_insert (first + of_nat i) (sets ! i) m"]
  obtain m' where m': "bind_descriptor_sets_loop first sets is
        (umap_insert (first + of_nat i) (sets ! i) m) = Inr m'"
    and look: "\<And>k. map_of m' k =
        (case map_of (umap_insert (first + of_nat i) (sets ! i) m) k of Some v \<Rightarrow> Some v
         | None \<Rightarrow> map_of (map (\<lambda>i. (first + of_nat i, sets ! i)) is) k)"
    by blast
  show ?case
    using i m' by (auto simp: array_read_def look map_of_umap_insert split: option.splits)
qed

text \<open>
  C6 (as amended). A bind-descriptor-sets record with a bind point other than graphics
  leaves the snapshot unchanged. With the graphics bind point, and a copied array that
  holds \<open>descriptorSetCount\<close> handles, the replay changes only the map of bound
  descriptor sets: every set number that had an entry keeps it, and every set number
  \<open>firstSet + i\<close> with \<open>i < descriptorSetCount\<close> that had no entry gets the \<open>i\<close>-th
  handle of the record.
\<close>

theorem bind_descriptor_sets_first_wins:
  "(bp \<noteq> VK_PIPELINE_BIND_POINT_GRAPHICS \<longrightarrow>
      track (CmdBindDescriptorSets bp lay firstSet n sets dc dos) (t, bc) = Inr (t, bc)) \<and>
   (unat n \<le> length sets \<longrightarrow>
     (\<exists>m'. track (CmdBindDescriptorSets VK_PIPELINE_BIND_POINT_GRAPHICS lay firstSet n sets
                    dc dos) (t, bc) = Inr (t\<lparr>boundGraphicsDescriptorSets := m'\<rparr>, bc) \<and>
        (\<forall>k v. map_of (boundGraphicsDescriptorSets t) k = Some v \<longrightarrow> map_of m' k = Some v) \<and>
        (\<forall>i<unat n. map_of (boundGraphicsDescriptorSets t) (firstSet + of_nat i) = None \<longrightarrow>
             map_of m' (firstSet + of_nat i) = Some (sets ! i))))"
proof (intro conjI impI)
  assume "bp \<noteq> VK_PIPELINE_BIND_POINT_GRAPHICS"
  then show "track (CmdBindDescriptorSets bp lay firstSet n sets dc dos) (t, bc) = Inr (t, bc)"
    by simp
next
  assume len: "unat n \<le> length sets"
  then have "\<forall>i\<in>set [0 ..< unat n]. i < length sets" by simp
  from bind_descriptor_sets_loop_ok [OF this, of firstSet "boundGraphicsDescriptorSets t"]
  obtain m' where m': "bind_descriptor_sets_loop firstSet sets [0 ..< unat n]
        (boundGraphicsDescriptorSets t) = Inr m'"
    and look: "\<And>k. map_of m' k =
        (case map_of (boundGraphicsDescriptorSets t) k of Some v \<Rightarrow> Some v
         | None \<Rightarrow> map_of (map (\<lambda>i. (firstSet + of_nat i, sets ! i)) [0 ..< unat n]) k)"
    by blast
  have new: "map_of m' (firstSet + of_nat i) = Some (sets ! i)"
    if "i < unat n" and "map_of (boundGraphicsDescriptorSets t) (firstSet + of_nat i) = None" for i
  proof -
    have "map_of (map (\<lambda>i. (firstSet + of_nat i, sets ! i)) [0 ..< unat n])
            (firstSet + of_nat i) = Some (sets ! i)"
      using that(1) by (intro map_of_map_inj inj_on_word_offset unat_le_32) simp
    with that(2) show ?thesis by (simp add: look)
  qed
  have keep: "map_of m' k = Some v" if "map_of (boundGraphicsDescriptorSets t) k = Some v" for k v
    using that by (simp add: look)
  show "\<exists>m'. track (CmdBindDescriptorSets VK_PIPELINE_BIND_POINT_GRAPHICS lay firstSet n sets
                    dc dos) (t, bc) = Inr (t\<lparr>boundGraphicsDescriptorSets := m'\<rparr>, bc) \<and>
        (\<forall>k v. map_of (boundGraphicsDescriptorSets t) k = Some v \<longrightarrow> map_of m' k = Some v) \<and>
        (\<forall>i<unat n. map_of (boundGraphicsDescriptorSets t) (firstSet + of_nat i) = None \<longrightarrow>
             map_of m' (firstSet + of_nat i) = Some (sets ! i))"
    using m' new keep by (intro exI [of _ m']) simp
qed

text \<open>The theorem at a snapshot with set 0 bound to 11, and a record for the sets 0 and 1.\<close>

theorem bind_descriptor_sets_first_wins_witness:
  "track (CmdBindDescriptorSets VK_PIPELINE_BIND_POINT_COMPUTE 0 0 2 [21, 22] 0 [])
     (fresh_tracker\<lparr>boundGraphicsDescriptorSets := [(0, 11)]\<rparr>, [])
     = Inr (fresh_tracker\<lparr>boundGraphicsDescriptorSets := [(0, 11)]\<rparr>, []) \<and>
   track (CmdBindDescriptorSets VK_PIPELINE_BIND_POINT_GRAPHICS 0 0 2 [21, 22] 0 [])
     (fresh_tracker\<lparr>boundGraphicsDescriptorSets := [(0, 11)]\<rparr>, [])
     = Inr (fresh_tracker\<lparr>boundGraphicsDescriptorSets := [(0, 11), (1, 22)]\<rparr>, [])"
  using bind_descriptor_sets_first_wins [where bp = VK_PIPELINE_BIND_POINT_COMPUTE
      and lay = 0 and firstSet = 0 and n = 2 and sets = "[21, 22]" and dc = 0 and dos = "[]"
      and t = "fresh_tracker\<lparr>boundGraphicsDescriptorSets := [(0, 11)]\<rparr>" and bc = "[]"]
  by (simp add: upt_rec array_read_def umap_insert_def)

text \<open>
  C6 as stated fails: after two graphics records for set 0 in one log, the entry for set 0
  is the handle of the first record, not the one of the record replayed last.
\<close>

theorem rebinding_descriptor_set_keeps_first:
  "replay sample_host no_registries
     [CmdBindDescriptorSets VK_PIPELINE_BIND_POINT_GRAPHICS 0 0 1 [11] 0 [],
      CmdBindDescriptorSets VK_PIPELINE_BIND_POINT_GRAPHICS 0 0 1 [22] 0 []]
     (fresh_tracker, [])
     = Some (Finished (fresh_tracker\<lparr>boundGraphicsDescriptorSets := [(0, 11)]\<rparr>) []) \<and>
   map_of (boundGraphicsDescriptorSets (fresh_tracker\<lparr>boundGraphicsDescriptorSets := [(0, 11)]\<rparr>))
     0 \<noteq> Some 22"
  by (simp add: upt_rec array_read_def umap_insert_def fresh_tracker_def)


lemma bind_vertex_buffers_loop_keeps:
  "bind_vertex_buffers_loop fb bufs is m = Inr m' \<Longrightarrow> map_of m k = Some v
     \<Longrightarrow> map_of m' k = Some v"
proof (induction "is" arbitrary: m)
  case Nil
  then show ?case by simp
next
  case (Cons i "is")
  then show ?case
    by (auto simp: map_of_umap_insert split: sum.splits)
qed

lemma bind_vertex_buffers_loop_ok:
  "\<forall>i\<in>set is. i < length bufs \<and> i < 2 ^ 32 \<Longrightarrow>
   \<exists>m'. bind_vertex_buffers_loop 0 bufs is m = Inr m' \<and>
     (\<forall>k. map_of m' k =
        (case map_of m k of Some v \<Rightarrow> Some v
         | None \<Rightarrow> map_of (map (\<lambda>i. (0 + of_nat i, bufs ! i)) is) k))"
proof (induction "is" arbitrary: m)
  case Nil
  then show ?case by (simp split: option.splits)
next
  case (Cons i "is")
  from Cons.prems have rest: "\<forall>j\<in>set is. j < length bufs \<and> j < 2 ^ 32"
    and i: "i < length bufs" "i < 2 ^ 32" by auto
  have u: "unat (of_nat i :: 32 word) = i"
    using i(2) by (simp add: unat_of_nat)
  from Cons.IH [OF rest, of "umap_insert (of_nat i) (bufs ! i) m"]
  obtain m' where m': "bind_vertex_buffers_loop 0 bufs is
        (umap_insert (of_nat i) (bufs ! i) m) = Inr m'"
    and look: "\<And>k. map_of m' k =
        (case map_of (umap_insert (of_nat i) (bufs ! i) m) k of Some v \<Rightarrow> Some v
         | None \<Rightarrow> map_of (map (\<lambda>i. (0 + of_nat i, bufs ! i)) is) k)"
    by blast
  show ?case
    using i m' u by (auto simp: array_read_def look map_of_umap_insert split: option.splits)
qed

text \<open>
  C3 (as amended). Replaying a bind-vertex-buffers record never replaces an entry of the
  snapshot: every binding number that had an entry keeps it, whatever \<open>firstBinding\<close>
  is. For a record with \<open>firstBinding = 0\<close> whose copied array holds \<open>bindingCount\<close>
  handles, the replay changes only the map of bound vertex buffers, and every binding
  number \<open>i < bindingCount\<close> that had no entry gets \<open>pBuffers[i]\<close>.
\<close>

theorem bind_vertex_buffers_first_wins:
  "(\<forall>t' bc' k v. track (CmdBindVertexBuffers firstBinding n bufs offs) (t, bc) = Inr (t', bc')
        \<longrightarrow> map_of (boundVertexBuffers t) k = Some v
        \<longrightarrow> map_of (boundVertexBuffers t') k = Some v) \<and>
   (unat n \<le> length bufs \<longrightarrow>
     (\<exists>m'. track (CmdBindVertexBuffers 0 n bufs offs) (t, bc)
              = Inr (t\<lparr>boundVertexBuffers := m'\<rparr>, bc) \<and>
        (\<forall>i<unat n. map_of (boundVertexBuffers t) (of_nat i) = None \<longrightarrow>
             map_of m' (of_nat i) = Some (bufs ! i))))"
proof (intro conjI impI allI)
  fix t' bc' k v
  assume "track (CmdBindVertexBuffers firstBinding n bufs offs) (t, bc) = Inr (t', bc')"
    and "map_of (boundVertexBuffers t) k = Some v"
  then show "map_of (boundVertexBuffers t') k = Some v"
    by (auto split: sum.splits dest: bind_vertex_buffers_loop_keeps)
next
  assume len: "unat n \<le> length bufs"
  have "\<forall>i\<in>set [0 ..< unat n]. i < length bufs \<and> i < 2 ^ 32"
    using len unat_le_32 [of n] by auto
  from bind_vertex_buffers_loop_ok [OF this, of "boundVertexBuffers t"]
  obtain m' where m': "bind_vertex_buffers_loop 0 bufs [0 ..< unat n]
        (boundVertexBuffers t) = Inr m'"
    and look: "\<And>k. map_of m' k =
        (case map_of (boundVertexBuffers t) k of Some v \<Rightarrow> Some v
         | None \<Rightarrow> map_of (map (\<lambda>i. (0 + of_nat i, bufs ! i)) [0 ..< unat n]) k)"
    by blast
  have new: "map_of m' (of_nat i) = Some (bufs ! i)"
    if "i < unat n" and "map_of (boundVertexBuffers t) (of_nat i) = None" for i
  proof -
    have "map_of (map (\<lambda>i. ((0 :: 32 word) + of_nat i, bufs ! i)) [0 ..< unat n])
            (0 + of_nat i) = Some (bufs ! i)"
      using that(1) by (intro map_of_map_inj inj_on_word_offset unat_le_32) simp
    with that(2) show ?thesis by (simp add: look)
  qed
  show "\<exists>m'. track (CmdBindVertexBuffers 0 n bufs offs) (t, bc)
              = Inr (t\<lparr>boundVertexBuffers := m'\<rparr>, bc) \<and>
        (\<forall>i<unat n. map_of (boundVertexBuffers t) (of_nat i) = None \<longrightarrow>
             map_of m' (of_nat i) = Some (bufs ! i))"
    using m' new by (intro exI [of _ m']) simp
qed

text \<open>The theorem at a snapshot with binding 0 bound to 11, and a record for bindings 0 and 1.\<close>

theorem bind_vertex_buffers_first_wins_witness:
  "track (CmdBindVertexBuffers 0 2 [21, 22] [0, 0])
     (fresh_tracker\<lparr>boundVertexBuffers := [(0, 11)]\<rparr>, [])
     = Inr (fresh_tracker\<lparr>boundVertexBuffers := [(0, 11), (1, 22)]\<rparr>, [])"
  using bind_vertex_buffers_first_wins [where firstBinding = 0 and n = 2
      and bufs = "[21, 22]" and offs = "[0, 0]"
      and t = "fresh_tracker\<lparr>boundVertexBuffers := [(0, 11)]\<rparr>" and bc = "[]"]
  by (simp add: upt_rec array_read_def umap_insert_def)

text \<open>
  C3 as stated fails: after two records for binding 0 in one log, the entry for binding 0
  is the buffer of the first record, not \<open>pBuffers[0]\<close> of the record replayed last.
\<close>

theorem rebinding_vertex_buffer_keeps_first:
  "replay sample_host no_registries
     [CmdBindVertexBuffers 0 1 [11] [0], CmdBindVertexBuffers 0 1 [22] [0]]
     (fresh_tracker, [])
     = Some (Finished (fresh_tracker\<lparr>boundVertexBuffers := [(0, 11)]\<rparr>) []) \<and>
   map_of (boundVertexBuffers (fresh_tracker\<lparr>boundVertexBuffers := [(0, 11)]\<rparr>)) 0 \<noteq> Some 22"
  by (simp add: upt_rec array_read_def umap_insert_def fresh_tracker_def)

text \<open>
  With \<open>firstBinding > 0\<close> the replay indexes the copied array at
  \<open>bindingOffset + firstBinding_\<close>: a record for binding 1 alone reads past its copy of
  one handle.
\<close>

lemma bind_vertex_buffers_reads_past_the_copy:
  "track (new_CmdBindVertexBuffers 1 1 [22] [0]) (fresh_tracker, [])
     = Inl (UndefinedBehaviour ''pBuffers_'')"
  by (simp add: new_CmdBindVertexBuffers_def CopyArray_def upt_rec array_read_def)

section \<open>Draws without a pipeline\<close>

text \<open>
  C7. With no graphics pipeline bound in the snapshot, the serializer returns without
  output and without a fatal condition, and the replay goes on after a draw or
  draw-indexed record with the snapshot and the buffer copies as they were.
\<close>

theorem draw_without_pipeline_is_silent:
  assumes "\<not> graphicsPipelineIsBound t"
  shows "HandleDrawCall h g bc t indexCount = Some Returned \<and>
         replay h g (CmdDraw vc ic fv fi # rest) (t, bc) = replay h g rest (t, bc) \<and>
         replay h g (CmdDrawIndexed n ic fx vo fi # rest) (t, bc) = replay h g rest (t, bc)"
  using assms by (simp add: HandleDrawCall_def)

text \<open>The theorem at a log of two draws replayed from the fresh snapshot.\<close>

theorem draw_without_pipeline_is_silent_witness:
  "HandleDrawCall sample_host no_registries [] fresh_tracker 6 = Some Returned \<and>
   replay sample_host no_registries [CmdDraw 3 1 0 0, CmdDrawIndexed 6 1 0 0 0]
       (fresh_tracker, []) = Some (Finished fresh_tracker [])"
proof -
  have h: "\<not> graphicsPipelineIsBound fresh_tracker"
    by (simp add: fresh_tracker_def)
  show ?thesis
    using draw_without_pipeline_is_silent [OF h, where h = sample_host and g = no_registries
        and bc = "[]" and indexCount = 6 and vc = 3 and ic = 1 and fv = 0 and fi = 0
        and rest = "[CmdDrawIndexed 6 1 0 0 0]"]
      draw_without_pipeline_is_silent [OF h, where h = sample_host and g = no_registries
        and bc = "[]" and n = 6 and ic = 1 and fx = 0 and vo = 0 and fi = 0 and rest = "[]"]
    by (simp add: HandleDrawCall_def)
qed


section \<open>Draws without a render pass\<close>

lemma bind_descriptor_sets_loop_error:
  "bind_descriptor_sets_loop fs sets is m = Inl e \<Longrightarrow> e = UndefinedBehaviour ''pDescriptorSets_''"
  by (induction "is" arbitrary: m) (auto simp: array_read_def split: if_splits sum.splits)

lemma bind_vertex_buffers_loop_error:
  "bind_vertex_buffers_loop fb bufs is m = Inl e \<Longrightarrow> e = UndefinedBehaviour ''pBuffers_''"
  by (induction "is" arbitrary: m) (auto simp: array_read_def split: if_splits sum.splits)

lemma track_error_no_assertion:
  "track cmd (t, bc) = Inl e \<Longrightarrow> e \<noteq> AssertFailed s"
  by (cases cmd)
    (auto split: if_splits sum.splits VkPipelineBindPoint.splits
      dest: bind_descriptor_sets_loop_error bind_vertex_buffers_loop_error)

lemma track_keeps_render_pass:
  "track cmd (t, bc) = Inr (t', bc') \<Longrightarrow> currentRenderPass t \<noteq> None
     \<Longrightarrow> currentRenderPass t' \<noteq> None"
  by (cases cmd) (auto split: if_splits sum.splits VkPipelineBindPoint.splits)

lemma find_shaders_error:
  "find_shaders stages acc = Inl e \<Longrightarrow> e = AssertFailed ''Not handled.''"
  by (induction stages acc rule: find_shaders.induct) (auto split: if_splits)

lemma resolve_shaders_error:
  "resolve_shaders pci = Inl e \<Longrightarrow> e \<noteq> AssertFailed render_pass_assertion"
  by (auto simp: resolve_shaders_def render_pass_assertion_def split: sum.splits if_splits
      dest: find_shaders_error)

lemma HandleDrawCall_with_render_pass:
  assumes "currentRenderPass t = Some rp"
  shows "HandleDrawCall h g bc t n \<noteq> Some (Aborted [] (AssertFailed render_pass_assertion))"
proof (cases "graphicsPipelineIsBound t")
  case False
  then show ?thesis by (simp add: HandleDrawCall_def)
next
  case bound: True
  show ?thesis
  proof (cases "umap_at ''graphicsPipelines'' (graphicsPipelines g) (boundGraphicsPipeline t)")
    case (Inl e)
    then have "e = OutOfRange ''graphicsPipelines''"
      by (auto simp: umap_at_def split: option.splits)
    with Inl bound assms show ?thesis by (simp add: HandleDrawCall_def)
  next
    case pci: (Inr pci)
    show ?thesis
    proof (cases "resolve_shaders pci")
      case (Inl e)
      with resolve_shaders_error [OF Inl] pci bound assms show ?thesis
        by (simp add: HandleDrawCall_def)
    next
      case (Inr sh)
      obtain vs fs where sh: "sh = (vs, fs)" by (cases sh)
      have ne: "amber_header \<noteq> []" "shader_header d \<noteq> []" for d
        by (simp_all add: amber_header_def shader_header_def)
      show ?thesis
        using Inr sh pci bound assms ne
        by (simp add: HandleDrawCall_def Let_def
            split: sum.splits option.splits)
    qed
  qed
qed

lemma HandleDrawCall_without_pipeline:
  "\<not> graphicsPipelineIsBound t \<Longrightarrow> HandleDrawCall h g bc t n = Some Returned"
  by (simp add: HandleDrawCall_def)

lemma draw_never_fails_render_pass:
  assumes "graphicsPipelineIsBound t \<longrightarrow> currentRenderPass t \<noteq> None"
  shows "HandleDrawCall h g bc t n \<noteq> Some (Aborted [] (AssertFailed render_pass_assertion))"
proof (cases "graphicsPipelineIsBound t")
  case False
  then show ?thesis by (simp add: HandleDrawCall_without_pipeline)
next
  case True
  with assms obtain rp where "currentRenderPass t = Some rp" by auto
  then show ?thesis by (rule HandleDrawCall_with_render_pass)
qed

lemma replay_never_fails_render_pass:
  "draws_preceded (currentRenderPass t \<noteq> None) (graphicsPipelineIsBound t) cmds \<Longrightarrow>
   replay h g cmds (t, bc) \<noteq> Some (Abort [] (AssertFailed render_pass_assertion))"
proof (induction cmds arbitrary: t bc)
  case Nil
  then show ?case by simp
next
  case (Cons cmd cmds)
  show ?case
  proof (cases cmd)
    case (CmdBeginRenderPass rp c)
    let ?t = "t\<lparr>currentRenderPass := Some rp, currentSubpass := 0\<rparr>"
    from Cons.prems CmdBeginRenderPass
    have "draws_preceded (currentRenderPass ?t \<noteq> None) (graphicsPipelineIsBound ?t) cmds"
      by simp
    from Cons.IH [OF this] CmdBeginRenderPass show ?thesis by simp
  next
    case (CmdDraw a b c d)
    with Cons.prems have ok: "graphicsPipelineIsBound t \<longrightarrow> currentRenderPass t \<noteq> None"
      and rest: "draws_preceded (currentRenderPass t \<noteq> None) (graphicsPipelineIsBound t) cmds"
      by auto
    show ?thesis
      using draw_never_fails_render_pass [OF ok, of h g bc 0] Cons.IH [OF rest, of bc] CmdDraw
      by (auto split: option.splits draw_result.splits)
  next
    case (CmdDrawIndexed a b c d e)
    with Cons.prems have ok: "graphicsPipelineIsBound t \<longrightarrow> currentRenderPass t \<noteq> None"
      and rest: "draws_preceded (currentRenderPass t \<noteq> None) (graphicsPipelineIsBound t) cmds"
      by auto
    show ?thesis
      using draw_never_fails_render_pass [OF ok, of h g bc a] Cons.IH [OF rest, of bc]
        CmdDrawIndexed
      by (auto split: option.splits draw_result.splits)
  next
    case (CmdBindDescriptorSets bp lay fs n sets dc dos)
    with Cons.prems
    have rest: "draws_preceded (currentRenderPass t \<noteq> None) (graphicsPipelineIsBound t) cmds"
      by simp
    show ?thesis
    proof (cases "track cmd (t, bc)")
      case (Inl e)
      with track_error_no_assertion [OF Inl] CmdBindDescriptorSets show ?thesis by simp
    next
      case (Inr st)
      obtain t' bc' where st: "st = (t', bc')" by (cases st)
      have "currentRenderPass t' = currentRenderPass t"
        and "graphicsPipelineIsBound t' = graphicsPipelineIsBound t"
        using Inr st CmdBindDescriptorSets by (auto split: if_splits sum.splits)
      with rest
      have "draws_preceded (currentRenderPass t' \<noteq> None) (graphicsPipelineIsBound t') cmds"
        by simp
      from Cons.IH [OF this, of bc'] Inr st CmdBindDescriptorSets show ?thesis by simp
    qed
  next
    case (CmdBindIndexBuffer b off ty)
    let ?t = "t\<lparr>boundIndexBuffer := \<lparr>ib_buffer = b, ib_offset = off, ib_indexType = ty\<rparr>\<rparr>"
    from Cons.prems CmdBindIndexBuffer
    have "draws_preceded (currentRenderPass ?t \<noteq> None) (graphicsPipelineIsBound ?t) cmds"
      by simp
    from Cons.IH [OF this] CmdBindIndexBuffer show ?thesis by simp
  next
    case (CmdBindPipeline bp p)
    show ?thesis
    proof (cases "bp = VK_PIPELINE_BIND_POINT_GRAPHICS")
      case True
      let ?t = "t\<lparr>graphicsPipelineIsBound := True, boundGraphicsPipeline := p\<rparr>"
      from Cons.prems CmdBindPipeline True
      have "draws_preceded (currentRenderPass ?t \<noteq> None) (graphicsPipelineIsBound ?t) cmds"
        by simp
      from Cons.IH [OF this, of bc] CmdBindPipeline True show ?thesis by simp
    next
      case False
      with Cons.prems CmdBindPipeline
      have "draws_preceded (currentRenderPass t \<noteq> None) (graphicsPipelineIsBound t) cmds"
        by simp
      from Cons.IH [OF this, of bc] CmdBindPipeline False show ?thesis
        by (cases bp) simp_all
    qed
  next
    case (CmdBindVertexBuffers fb n bufs offs)
    with Cons.prems
    have rest: "draws_preceded (currentRenderPass t \<noteq> None) (graphicsPipelineIsBound t) cmds"
      by simp
    show ?thesis
    proof (cases "track cmd (t, bc)")
      case (Inl e)
      with track_error_no_assertion [OF Inl] CmdBindVertexBuffers show ?thesis by simp
    next
      case (Inr st)
      obtain t' bc' where st: "st = (t', bc')" by (cases st)
      have "currentRenderPass t' = currentRenderPass t"
        and "graphicsPipelineIsBound t' = graphicsPipelineIsBound t"
        using Inr st CmdBindVertexBuffers by (auto split: if_splits sum.splits)
      with rest
      have "draws_preceded (currentRenderPass t' \<noteq> None) (graphicsPipelineIsBound t') cmds"
        by simp
      from Cons.IH [OF this, of bc'] Inr st CmdBindVertexBuffers show ?thesis by simp
    qed
  next
    case (CmdCopyBuffer src dst n rs)
    with Cons.prems
    have rest: "draws_preceded (currentRenderPass t \<noteq> None) (graphicsPipelineIsBound t) cmds"
      by simp
    from Cons.IH [OF rest] CmdCopyBuffer show ?thesis by simp
  qed
qed

text \<open>
  C10. The serializer stops on the assertion on the current render pass, before any
  output, exactly when a graphics pipeline is bound and the snapshot's current render
  pass is null: that is a fatal condition, neither the silent return of a draw without
  pipeline nor a tolerated gap. In the replay of a log in which every draw and
  draw-indexed record that is reached with a graphics pipeline bound comes after a
  begin-render-pass record, this failure does not occur.
\<close>

theorem missing_render_pass_is_fatal:
  "(HandleDrawCall h g bc t n = Some (Aborted [] (AssertFailed render_pass_assertion))
      \<longleftrightarrow> graphicsPipelineIsBound t \<and> currentRenderPass t = None) \<and>
   (draws_preceded False False cmds \<longrightarrow>
      replay h g cmds (fresh_tracker, bc0)
        \<noteq> Some (Abort [] (AssertFailed render_pass_assertion)))"
proof (intro conjI impI)
  show "HandleDrawCall h g bc t n = Some (Aborted [] (AssertFailed render_pass_assertion))
      \<longleftrightarrow> graphicsPipelineIsBound t \<and> currentRenderPass t = None"
  proof (cases "currentRenderPass t")
    case None
    then show ?thesis by (simp add: HandleDrawCall_def)
  next
    case (Some rp)
    with HandleDrawCall_with_render_pass [OF Some, of h g bc n] show ?thesis by simp
  qed
next
  assume "draws_preceded False False cmds"
  then have "draws_preceded (currentRenderPass fresh_tracker \<noteq> None)
      (graphicsPipelineIsBound fresh_tracker) cmds"
    by (simp add: fresh_tracker_def)
  then show "replay h g cmds (fresh_tracker, bc0)
        \<noteq> Some (Abort [] (AssertFailed render_pass_assertion))"
    by (rule replay_never_fails_render_pass)
qed

text \<open>
  The theorem at a bound pipeline without render pass, at a log that draws without
  beginning a render pass, and at a log that begins one first.
\<close>

theorem missing_render_pass_is_fatal_witness:
  "HandleDrawCall sample_host no_registries [] (fresh_tracker\<lparr>graphicsPipelineIsBound := True\<rparr>) 0
     = Some (Aborted [] (AssertFailed render_pass_assertion)) \<and>
   replay sample_host no_registries
     [CmdBindPipeline VK_PIPELINE_BIND_POINT_GRAPHICS 9, CmdDraw 3 1 0 0] (fresh_tracker, [])
     = Some (Abort [] (AssertFailed render_pass_assertion)) \<and>
   replay sample_host no_registries
     [CmdBeginRenderPass \<lparr>renderPass = 1, framebuffer = 2\<rparr> 0,
      CmdBindPipeline VK_PIPELINE_BIND_POINT_GRAPHICS 9, CmdDraw 3 1 0 0] (fresh_tracker, [])
     \<noteq> Some (Abort [] (AssertFailed render_pass_assertion))"
  using missing_render_pass_is_fatal [where h = sample_host and g = no_registries and bc = "[]"
      and t = "fresh_tracker\<lparr>graphicsPipelineIsBound := True\<rparr>" and n = 0 and ?bc0.0 = "[]"
      and cmds = "[CmdBeginRenderPass \<lparr>renderPass = 1, framebuffer = 2\<rparr> 0,
                   CmdBindPipeline VK_PIPELINE_BIND_POINT_GRAPHICS 9, CmdDraw 3 1 0 0]"]
  by (simp add: fresh_tracker_def HandleDrawCall_def)


section \<open>Index data of 16 bits\<close>

lemma emit_indices16_eq:
  "emit_indices16 mem ptr is =
     concat (map (\<lambda>i. [UInt (unat (load_u16 mem (ptr + 2 * of_nat i))), Str '' '']) is)"
  by (induction "is") simp_all

lemma uint_literals_append: "uint_literals (xs @ ys) = uint_literals xs @ uint_literals ys"
  by (induction xs rule: uint_literals.induct) simp_all

lemma uint_literals_emit_indices16:
  "uint_literals (emit_indices16 mem ptr is) = map (\<lambda>i. unat (load_u16 mem (ptr + 2 * of_nat i))) is"
  by (induction "is") simp_all

lemma unat_widen_16_32: "unat (ucast (x :: 16 word) :: 32 word) = unat x"
proof -
  have "unat x < 2 ^ 16"
    using unsigned_less [of x, where 'a = nat] by simp
  then have "unat x < 2 ^ 32" by simp
  then show ?thesis
    by (simp add: unsigned_ucast_eq take_bit_nat_eq_self)
qed

lemma find_index_staging_eq:
  "find_index_staging bc b = Inr (staged, coff) \<Longrightarrow>
   (case find (\<lambda>c. dstBuffer c = b) bc of
      None \<Rightarrow> staged = nullptr \<and> coff = 0
    | Some c \<Rightarrow> staged = srcBuffer c \<and> length (regions c) = 1 \<and> coff = srcOffset (regions c ! 0))"
  by (induction bc) (auto split: if_splits)

lemma index_data_pointer_eq:
  assumes "index_data_pointer g bc ib = Inr ptr"
  shows "\<exists>src coff dm moff e.
     (case find (\<lambda>c. dstBuffer c = ib_buffer ib) bc of
        None \<Rightarrow> src = ib_buffer ib \<and> coff = 0
      | Some c \<Rightarrow> src = (if srcBuffer c = nullptr then ib_buffer ib else srcBuffer c) \<and>
          length (regions c) = 1 \<and> coff = srcOffset (regions c ! 0)) \<and>
     map_of (bufferToMemory g) src = Some (dm, moff) \<and>
     map_of (mappedMemory g) dm = Some e \<and>
     ptr = snd (snd (snd e)) + coff + ib_offset ib"
proof -
  from assms obtain staged coff where st: "find_index_staging bc (ib_buffer ib) = Inr (staged, coff)"
    by (auto simp: index_data_pointer_def split: sum.splits)
  let ?src = "if staged = nullptr then ib_buffer ib else staged"
  from assms st obtain dm moff e where
    b: "map_of (bufferToMemory g) ?src = Some (dm, moff)"
    and m: "map_of (mappedMemory g) dm = Some e"
    and p: "ptr = snd (snd (snd e)) + coff + ib_offset ib"
    by (auto simp: index_data_pointer_def Let_def umap_at_Inr split: sum.splits if_splits prod.splits)
  from find_index_staging_eq [OF st]
  have "case find (\<lambda>c. dstBuffer c = ib_buffer ib) bc of
        None \<Rightarrow> ?src = ib_buffer ib \<and> coff = 0
      | Some c \<Rightarrow> ?src = (if srcBuffer c = nullptr then ib_buffer ib else srcBuffer c) \<and>
          length (regions c) = 1 \<and> coff = srcOffset (regions c ! 0)"
    by (auto split: option.splits)
  with b m p show ?thesis by blast
qed

text \<open>
  C2. When the index section of a draw is serialized with a bound index buffer of type
  \<^verbatim>\<open>VK_INDEX_TYPE_UINT16\<close>, then either the index count is 0 and nothing is emitted,
  or the block appended to the buffer declarations is declared \<^verbatim>\<open>uint32\<close> and its
  literals are, in order, the first \<open>indexCount\<close> 16-bit unsigned integers of the source
  data, each widened to 32 bits: exactly \<open>indexCount\<close> of them. The source data starts
  at the address \<open>ptr\<close>: the pointer at which the memory of the source buffer is mapped,
  plus the source offset of the copy, plus the offset of the index-buffer binding. The
  source buffer is the bound index buffer when no recorded copy has it as destination (the
  copy offset is then 0), and otherwise the source of the first such copy, which has a
  single region (the bound buffer again when that source is the null handle).
\<close>

theorem index16_literals_widened:
  assumes "index_section h g bc t indexCount s = Inr s'"
    and "ib_indexType (boundIndexBuffer t) = VK_INDEX_TYPE_UINT16"
  shows "(indexCount = 0 \<and> s' = s) \<or>
    (\<exists>src coff dm moff e ptr block.
       (case find (\<lambda>c. dstBuffer c = ib_buffer (boundIndexBuffer t)) bc of
          None \<Rightarrow> src = ib_buffer (boundIndexBuffer t) \<and> coff = 0
        | Some c \<Rightarrow>
            src = (if srcBuffer c = nullptr then ib_buffer (boundIndexBuffer t) else srcBuffer c) \<and>
            length (regions c) = 1 \<and> coff = srcOffset (regions c ! 0)) \<and>
       map_of (bufferToMemory g) src = Some (dm, moff) \<and>
       map_of (mappedMemory g) dm = Some e \<and>
       ptr = snd (snd (snd e)) + coff + ib_offset (boundIndexBuffer t) \<and>
       bufferDeclarationStringStream s' = bufferDeclarationStringStream s @ block \<and>
       block = [Str ''BUFFER index_buffer DATA_TYPE uint32 '', Str ''DATA '', endl, Str ''  '']
          @ concat (map (\<lambda>i. [UInt (unat (ucast (load_u16 (memory h) (ptr + 2 * of_nat i))
                                          :: 32 word)), Str '' ''])
                      [0 ..< unat indexCount])
          @ [endl, Str ''END'', endl, endl] \<and>
       uint_literals block =
         map (\<lambda>i. unat (ucast (load_u16 (memory h) (ptr + 2 * of_nat i)) :: 32 word))
           [0 ..< unat indexCount] \<and>
       length (uint_literals block) = unat indexCount)"
proof (cases "indexCount = 0")
  case True
  with assms(1) show ?thesis by (simp add: index_section_def)
next
  case False
  then have pos: "indexCount > 0" by (simp add: word_greater_zero_iff)
  from assms pos obtain ptr where ptr: "index_data_pointer g bc (boundIndexBuffer t) = Inr ptr"
    and s': "s' = s\<lparr>graphicsPipelineStringStream :=
                      graphicsPipelineStringStream s @ [Str ''  INDEX_DATA index_buffer'', endl],
                    bufferDeclarationStringStream :=
                      bufferDeclarationStringStream s
                        @ [Str ''BUFFER index_buffer DATA_TYPE uint32 '', Str ''DATA '', endl,
                           Str ''  '']
                        @ emit_indices16 (memory h) ptr [0 ..< unat indexCount]
                        @ [endl, Str ''END'', endl, endl]\<rparr>"
    by (auto simp: index_section_def split: sum.splits if_splits)
  from index_data_pointer_eq [OF ptr] obtain src coff dm moff e where
    src: "case find (\<lambda>c. dstBuffer c = ib_buffer (boundIndexBuffer t)) bc of
          None \<Rightarrow> src = ib_buffer (boundIndexBuffer t) \<and> coff = 0
        | Some c \<Rightarrow>
            src = (if srcBuffer c = nullptr then ib_buffer (boundIndexBuffer t) else srcBuffer c) \<and>
            length (regions c) = 1 \<and> coff = srcOffset (regions c ! 0)"
    and b: "map_of (bufferToMemory g) src = Some (dm, moff)"
    and m: "map_of (mappedMemory g) dm = Some e"
    and p: "ptr = snd (snd (snd e)) + coff + ib_offset (boundIndexBuffer t)"
    by blast
  let ?block = "[Str ''BUFFER index_buffer DATA_TYPE uint32 '', Str ''DATA '', endl, Str ''  '']
          @ concat (map (\<lambda>i. [UInt (unat (ucast (load_u16 (memory h) (ptr + 2 * of_nat i))
                                          :: 32 word)), Str '' ''])
                      [0 ..< unat indexCount])
          @ [endl, Str ''END'', endl, endl]"
  have lits: "uint_literals ?block =
         map (\<lambda>i. unat (ucast (load_u16 (memory h) (ptr + 2 * of_nat i)) :: 32 word))
           [0 ..< unat indexCount]"
    using uint_literals_emit_indices16 [of "memory h" ptr "[0 ..< unat indexCount]"]
    by (simp add: uint_literals_append endl_def unat_widen_16_32 emit_indices16_eq)
  have decl: "bufferDeclarationStringStream s' = bufferDeclarationStringStream s @ ?block"
    by (simp add: s' emit_indices16_eq unat_widen_16_32)
  have len: "length (uint_literals ?block) = unat indexCount"
    by (simp only: lits length_map length_upt diff_zero)
  show ?thesis
    by (rule disjI2, rule exI [where x = src], rule exI [where x = coff], rule exI [where x = dm],
        rule exI [where x = moff], rule exI [where x = e], rule exI [where x = ptr],
        rule exI [where x = ?block])
      (intro conjI src b m p decl refl lits len)
qed

text \<open>
  The theorem at the sample scene with the index buffer 5 bound at offset 2 and a recorded
  copy from offset 4 of buffer 8 into it: the memory 11 of buffer 8 is mapped at 0x2000,
  so the three indices are read at 0x2006.
\<close>

theorem index16_literals_widened_witness:
  "find (\<lambda>c. dstBuffer c = 5)
      [\<lparr>srcBuffer = 8, dstBuffer = 5,
        regions = [\<lparr>srcOffset = 4, dstOffset = 0, copy_size = 12\<rparr>]\<rparr>]
     = Some \<lparr>srcBuffer = 8, dstBuffer = 5,
              regions = [\<lparr>srcOffset = 4, dstOffset = 0, copy_size = 12\<rparr>]\<rparr> \<and>
   map_of (bufferToMemory sample_registries) 8 = Some (11, 0) \<and>
   map_of (mappedMemory sample_registries) 11 = Some (0, 64, 0, 0x2000) \<and>
   index_data_pointer sample_registries
      [\<lparr>srcBuffer = 8, dstBuffer = 5,
        regions = [\<lparr>srcOffset = 4, dstOffset = 0, copy_size = 12\<rparr>]\<rparr>]
      \<lparr>ib_buffer = 5, ib_offset = 2, ib_indexType = VK_INDEX_TYPE_UINT16\<rparr> = Inr 0x2006 \<and>
   load_u16 (memory sample_host) 0x2006 = 1798 \<and>
   load_u16 (memory sample_host) 0x2008 = 2312 \<and>
   load_u16 (memory sample_host) 0x200A = 2826 \<and>
   index_section sample_host sample_registries
      [\<lparr>srcBuffer = 8, dstBuffer = 5,
        regions = [\<lparr>srcOffset = 4, dstOffset = 0, copy_size = 12\<rparr>]\<rparr>]
      (sample_tracker\<lparr>boundIndexBuffer :=
         \<lparr>ib_buffer = 5, ib_offset = 2, ib_indexType = VK_INDEX_TYPE_UINT16\<rparr>\<rparr>)
      3 empty_streams
     = Inr \<lparr>bufferDeclarationStringStream =
             [Str ''BUFFER index_buffer DATA_TYPE uint32 '', Str ''DATA '', endl, Str ''  '',
              UInt 1798, Str '' '', UInt 2312, Str '' '', UInt 2826, Str '' '',
              endl, Str ''END'', endl, endl],
           descriptorSetBindingStringStream = [], framebufferAttachmentStringStream = [],
           graphicsPipelineStringStream = [Str ''  INDEX_DATA index_buffer'', endl]\<rparr>"
proof -
  have f: "find (\<lambda>c. dstBuffer c = 5)
      [\<lparr>srcBuffer = 8, dstBuffer = 5,
        regions = [\<lparr>srcOffset = 4, dstOffset = 0, copy_size = 12\<rparr>]\<rparr>]
     = Some \<lparr>srcBuffer = 8, dstBuffer = 5,
              regions = [\<lparr>srcOffset = 4, dstOffset = 0, copy_size = 12\<rparr>]\<rparr>"
    by simp
  have b: "map_of (bufferToMemory sample_registries) 8 = Some (11, 0)"
    by (simp add: sample_registries_def)
  have m: "map_of (mappedMemory sample_registries) 11 = Some (0, 64, 0, 0x2000)"
    by (simp add: sample_registries_def)
  have p: "index_data_pointer sample_registries
      [\<lparr>srcBuffer = 8, dstBuffer = 5,
        regions = [\<lparr>srcOffset = 4, dstOffset = 0, copy_size = 12\<rparr>]\<rparr>]
      \<lparr>ib_buffer = 5, ib_offset = 2, ib_indexType = VK_INDEX_TYPE_UINT16\<rparr> = Inr 0x2006"
    by (simp add: index_data_pointer_def sample_registries_def umap_at_def umap_count_def
        nullptr_def)
  have l:
    "load_u16 (memory sample_host) 0x2006 = 1798"
    "load_u16 (memory sample_host) 0x2008 = 2312"
    "load_u16 (memory sample_host) 0x200A = 2826"
    by (simp_all add: load_u16_def sample_host_def)
  have run: "index_section sample_host sample_registries
      [\<lparr>srcBuffer = 8, dstBuffer = 5,
        regions = [\<lparr>srcOffset = 4, dstOffset = 0, copy_size = 12\<rparr>]\<rparr>]
      (sample_tracker\<lparr>boundIndexBuffer :=
         \<lparr>ib_buffer = 5, ib_offset = 2, ib_indexType = VK_INDEX_TYPE_UINT16\<rparr>\<rparr>)
      3 empty_streams
     = Inr \<lparr>bufferDeclarationStringStream =
             [Str ''BUFFER index_buffer DATA_TYPE uint32 '', Str ''DATA '', endl, Str ''  '',
              UInt 1798, Str '' '', UInt 2312, Str '' '', UInt 2826, Str '' '',
              endl, Str ''END'', endl, endl],
           descriptorSetBindingStringStream = [], framebufferAttachmentStringStream = [],
           graphicsPipelineStringStream = [Str ''  INDEX_DATA index_buffer'', endl]\<rparr>"
    by (simp add: index_section_def index_data_pointer_def sample_registries_def
        sample_tracker_def sample_host_def empty_streams_def umap_at_def umap_count_def
        VK_BUFFER_USAGE_INDEX_BUFFER_BIT_def nullptr_def load_u16_def upt_rec)
  have ty: "ib_indexType (boundIndexBuffer (sample_tracker\<lparr>boundIndexBuffer :=
         \<lparr>ib_buffer = 5, ib_offset = 2, ib_indexType = VK_INDEX_TYPE_UINT16\<rparr>\<rparr>))
      = VK_INDEX_TYPE_UINT16"
    by simp
  from index16_literals_widened [OF run ty]
  show ?thesis
    by (simp only: f b m p l run simp_thms)
qed


section \<open>Descriptor data without memory\<close>

text \<open>
  C9 (as amended). For a binding slot whose buffer is registered, whose offset is 0 and
  whose number is within the bindings of the layout: when the buffer has no recorded
  memory binding, the data block of the slot holds the placeholder \<^verbatim>\<open>...\<close> and the
  serializer goes on; when the buffer is bound to a memory object that has no recorded
  mapping, the data block is empty, without the placeholder, and the serializer goes on
  as well. Neither case is a fatal condition.
\<close>

theorem descriptor_placeholder_without_memory:
  assumes "umap_at ''buffers'' (buffers g) (dbi_buffer bi) = Inr bci"
    and "dbi_offset bi = 0"
    and "unat bn < length (pBindings lay)"
  shows
   "(umap_count (bufferToMemory g) (dbi_buffer bi) = 0 \<longrightarrow>
      (\<exists>s'. descriptor_slot h g sn lay (bn, bi) s = Inr s' \<and>
         bufferDeclarationStringStream s' =
           bufferDeclarationStringStream s @ [Str ''BUFFER ''] @ descriptor_buffer_name sn bn
             @ [Str '' DATA_TYPE '', Str ''float'', Str '' DATA'', endl, Str ''  '']
             @ [Str ''...''] @ [endl, Str ''END'', endl, endl])) \<and>
    (\<forall>dm off. umap_at ''bufferToMemory'' (bufferToMemory g) (dbi_buffer bi) = Inr (dm, off)
        \<longrightarrow> umap_count (mappedMemory g) dm = 0 \<longrightarrow>
      (\<exists>s'. descriptor_slot h g sn lay (bn, bi) s = Inr s' \<and>
         bufferDeclarationStringStream s' =
           bufferDeclarationStringStream s @ [Str ''BUFFER ''] @ descriptor_buffer_name sn bn
             @ [Str '' DATA_TYPE '', Str ''float'', Str '' DATA'', endl, Str ''  '']
             @ [] @ [endl, Str ''END'', endl, endl]))"
proof (intro conjI allI impI)
  assume "umap_count (bufferToMemory g) (dbi_buffer bi) = 0"
  then have "descriptor_data h g bci bi = Inr [Str ''...'']"
    by (simp add: descriptor_data_def)
  with assms show "\<exists>s'. descriptor_slot h g sn lay (bn, bi) s = Inr s' \<and>
         bufferDeclarationStringStream s' =
           bufferDeclarationStringStream s @ [Str ''BUFFER ''] @ descriptor_buffer_name sn bn
             @ [Str '' DATA_TYPE '', Str ''float'', Str '' DATA'', endl, Str ''  '']
             @ [Str ''...''] @ [endl, Str ''END'', endl, endl]"
    by (simp add: descriptor_slot_def array_read_def Let_def)
next
  fix dm off
  assume b: "umap_at ''bufferToMemory'' (bufferToMemory g) (dbi_buffer bi) = Inr (dm, off)"
    and m: "umap_count (mappedMemory g) dm = 0"
  from b have "umap_count (bufferToMemory g) (dbi_buffer bi) \<noteq> 0"
    by (auto simp: umap_at_def umap_count_def split: option.splits)
  with b m have "descriptor_data h g bci bi = Inr []"
    by (simp add: descriptor_data_def)
  with assms show "\<exists>s'. descriptor_slot h g sn lay (bn, bi) s = Inr s' \<and>
         bufferDeclarationStringStream s' =
           bufferDeclarationStringStream s @ [Str ''BUFFER ''] @ descriptor_buffer_name sn bn
             @ [Str '' DATA_TYPE '', Str ''float'', Str '' DATA'', endl, Str ''  '']
             @ [] @ [endl, Str ''END'', endl, endl]"
    by (simp add: descriptor_slot_def array_read_def Let_def)
qed

text \<open>The theorem at the uniform buffer 10 of the sample scene, which has no memory.\<close>

theorem descriptor_placeholder_without_memory_witness:
  "bufferDeclarationStringStream (projr (descriptor_slot sample_host sample_registries 0
       \<lparr>pBindings = [\<lparr>dslb_binding = 0, descriptorType = VK_DESCRIPTOR_TYPE_UNIFORM_BUFFER\<rparr>,
                     \<lparr>dslb_binding = 1, descriptorType = VK_DESCRIPTOR_TYPE_UNIFORM_BUFFER\<rparr>]\<rparr>
       (0, \<lparr>dbi_buffer = 10, dbi_offset = 0, dbi_range = VK_WHOLE_SIZE\<rparr>) empty_streams))
     = [Str ''BUFFER '', Str ''buf_'', UInt 0, Str ''_'', UInt 0, Str '' DATA_TYPE '',
        Str ''float'', Str '' DATA'', endl, Str ''  '', Str ''...'', endl, Str ''END'', endl, endl]"
proof -
  have b: "umap_at ''buffers'' (buffers sample_registries)
             (dbi_buffer \<lparr>dbi_buffer = 10, dbi_offset = 0, dbi_range = VK_WHOLE_SIZE\<rparr>)
           = Inr \<lparr>buf_size = 8, buf_usage = 0x10\<rparr>"
    by (simp add: sample_registries_def umap_at_def)
  have z: "dbi_offset \<lparr>dbi_buffer = 10, dbi_offset = 0, dbi_range = VK_WHOLE_SIZE\<rparr> = 0"
    by simp
  have l: "unat (0 :: 32 word) < length (pBindings
       \<lparr>pBindings = [\<lparr>dslb_binding = 0, descriptorType = VK_DESCRIPTOR_TYPE_UNIFORM_BUFFER\<rparr>,
                     \<lparr>dslb_binding = 1, descriptorType = VK_DESCRIPTOR_TYPE_UNIFORM_BUFFER\<rparr>]\<rparr>)"
    by simp
  have c: "umap_count (bufferToMemory sample_registries)
       (dbi_buffer \<lparr>dbi_buffer = 10, dbi_offset = 0, dbi_range = VK_WHOLE_SIZE\<rparr>) = 0"
    by (simp add: sample_registries_def umap_count_def)
  from descriptor_placeholder_without_memory [OF b z l, where h = sample_host and sn = 0
      and s = empty_streams] c
  show ?thesis
    by (auto simp: empty_streams_def descriptor_buffer_name_def)
qed

text \<open>
  C9 as stated fails: the uniform buffer 12 of the sample scene is bound to memory 13, for
  which no mapping is recorded, and the data block of its slot holds no placeholder.
\<close>

theorem unmapped_descriptor_memory_has_no_placeholder:
  "umap_count (mappedMemory sample_registries) 13 = 0 \<and>
   umap_at ''bufferToMemory'' (bufferToMemory sample_registries) 12 = Inr (13, 0) \<and>
   descriptor_slot sample_host sample_registries 0
       \<lparr>pBindings = [\<lparr>dslb_binding = 0, descriptorType = VK_DESCRIPTOR_TYPE_UNIFORM_BUFFER\<rparr>,
                     \<lparr>dslb_binding = 1, descriptorType = VK_DESCRIPTOR_TYPE_UNIFORM_BUFFER\<rparr>]\<rparr>
       (1, \<lparr>dbi_buffer = 12, dbi_offset = 0, dbi_range = VK_WHOLE_SIZE\<rparr>) empty_streams
     = Inr \<lparr>bufferDeclarationStringStream =
              [Str ''BUFFER '', Str ''buf_'', UInt 0, Str ''_'', UInt 1, Str '' DATA_TYPE '',
               Str ''float'', Str '' DATA'', endl, Str ''  '', endl, Str ''END'', endl, endl],
            descriptorSetBindingStringStream =
              [Str ''  BIND BUFFER '', Str ''buf_'', UInt 0, Str ''_'', UInt 1, Str '' AS '',
               Str ''uniform'', Str '' DESCRIPTOR_SET '', UInt 0, Str '' BINDING '', UInt 1, endl],
            framebufferAttachmentStringStream = [], graphicsPipelineStringStream = []\<rparr> \<and>
   Str ''...'' \<notin> set
     [Str ''BUFFER '', Str ''buf_'', UInt 0, Str ''_'', UInt 1, Str '' DATA_TYPE '',
      Str ''float'', Str '' DATA'', endl, Str ''  '', endl, Str ''END'', endl, endl]"
  by (simp add: descriptor_slot_def Let_def descriptor_data_def sample_registries_def umap_at_def
      umap_count_def empty_streams_def descriptor_buffer_name_def array_read_def endl_def)

section \<open>Evaluating the sample scene\<close>

lemma read_components_numeral:
  "read_components mem fmt w (numeral k) p = read_components mem fmt w (Suc (pred_numeral k)) p"
  by (simp add: numeral_eq_Suc)

lemmas sample_scene =
  vertex_binding_def vertex_data_def vertex_data_source_def vertex_walk.simps
  sample_host_def sample_pipeline_def swapped_pipeline_def sample_registries_def
  sample_copies_def empty_streams_def load_u32_def read_components_numeral umap_at_def
  umap_count_def array_read_def VK_BUFFER_USAGE_VERTEX_BUFFER_BIT_def nullptr_def
  getBufferTypeName_def vertex_buffer_name_def end_streams_def Let_def

lemma sample_vertex_binding:
  "vertex_binding sample_host sample_registries sample_copies sample_pipeline (0, 6)
     empty_streams = Some (Inr
       \<lparr>bufferDeclarationStringStream =
           [Str ''BUFFER '', Str ''vert_'', UInt 0, Str ''_'', UInt 0,
            Str '' DATA_TYPE '', Str ''vec'', UInt 2, Str ''<'', Str ''float'', Str ''>'',
            Str '' DATA '', endl, Str ''  '',
            Float 50462976, Str '' '', Float 117835012, Str '' '',
            Float 252579084, Str '' '', Float 319951120, Str '' '', endl,
            Str ''END'', endl, endl,
            Str ''BUFFER '', Str ''vert_'', UInt 0, Str ''_'', UInt 1,
            Str '' DATA_TYPE '', Str ''uint32'', Str '' DATA '', endl, Str ''  '',
            UInt 185207048, Str '' '', UInt 387323156, Str '' '', endl,
            Str ''END'', endl, endl],
         descriptorSetBindingStringStream = [],
         framebufferAttachmentStringStream = [],
         graphicsPipelineStringStream =
           [Str ''  VERTEX_DATA '', Str ''vert_'', UInt 0, Str ''_'', UInt 0,
            Str '' LOCATION '', UInt 0, endl,
            Str ''  VERTEX_DATA '', Str ''vert_'', UInt 0, Str ''_'', UInt 1,
            Str '' LOCATION '', UInt 1, endl]\<rparr>)"
  by (simp add: sample_scene)

lemma sample_vertex_data:
  "vertex_data sample_host sample_pipeline 0 \<lparr>buf_size = 24, buf_usage = 0x80\<rparr>
     \<lparr>vib_binding = 0, stride = 12, inputRate = VK_VERTEX_INPUT_RATE_VERTEX\<rparr> 0x2000
     empty_streams = Some (Inr
       \<lparr>bufferDeclarationStringStream =
           [Str ''BUFFER '', Str ''vert_'', UInt 0, Str ''_'', UInt 0,
            Str '' DATA_TYPE '', Str ''vec'', UInt 2, Str ''<'', Str ''float'', Str ''>'',
            Str '' DATA '', endl, Str ''  '',
            Float 50462976, Str '' '', Float 117835012, Str '' '',
            Float 252579084, Str '' '', Float 319951120, Str '' '', endl,
            Str ''END'', endl, endl,
            Str ''BUFFER '', Str ''vert_'', UInt 0, Str ''_'', UInt 1,
            Str '' DATA_TYPE '', Str ''uint32'', Str '' DATA '', endl, Str ''  '',
            UInt 185207048, Str '' '', UInt 387323156, Str '' '', endl,
            Str ''END'', endl, endl],
         descriptorSetBindingStringStream = [],
         framebufferAttachmentStringStream = [],
         graphicsPipelineStringStream =
           [Str ''  VERTEX_DATA '', Str ''vert_'', UInt 0, Str ''_'', UInt 0,
            Str '' LOCATION '', UInt 0, endl,
            Str ''  VERTEX_DATA '', Str ''vert_'', UInt 0, Str ''_'', UInt 1,
            Str '' LOCATION '', UInt 1, endl]\<rparr>)"
  by (simp add: sample_scene)

lemma swapped_vertex_data:
  "vertex_data sample_host swapped_pipeline 0 \<lparr>buf_size = 24, buf_usage = 0x80\<rparr>
     \<lparr>vib_binding = 0, stride = 12, inputRate = VK_VERTEX_INPUT_RATE_VERTEX\<rparr> 0x2000
     empty_streams = Some (Inr
       \<lparr>bufferDeclarationStringStream =
           [Str ''BUFFER '', Str ''vert_'', UInt 0, Str ''_'', UInt 0,
            Str '' DATA_TYPE '', Str ''uint32'', Str '' DATA '', endl, Str ''  '',
            UInt 50462976, Str '' '', UInt 252579084, Str '' '', endl,
            Str ''END'', endl, endl,
            Str ''BUFFER '', Str ''vert_'', UInt 0, Str ''_'', UInt 1,
            Str '' DATA_TYPE '', Str ''vec'', UInt 2, Str ''<'', Str ''float'', Str ''>'',
            Str '' DATA '', endl, Str ''  '',
            Float 117835012, Str '' '', Float 185207048, Str '' '',
            Float 319951120, Str '' '', Float 387323156, Str '' '', endl,
            Str ''END'', endl, endl],
         descriptorSetBindingStringStream = [],
         framebufferAttachmentStringStream = [],
         graphicsPipelineStringStream =
           [Str ''  VERTEX_DATA '', Str ''vert_'', UInt 0, Str ''_'', UInt 0,
            Str '' LOCATION '', UInt 0, endl,
            Str ''  VERTEX_DATA '', Str ''vert_'', UInt 0, Str ''_'', UInt 1,
            Str '' LOCATION '', UInt 1, endl]\<rparr>)"
  by (simp add: sample_scene)

lemmas full_scene =
  sample_scene HandleDrawCall_def fill_streams_def GetDisassembly_def resolve_shaders_def
  index_section_def index_data_pointer_def descriptor_slot_def descriptor_data_def
  descriptor_buffer_name_def sample_tracker_def VK_SHADER_STAGE_VERTEX_BIT_def
  VK_SHADER_STAGE_FRAGMENT_BIT_def VK_BUFFER_USAGE_INDEX_BUFFER_BIT_def load_u16_def upt_rec
  topologies_def pipeline_opening_def pipeline_body_def shader_header_def amber_header_def
  texture_preamble_def

text \<open>The script of an indexed draw of three indices at the sample snapshot.\<close>

lemma sample_scene_script:
  "HandleDrawCall sample_host sample_registries sample_copies sample_tracker 3 =
   Some (Exited
     [Str ''#!amber'', endl, endl,
      Str ''SHADER vertex vertex_shader SPIRV-ASM'', endl, Str ''OpNop'',
      Str ''END'', endl, endl,
      Str ''SHADER fragment fragment_shader SPIRV-ASM'', endl,
      Str ''OpNop'', Str ''END'', endl, endl,
      Str ''# Shaders for creating a 2x2 texture.'', endl,
      Str ''SHADER vertex vert_shader PASSTHROUGH'', endl,
      Str ''SHADER fragment frag_shader_red GLSL'', endl,
      Str ''#version 430'', endl,
      Str ''layout(location = 0) out vec4 color_out;'', endl,
      Str ''void main() {'', endl,
      Str ''  color_out = vec4(1.0, 0.0, 0.0, 1.0);'', endl, Str ''}'',
      endl, Str ''END'', endl, endl,
      Str ''BUFFER texture FORMAT R8G8B8A8_UNORM'', endl,
      Str ''SAMPLER sampler'', endl, endl,
      Str ''PIPELINE graphics texture_create_pipeline'', endl,
      Str ''  ATTACH vert_shader'', endl, Str ''  ATTACH frag_shader_red'',
      endl, Str ''  FRAMEBUFFER_SIZE 2 2'', endl,
      Str ''  BIND BUFFER texture AS color LOCATION 0'', endl, Str ''END'',
      endl, Str ''BUFFER '', Str ''vert_'', UInt 0, Str ''_'', UInt 0,
      Str '' DATA_TYPE '', Str ''vec'', UInt 2, Str ''<'', Str ''float'',
      Str ''>'', Str '' DATA '', endl, Str ''  '', Float 50462976,
      Str '' '', Float 117835012, Str '' '', Float 252579084, Str '' '',
      Float 319951120, Str '' '', endl, Str ''END'', endl, endl,
      Str ''BUFFER '', Str ''vert_'', UInt 0, Str ''_'', UInt 1,
      Str '' DATA_TYPE '', Str ''uint32'', Str '' DATA '', endl, Str ''  '',
      UInt 185207048, Str '' '', UInt 387323156, Str '' '', endl,
      Str ''END'', endl, endl,
      Str ''BUFFER index_buffer DATA_TYPE uint32 '', Str ''DATA '', endl,
      Str ''  '', UInt 256, Str '' '', UInt 770, Str '' '', UInt 1284,
      Str '' '', endl, Str ''END'', endl, endl, Str ''BUFFER '',
      Str ''buf_'', UInt 0, Str ''_'', UInt 0, Str '' DATA_TYPE '',
      Str ''float'', Str '' DATA'', endl, Str ''  '', Str ''...'', endl,
      Str ''END'', endl, endl, Str ''BUFFER '', Str ''buf_'', UInt 0,
      Str ''_'', UInt 1, Str '' DATA_TYPE '', Str ''float'',
      Str '' DATA'', endl, Str ''  '', endl, Str ''END'', endl, endl,
      Str ''BUFFER framebuffer_'', UInt 0, Str '' FORMAT B8G8R8A8_UNORM'',
      endl, endl, Str ''PIPELINE graphics pipeline'', endl,
      Str ''  ATTACH vertex_shader'', endl,
      Str ''  ATTACH fragment_shader'', endl, Str ''  FRAMEBUFFER_SIZE '',
      UInt 4, Str '' '', UInt 4, endl, Str ''  BIND BUFFER framebuffer_'',
      UInt 0, Str '' AS color LOCATION '', UInt 0, endl,
      Str ''  BIND BUFFER '', Str ''buf_'', UInt 0, Str ''_'', UInt 0,
      Str '' AS '', Str ''uniform'', Str '' DESCRIPTOR_SET '', UInt 0,
      Str '' BINDING '', UInt 0, endl, Str ''  BIND BUFFER '', Str ''buf_'',
      UInt 0, Str ''_'', UInt 1, Str '' AS '', Str ''uniform'',
      Str '' DESCRIPTOR_SET '', UInt 0, Str '' BINDING '', UInt 1,
      endl, Str ''  VERTEX_DATA '', Str ''vert_'', UInt 0, Str ''_'',
      UInt 0, Str '' LOCATION '', UInt 0, endl, Str ''  VERTEX_DATA '',
      Str ''vert_'', UInt 0, Str ''_'', UInt 1, Str '' LOCATION '',
      UInt 1, endl, Str ''  INDEX_DATA index_buffer'', endl,
      Str ''  BIND SAMPLER sampler DESCRIPTOR_SET 0 BINDING 1'', endl,
      Str ''  BIND BUFFER texture AS sampled_image DESCRIPTOR_SET 0 BINDING 2'',
      endl, Str ''END'', endl, endl, Str ''CLEAR_COLOR pipeline 0 0 0 255'',
      endl, endl,
      Str ''# Generate a 2x2 texture with a one pixel sized chessboard pattern.'',
      endl, Str ''CLEAR_COLOR texture_create_pipeline 0 0 255 255'', endl,
      Str ''CLEAR texture_create_pipeline'', endl,
      Str ''RUN texture_create_pipeline DRAW_RECT POS 0 0 SIZE 1 1'', endl,
      Str ''RUN texture_create_pipeline DRAW_RECT POS 1 1 SIZE 1 1'', endl,
      endl, Str ''CLEAR pipeline'', endl,
      Str ''RUN pipeline DRAW_ARRAY AS '', Str ''TRIANGLE_LIST'',
      Str '' INDEXED'', endl])"
  by (simp add: full_scene)

section \<open>The vertex data loops in closed form\<close>

lemma find_vertex_staging_eq:
  "find_vertex_staging bc b =
     (case find (\<lambda>c. dstBuffer c = b) bc of None \<Rightarrow> nullptr | Some c \<Rightarrow> srcBuffer c)"
  by (induction bc) simp_all

lemma vertex_data_source_eq:
  "vertex_data_source bc b =
     (case find (\<lambda>c. dstBuffer c = b) bc of
        None \<Rightarrow> b
      | Some c \<Rightarrow> if srcBuffer c = nullptr then b else srcBuffer c)"
  by (simp add: vertex_data_source_def find_vertex_staging_eq split: option.splits)

lemma vertex_headers_ok:
  "vertex_headers b attrs loc (gp, strs) = Inr (gp', strs') \<Longrightarrow>
   \<exists>tys. length tys = length attrs \<and>
     (\<forall>k<length attrs. getBufferTypeName (format (attrs ! k)) = Inr (tys ! k)) \<and>
     gp' = gp @ concat (map (\<lambda>k. [Str ''  VERTEX_DATA ''] @ vertex_buffer_name b (loc + k)
                                   @ [Str '' LOCATION '', UInt (loc + k), endl])
                          [0 ..< length attrs]) \<and>
     strs' = strs @ map (\<lambda>k. [Str ''BUFFER ''] @ vertex_buffer_name b (loc + k)
                               @ [Str '' DATA_TYPE ''] @ tys ! k
                               @ [Str '' DATA '', endl, Str ''  ''])
                      [0 ..< length attrs]"
proof (induction attrs arbitrary: loc gp strs)
  case Nil
  then show ?case by simp
next
  case (Cons d attrs)
  from Cons.prems obtain ty where ty: "getBufferTypeName (format d) = Inr ty"
    and rest: "vertex_headers b attrs (Suc loc)
        (gp @ [Str ''  VERTEX_DATA ''] @ vertex_buffer_name b loc
            @ [Str '' LOCATION '', UInt loc, endl],
         strs @ [[Str ''BUFFER ''] @ vertex_buffer_name b loc @ [Str '' DATA_TYPE '']
                  @ ty @ [Str '' DATA '', endl, Str ''  '']]) = Inr (gp', strs')"
    by (auto split: sum.splits)
  from Cons.IH [OF rest] obtain tys where
    len: "length tys = length attrs"
    and tys: "\<forall>k<length attrs. getBufferTypeName (format (attrs ! k)) = Inr (tys ! k)"
    and gp': "gp' = (gp @ [Str ''  VERTEX_DATA ''] @ vertex_buffer_name b loc
            @ [Str '' LOCATION '', UInt loc, endl])
          @ concat (map (\<lambda>k. [Str ''  VERTEX_DATA ''] @ vertex_buffer_name b (Suc loc + k)
                                   @ [Str '' LOCATION '', UInt (Suc loc + k), endl])
                          [0 ..< length attrs])"
    and strs': "strs' = (strs @ [[Str ''BUFFER ''] @ vertex_buffer_name b loc @ [Str '' DATA_TYPE '']
                  @ ty @ [Str '' DATA '', endl, Str ''  '']])
          @ map (\<lambda>k. [Str ''BUFFER ''] @ vertex_buffer_name b (Suc loc + k)
                               @ [Str '' DATA_TYPE ''] @ tys ! k
                               @ [Str '' DATA '', endl, Str ''  ''])
                      [0 ..< length attrs]"
    by blast
  have upt: "[0 ..< length (d # attrs)] = 0 # map Suc [0 ..< length attrs]"
    by (simp add: upt_conv_Cons map_Suc_upt del: upt_Suc)
  show ?case
  proof (intro exI [of _ "ty # tys"] conjI)
    show "length (ty # tys) = length (d # attrs)" using len by simp
    show "\<forall>k<length (d # attrs). getBufferTypeName (format ((d # attrs) ! k)) = Inr ((ty # tys) ! k)"
      using ty tys by (auto simp: nth_Cons split: nat.splits)
    show "gp' = gp @ concat (map (\<lambda>k. [Str ''  VERTEX_DATA ''] @ vertex_buffer_name b (loc + k)
                                   @ [Str '' LOCATION '', UInt (loc + k), endl])
                          [0 ..< length (d # attrs)])"
      unfolding upt gp' by (simp add: comp_def)
    show "strs' = strs @ map (\<lambda>k. [Str ''BUFFER ''] @ vertex_buffer_name b (loc + k)
                               @ [Str '' DATA_TYPE ''] @ (ty # tys) ! k
                               @ [Str '' DATA '', endl, Str ''  ''])
                      [0 ..< length (d # attrs)]"
      unfolding upt strs' by (simp add: comp_def)
  qed
qed

lemma find_by_location:
  assumes "\<forall>k<length attrs. unat (location (attrs ! k)) = k" and "k < length attrs"
  shows "find (\<lambda>d. unat (location d) = k) attrs = Some (attrs ! k)"
  unfolding find_Some_iff
  using assms by (intro exI [of _ k]) auto

lemma end_streams_nth:
  "end_streams strs =
     concat (map (\<lambda>k. strs ! k @ [endl, Str ''END'', endl, endl]) [0 ..< length strs])"
proof -
  have "map (\<lambda>stream. stream @ [endl, Str ''END'', endl, endl]) strs =
        map (\<lambda>stream. stream @ [endl, Str ''END'', endl, endl]) (map (\<lambda>k. strs ! k) [0 ..< length strs])"
    by (simp only: map_nth)
  then show ?thesis by (simp add: end_streams_def comp_def)
qed

lemma upt_Suc_shift: "[0 ..< Suc n] = 0 # map Suc [0 ..< n]"
  by (simp add: upt_conv_Cons map_Suc_upt del: upt_Suc)

lemma read_components_closed:
  "read_components mem fmt w n p = Inr (lits, p') \<Longrightarrow>
   lits = concat (map (\<lambda>c. [literal fmt (load_u32 mem (p + of_nat c * ucast w)), Str '' ''])
                    [0 ..< n]) \<and>
   p' = p + of_nat n * ucast w"
proof (induction n arbitrary: p lits p')
  case 0
  then show ?case by simp
next
  case (Suc n)
  from Suc.prems obtain code lit lits0 where
    code: "getFormatTypeCode fmt = Inr code"
    and lit: "(case code of
                   tFloat \<Rightarrow> Inr (Float (load_u32 mem p))
                 | tInt32 \<Rightarrow> Inr (SInt (sint (load_u32 mem p)))
                 | tUint32 \<Rightarrow> Inr (UInt (unat (load_u32 mem p)))
                 | _ \<Rightarrow> Inl (AssertFailed ''Unimplemented format'')) = Inr lit"
    and rest: "read_components mem fmt w n (p + ucast w) = Inr (lits0, p')"
    and lits: "lits = [lit, Str '' ''] @ lits0"
    by (auto split: sum.splits prod.splits)
  from code lit have l: "lit = literal fmt (load_u32 mem p)"
    by (cases code) (simp_all add: literal_def)
  have shift: "p + ucast w + of_nat c * ucast w = p + of_nat (Suc c) * ucast w" for c
    by (simp add: algebra_simps)
  from Suc.IH [OF rest, unfolded shift]
  have lits0: "lits0 = concat (map (\<lambda>c. [literal fmt (load_u32 mem (p + of_nat (Suc c) * ucast w)),
                                        Str '' '']) [0 ..< n])"
    and p': "p' = p + of_nat (Suc n) * ucast w"
    by simp_all
  show ?case
    unfolding upt_Suc_shift
    by (simp add: lits l lits0 p' comp_def del: of_nat_Suc)
qed

lemma attribute_literals_0:
  "attribute_literals mem (d # rest) p 0 =
     concat (map (\<lambda>c. [literal (format d) (load_u32 mem (p + 4 * of_nat c)), Str '' ''])
               [0 ..< components d])"
  by (simp add: attribute_literals_def)

lemma attribute_literals_Suc:
  "attribute_literals mem (d # rest) p (Suc j) =
     attribute_literals mem rest (p + 4 * of_nat (components d)) j"
  by (simp add: attribute_literals_def algebra_simps)

lemma getComponentWidth_4: "getComponentWidth fmt = Inr w \<Longrightarrow> w = 4"
  by (cases fmt) simp_all

lemma read_locations_closed:
  "read_locations mem attrs loc p strs = Inr strs' \<Longrightarrow>
   length strs' = length strs \<and>
   (\<forall>k<length strs. strs' ! k = strs ! k @
      (if loc \<le> k \<and> k < loc + length attrs then attribute_literals mem attrs p (k - loc) else []))"
proof (induction attrs arbitrary: loc p strs)
  case Nil
  then show ?case by auto
next
  case (Cons d attrs)
  from Cons.prems obtain comps w lits p' where
    comps: "getComponentCount (format d) = Inr comps"
    and w: "getComponentWidth (format d) = Inr w"
    and rc: "read_components mem (format d) w (unat comps) p = Inr (lits, p')"
    and loc: "loc < length strs"
    and rest: "read_locations mem attrs (Suc loc) p' (strs[loc := strs ! loc @ lits]) = Inr strs'"
    by (auto split: sum.splits prod.splits if_splits)
  have w4: "w = 4" by (rule getComponentWidth_4 [OF w])
  have cd: "components d = unat comps" by (simp add: components_def comps)
  from read_components_closed [OF rc]
  have lits: "lits = attribute_literals mem (d # attrs) p 0"
    and p': "p' = p + 4 * of_nat (components d)"
    by (simp_all add: attribute_literals_0 cd w4 mult.commute)
  from Cons.IH [OF rest]
  have len: "length strs' = length strs"
    and nth: "\<forall>k<length strs. strs' ! k = (strs[loc := strs ! loc @ lits]) ! k @
      (if Suc loc \<le> k \<and> k < Suc loc + length attrs
       then attribute_literals mem attrs p' (k - Suc loc) else [])"
    by simp_all
  show ?case
  proof (intro conjI allI impI)
    show "length strs' = length strs" by (rule len)
  next
    fix k assume k: "k < length strs"
    show "strs' ! k = strs ! k @
      (if loc \<le> k \<and> k < loc + length (d # attrs)
       then attribute_literals mem (d # attrs) p (k - loc) else [])"
    proof (cases "k = loc")
      case True
      with nth k loc show ?thesis by (simp add: lits)
    next
      case False
      show ?thesis
      proof (cases "loc < k")
        case True
        then obtain j where j: "k - loc = Suc j" "k - Suc loc = j"
          by (cases "k - loc") auto
        with nth k False True show ?thesis
          by (auto simp: attribute_literals_Suc p')
      next
        case False
        with \<open>k \<noteq> loc\<close> have "k < loc" by simp
        with nth k show ?thesis by simp
      qed
    qed
  qed
qed

lemma vertex_walk_closed:
  assumes "vertex_walk mem attrs ptr sz strd off strs = Some y"
  shows "\<forall>strs'. y = Inr strs' \<longrightarrow>
    (\<exists>N. list_all (\<lambda>e. ucast (off + of_nat e * strd) < sz) [0 ..< N] \<and>
         \<not> ucast (off + of_nat N * strd) < sz \<and>
         length strs' = length strs \<and>
         (\<forall>k<length strs. strs' ! k = strs ! k @
            concat (map (\<lambda>e. if k < length attrs
                              then attribute_literals mem attrs (ptr + ucast (off + of_nat e * strd)) k
                              else []) [0 ..< N])))"
proof (rule vertex_walk.raw_induct
    [where P = "\<lambda>mem attrs ptr sz strd off strs y. \<forall>strs'. y = Inr strs' \<longrightarrow>
    (\<exists>N. list_all (\<lambda>e. ucast (off + of_nat e * strd) < sz) [0 ..< N] \<and>
         \<not> ucast (off + of_nat N * strd) < sz \<and>
         length strs' = length strs \<and>
         (\<forall>k<length strs. strs' ! k = strs ! k @
            concat (map (\<lambda>e. if k < length attrs
                              then attribute_literals mem attrs (ptr + ucast (off + of_nat e * strd)) k
                              else []) [0 ..< N])))",
     OF _ assms])
  fix vw :: "(64 word \<Rightarrow> 8 word) \<Rightarrow> VkVertexInputAttributeDescription list \<Rightarrow> 64 word
      \<Rightarrow> 64 word \<Rightarrow> 32 word \<Rightarrow> 32 word \<Rightarrow> chunk list list \<Rightarrow> (error + chunk list list) option"
    and mem attrs ptr sz strd off strs y
  assume IH: "\<And>m a pt s st ofs ss y. vw m a pt s st ofs ss = Some y \<Longrightarrow>
      \<forall>strs'. y = Inr strs' \<longrightarrow>
    (\<exists>N. list_all (\<lambda>e. ucast (ofs + of_nat e * st) < s) [0 ..< N] \<and>
         \<not> ucast (ofs + of_nat N * st) < s \<and>
         length strs' = length ss \<and>
         (\<forall>k<length ss. strs' ! k = ss ! k @
            concat (map (\<lambda>e. if k < length a
                              then attribute_literals m a (pt + ucast (ofs + of_nat e * st)) k
                              else []) [0 ..< N])))"
    and eq: "(if ucast off < sz
      then case read_locations mem attrs 0 (ptr + ucast off) strs of
           Inl e \<Rightarrow> Some (Inl e)
           | Inr strs' \<Rightarrow> vw mem attrs ptr sz strd (off + strd) strs'
      else Some (Inr strs)) = Some y"
  show "\<forall>strs'. y = Inr strs' \<longrightarrow>
    (\<exists>N. list_all (\<lambda>e. ucast (off + of_nat e * strd) < sz) [0 ..< N] \<and>
         \<not> ucast (off + of_nat N * strd) < sz \<and>
         length strs' = length strs \<and>
         (\<forall>k<length strs. strs' ! k = strs ! k @
            concat (map (\<lambda>e. if k < length attrs
                              then attribute_literals mem attrs (ptr + ucast (off + of_nat e * strd)) k
                              else []) [0 ..< N])))"
  proof (intro allI impI)
    fix strs' assume y: "y = Inr strs'"
    show "\<exists>N. list_all (\<lambda>e. ucast (off + of_nat e * strd) < sz) [0 ..< N] \<and>
         \<not> ucast (off + of_nat N * strd) < sz \<and>
         length strs' = length strs \<and>
         (\<forall>k<length strs. strs' ! k = strs ! k @
            concat (map (\<lambda>e. if k < length attrs
                              then attribute_literals mem attrs (ptr + ucast (off + of_nat e * strd)) k
                              else []) [0 ..< N]))"
    proof (cases "ucast off < sz")
      case False
      with eq y have "strs' = strs" by simp
      with False show ?thesis by (intro exI [of _ 0]) simp
    next
      case True
      with eq y obtain strs1 where
        rl: "read_locations mem attrs 0 (ptr + ucast off) strs = Inr strs1"
        and vw: "vw mem attrs ptr sz strd (off + strd) strs1 = Some (Inr strs')"
        by (auto split: sum.splits)
      from read_locations_closed [OF rl]
      have len1: "length strs1 = length strs"
        and nth1: "\<forall>k<length strs. strs1 ! k = strs ! k @
           (if k < length attrs then attribute_literals mem attrs (ptr + ucast off) k else [])"
        by simp_all
      have shift: "off + strd + of_nat e * strd = off + of_nat (Suc e) * strd" for e
        by (simp add: algebra_simps)
      from IH [OF vw, unfolded shift] obtain N where
        all: "list_all (\<lambda>e. ucast (off + of_nat (Suc e) * strd) < sz) [0 ..< N]"
        and stop: "\<not> ucast (off + of_nat (Suc N) * strd) < sz"
        and len': "length strs' = length strs1"
        and nth': "\<forall>k<length strs1. strs' ! k = strs1 ! k @
            concat (map (\<lambda>e. if k < length attrs
                              then attribute_literals mem attrs
                                     (ptr + ucast (off + of_nat (Suc e) * strd)) k
                              else []) [0 ..< N])"
        by blast
      show ?thesis
      proof (intro exI [of _ "Suc N"] conjI allI impI)
        show "list_all (\<lambda>e. ucast (off + of_nat e * strd) < sz) [0 ..< Suc N]"
          unfolding list_all_iff
        proof
          fix e assume e: "e \<in> set [0 ..< Suc N]"
          show "ucast (off + of_nat e * strd) < sz"
          proof (cases e)
            case 0
            with True show ?thesis by simp
          next
            case (Suc e')
            with e have "e' \<in> set [0 ..< N]" by auto
            with all have "ucast (off + of_nat (Suc e') * strd) < sz"
              unfolding list_all_iff by blast
            with Suc show ?thesis by simp
          qed
        qed
        show "\<not> ucast (off + of_nat (Suc N) * strd) < sz"
          by (rule stop)
        show "length strs' = length strs" by (simp add: len' len1)
      next
        fix k assume k: "k < length strs"
        with nth' len1 have "strs' ! k = strs1 ! k @
            concat (map (\<lambda>e. if k < length attrs
                              then attribute_literals mem attrs
                                     (ptr + ucast (off + of_nat (Suc e) * strd)) k
                              else []) [0 ..< N])" by simp
        with nth1 k show "strs' ! k = strs ! k @
            concat (map (\<lambda>e. if k < length attrs
                              then attribute_literals mem attrs (ptr + ucast (off + of_nat e * strd)) k
                              else []) [0 ..< Suc N])"
          unfolding upt_Suc_shift by (simp add: comp_def del: of_nat_Suc)
      qed
    qed
  qed
qed

lemma unat_widen_32_64: "unat (ucast (x :: 32 word) :: 64 word) = unat x"
proof -
  have "unat x < 2 ^ 32"
    using unsigned_less [of x, where 'a = nat] by simp
  then have "unat x < 2 ^ 64" by simp
  then show ?thesis
    by (simp add: unsigned_ucast_eq take_bit_nat_eq_self)
qed

lemma offset_less_iff: "ucast (off :: 32 word) < (sz :: 64 word) \<longleftrightarrow> unat off < unat sz"
  by (simp add: word_less_nat_alt unat_widen_32_64)

lemma supported_codes:
  "supported_format fmt \<Longrightarrow>
   getFormatTypeCode fmt = Inr tFloat \<or> getFormatTypeCode fmt = Inr tInt32
     \<or> getFormatTypeCode fmt = Inr tUint32"
  by (cases fmt) (simp_all add: supported_format_def)

lemma read_components_total:
  "supported_format fmt \<Longrightarrow> \<exists>lits p'. read_components mem fmt w n p = Inr (lits, p')"
proof (induction n arbitrary: p)
  case 0
  then show ?case by simp
next
  case (Suc n)
  from Suc.IH [OF Suc.prems, of "p + ucast w"] obtain lits p' where
    "read_components mem fmt w n (p + ucast w) = Inr (lits, p')" by blast
  with supported_codes [OF Suc.prems] show ?case by auto
qed

lemma supported_count:
  "supported_format fmt \<Longrightarrow> \<exists>c. getComponentCount fmt = Inr c"
  by (cases fmt) (simp_all add: supported_format_def)

lemma supported_width:
  "supported_format fmt \<Longrightarrow> getComponentWidth fmt = Inr 4"
  by (cases fmt) (simp_all add: supported_format_def)

lemma supported_type_name:
  "supported_format fmt \<Longrightarrow> \<exists>ty. getBufferTypeName fmt = Inr ty"
  by (cases fmt) (simp_all add: supported_format_def getBufferTypeName_def)

lemma read_locations_total:
  "\<forall>d\<in>set attrs. supported_format (format d) \<Longrightarrow> loc + length attrs \<le> length strs \<Longrightarrow>
   \<exists>strs'. read_locations mem attrs loc p strs = Inr strs'"
proof (induction attrs arbitrary: loc p strs)
  case Nil
  then show ?case by simp
next
  case (Cons d attrs)
  from Cons.prems have sup: "supported_format (format d)"
    and rest: "\<forall>d\<in>set attrs. supported_format (format d)"
    and loc: "loc < length strs" by auto
  from supported_count [OF sup] obtain c where c: "getComponentCount (format d) = Inr c" by blast
  from read_components_total [OF sup, of mem 4 "unat c" p] obtain lits p' where
    rc: "read_components mem (format d) 4 (unat c) p = Inr (lits, p')" by blast
  from Cons.prems have "Suc loc + length attrs \<le> length (strs[loc := strs ! loc @ lits])" by simp
  from Cons.IH [OF rest this, of p'] obtain strs' where
    "read_locations mem attrs (Suc loc) p' (strs[loc := strs ! loc @ lits]) = Inr strs'" by blast
  with c rc loc supported_width [OF sup] show ?case by simp
qed

lemma vertex_walk_total:
  assumes sup: "\<forall>d\<in>set attrs. supported_format (format d)"
    and strd: "strd \<noteq> 0"
    and fit: "unat sz + unat strd \<le> 2 ^ 32"
  shows "length strs = length attrs \<Longrightarrow> unat off < unat sz + unat strd \<Longrightarrow>
     \<exists>strs'. vertex_walk mem attrs ptr sz strd off strs = Some (Inr strs')"
proof (induction "unat sz + unat strd - unat off" arbitrary: off strs rule: less_induct)
  case less
  show ?case
  proof (cases "ucast off < sz")
    case False
    then show ?thesis by (subst vertex_walk.simps) simp
  next
    case True
    then have lt: "unat off < unat sz" by (simp add: offset_less_iff)
    from less.prems(1) have "0 + length attrs \<le> length strs" by simp
    from read_locations_total [OF sup this, of mem "ptr + ucast off"] obtain strs1 where
      rl: "read_locations mem attrs 0 (ptr + ucast off) strs = Inr strs1" by blast
    from read_locations_closed [OF rl] less.prems(1)
    have len1: "length strs1 = length attrs" by simp
    have pos: "0 < unat strd" using strd by (simp add: unat_gt_0)
    have sum: "unat off + unat strd < 2 ^ 32" using lt fit by simp
    then have next_off: "unat (off + strd) = unat off + unat strd"
      by (simp add: unat_add_lem [THEN iffD1])
    have dec: "unat sz + unat strd - unat (off + strd) < unat sz + unat strd - unat off"
      using next_off pos lt by simp
    have inv: "unat (off + strd) < unat sz + unat strd"
      using next_off lt by simp
    from less.hyps [OF dec len1 inv] obtain strs' where
      "vertex_walk mem attrs ptr sz strd (off + strd) strs1 = Some (Inr strs')" by blast
    with True rl show ?thesis by (subst vertex_walk.simps) simp
  qed
qed

lemma vertex_headers_total:
  "\<forall>d\<in>set attrs. supported_format (format d) \<Longrightarrow>
   \<exists>gp' strs'. vertex_headers b attrs loc (gp, strs) = Inr (gp', strs')"
proof (induction attrs arbitrary: loc gp strs)
  case Nil
  then show ?case by simp
next
  case (Cons d attrs)
  from Cons.prems have sup: "supported_format (format d)"
    and rest: "\<forall>d\<in>set attrs. supported_format (format d)" by auto
  from supported_type_name [OF sup] obtain ty where ty: "getBufferTypeName (format d) = Inr ty"
    by blast
  from Cons.IH [OF rest] ty show ?case by simp
qed

lemma vertex_data_closed:
  assumes "vertex_data h pci n buffer bd ptr s = Some (Inr s')"
  shows "\<exists>N. walked (buf_size buffer) (stride bd) N \<and>
     (\<forall>k<length (pVertexAttributeDescriptions (pVertexInputState pci)).
        getBufferTypeName (format (pVertexAttributeDescriptions (pVertexInputState pci) ! k))
          = Inr (type_name (pVertexAttributeDescriptions (pVertexInputState pci) ! k))) \<and>
     s' = s\<lparr>graphicsPipelineStringStream :=
              graphicsPipelineStringStream s
                @ vertex_lines n (pVertexAttributeDescriptions (pVertexInputState pci)),
            bufferDeclarationStringStream :=
              bufferDeclarationStringStream s
                @ vertex_blocks (memory h) (pVertexAttributeDescriptions (pVertexInputState pci))
                    n ptr (stride bd) N\<rparr>"
proof -
  let ?attrs = "pVertexAttributeDescriptions (pVertexInputState pci)"
  let ?n = "length ?attrs"
  from assms obtain gp hdrs strs where
    hd: "vertex_headers n ?attrs 0 (graphicsPipelineStringStream s, []) = Inr (gp, hdrs)"
    and walk: "vertex_walk (memory h) ?attrs ptr (buf_size buffer) (stride bd) 0 hdrs
                 = Some (Inr strs)"
    and s': "s' = s\<lparr>graphicsPipelineStringStream := gp,
                    bufferDeclarationStringStream :=
                      bufferDeclarationStringStream s @ end_streams strs\<rparr>"
    by (auto simp: vertex_data_def Let_def split: sum.splits option.splits prod.splits)
  from vertex_headers_ok [OF hd] obtain tys where
    len: "length tys = ?n"
    and tys: "\<forall>k<?n. getBufferTypeName (format (?attrs ! k)) = Inr (tys ! k)"
    and gp: "gp = graphicsPipelineStringStream s @ vertex_lines n ?attrs"
    and hdrs: "hdrs = map (\<lambda>k. [Str ''BUFFER ''] @ vertex_buffer_name n k
                               @ [Str '' DATA_TYPE ''] @ tys ! k
                               @ [Str '' DATA '', endl, Str ''  '']) [0 ..< ?n]"
    by (auto simp: vertex_lines_def)
  have tn: "\<forall>k<?n. tys ! k = type_name (?attrs ! k)"
    using tys by (simp add: type_name_def)
  from vertex_walk_closed [OF walk] obtain N where
    all: "list_all (\<lambda>e. ucast (0 + of_nat e * stride bd) < buf_size buffer) [0 ..< N]"
    and stop: "\<not> ucast (0 + of_nat N * stride bd) < buf_size buffer"
    and lens: "length strs = length hdrs"
    and nth: "\<forall>k<length hdrs. strs ! k = hdrs ! k @
            concat (map (\<lambda>e. if k < ?n
                              then attribute_literals (memory h) ?attrs
                                     (ptr + ucast (0 + of_nat e * stride bd)) k
                              else []) [0 ..< N])"
    by blast
  have w: "walked (buf_size buffer) (stride bd) N"
    using all stop by (simp add: walked_def)
  have lh: "length hdrs = ?n" by (simp add: hdrs)
  have blocks: "end_streams strs = vertex_blocks (memory h) ?attrs n ptr (stride bd) N"
    unfolding end_streams_nth vertex_blocks_def lens lh
  proof (rule arg_cong [where f = concat], rule map_cong [OF refl])
    fix k assume "k \<in> set [0 ..< ?n]"
    then have k: "k < ?n" by simp
    with nth lh have "strs ! k = hdrs ! k @ block_data (memory h) ?attrs ptr (stride bd) N k"
      by (simp add: block_data_def)
    with k tn show "strs ! k @ [endl, Str ''END'', endl, endl] =
        [Str ''BUFFER ''] @ vertex_buffer_name n k @ [Str '' DATA_TYPE '']
          @ type_name (?attrs ! k) @ [Str '' DATA '', endl, Str ''  '']
          @ block_data (memory h) ?attrs ptr (stride bd) N k @ [endl, Str ''END'', endl, endl]"
      by (simp add: hdrs)
  qed
  have ty: "\<forall>k<?n. getBufferTypeName (format (?attrs ! k)) = Inr (type_name (?attrs ! k))"
    using tys tn by simp
  show ?thesis
    by (rule exI [where x = N]) (intro conjI w ty, simp add: s' gp blocks)
qed

lemma vertex_data_total:
  assumes "\<forall>d\<in>set (pVertexAttributeDescriptions (pVertexInputState pci)). supported_format (format d)"
    and "stride bd \<noteq> 0"
    and "unat (buf_size buffer) + unat (stride bd) \<le> 2 ^ 32"
  shows "\<exists>s'. vertex_data h pci n buffer bd ptr s = Some (Inr s')"
proof -
  let ?attrs = "pVertexAttributeDescriptions (pVertexInputState pci)"
  from vertex_headers_total [OF assms(1), of n 0 "graphicsPipelineStringStream s" "[]"]
  obtain gp hdrs where
    hd: "vertex_headers n ?attrs 0 (graphicsPipelineStringStream s, []) = Inr (gp, hdrs)" by blast
  from vertex_headers_ok [OF hd] have lh: "length hdrs = length ?attrs" by auto
  have "unat (0 :: 32 word) < unat (buf_size buffer) + unat (stride bd)"
    using assms(2) by (simp add: unat_gt_0)
  from vertex_walk_total [OF assms(1) assms(2) assms(3) lh this, of "memory h" ptr]
  obtain strs where "vertex_walk (memory h) ?attrs ptr (buf_size buffer) (stride bd) 0 hdrs
      = Some (Inr strs)" by blast
  with hd show ?thesis by (simp add: vertex_data_def)
qed

lemma vertex_binding_closed:
  assumes run: "vertex_binding h g bc pci (n, b) s = Some (Inr s')"
    and c: "umap_count (bufferToMemory g) b \<noteq> 0"
  shows "\<exists>buffer dm off e N.
         map_of (buffers g) b = Some buffer \<and>
         unat n < length (pVertexBindingDescriptions (pVertexInputState pci)) \<and>
         map_of (bufferToMemory g)
           (case find (\<lambda>c. dstBuffer c = b) bc of
              None \<Rightarrow> b
            | Some c \<Rightarrow> if srcBuffer c = nullptr then b else srcBuffer c) = Some (dm, off) \<and>
         map_of (mappedMemory g) dm = Some e \<and>
         walked (buf_size buffer)
           (stride (pVertexBindingDescriptions (pVertexInputState pci) ! unat n)) N \<and>
         (\<forall>k<length (pVertexAttributeDescriptions (pVertexInputState pci)).
            getBufferTypeName (format (pVertexAttributeDescriptions (pVertexInputState pci) ! k))
              = Inr (type_name (pVertexAttributeDescriptions (pVertexInputState pci) ! k))) \<and>
         s' = s\<lparr>graphicsPipelineStringStream :=
                  graphicsPipelineStringStream s
                    @ vertex_lines n (pVertexAttributeDescriptions (pVertexInputState pci)),
                bufferDeclarationStringStream :=
                  bufferDeclarationStringStream s
                    @ vertex_blocks (memory h)
                        (pVertexAttributeDescriptions (pVertexInputState pci)) n
                        (snd (snd (snd e)))
                        (stride (pVertexBindingDescriptions (pVertexInputState pci) ! unat n))
                        N\<rparr>"
proof -
  let ?bds = "pVertexBindingDescriptions (pVertexInputState pci)"
  let ?attrs = "pVertexAttributeDescriptions (pVertexInputState pci)"
  let ?src = "case find (\<lambda>c. dstBuffer c = b) bc of
              None \<Rightarrow> b
            | Some c \<Rightarrow> if srcBuffer c = nullptr then b else srcBuffer c"
  from c run obtain buffer dm off e where
    buffer: "map_of (buffers g) b = Some buffer"
    and n: "unat n < length ?bds"
    and bm: "map_of (bufferToMemory g) ?src = Some (dm, off)"
    and mm: "map_of (mappedMemory g) dm = Some e"
    and vd: "vertex_data h pci n buffer (?bds ! unat n) (snd (snd (snd e))) s = Some (Inr s')"
    by (auto simp: vertex_binding_def vertex_data_source_eq Let_def umap_at_Inr array_read_Inr
        split: sum.splits if_splits prod.splits)
  from vertex_data_closed [OF vd] obtain N where
    w: "walked (buf_size buffer) (stride (?bds ! unat n)) N"
    and ty: "\<forall>k<length ?attrs. getBufferTypeName (format (?attrs ! k))
              = Inr (type_name (?attrs ! k))"
    and s': "s' = s\<lparr>graphicsPipelineStringStream :=
                graphicsPipelineStringStream s @ vertex_lines n ?attrs,
              bufferDeclarationStringStream :=
                bufferDeclarationStringStream s
                  @ vertex_blocks (memory h) ?attrs n (snd (snd (snd e)))
                      (stride (?bds ! unat n)) N\<rparr>"
    by blast
  show ?thesis
    by (rule exI [where x = buffer], rule exI [where x = dm], rule exI [where x = off],
        rule exI [where x = e], rule exI [where x = N]) (intro conjI buffer n bm mm w ty s')
qed

lemma vertex_binding_placeholder:
  assumes "vertex_binding h g bc pci (n, b) s = Some (Inr s')"
    and "umap_count (bufferToMemory g) b = 0"
  shows "s' = s\<lparr>bufferDeclarationStringStream :=
                  bufferDeclarationStringStream s @ [Str ''...'']\<rparr>"
  using assms by (auto simp: vertex_binding_def split: sum.splits if_splits)

lemma vertex_binding_total:
  assumes buffer: "map_of (buffers g) b = Some buffer"
    and usage: "buf_usage buffer AND VK_BUFFER_USAGE_VERTEX_BUFFER_BIT \<noteq> 0"
    and n: "unat n < length (pVertexBindingDescriptions (pVertexInputState pci))"
    and rate: "inputRate (pVertexBindingDescriptions (pVertexInputState pci) ! unat n)
                 = VK_VERTEX_INPUT_RATE_VERTEX"
    and bound: "map_of (bufferToMemory g) b \<noteq> None"
    and bm: "map_of (bufferToMemory g)
      (case find (\<lambda>c. dstBuffer c = b) bc of
         None \<Rightarrow> b
       | Some c \<Rightarrow> if srcBuffer c = nullptr then b else srcBuffer c) = Some (dm, off)"
    and mm: "map_of (mappedMemory g) dm \<noteq> None"
    and sup: "\<forall>d\<in>set (pVertexAttributeDescriptions (pVertexInputState pci)).
                supported_format (format d)"
    and strd: "stride (pVertexBindingDescriptions (pVertexInputState pci) ! unat n) \<noteq> 0"
    and fit: "unat (buf_size buffer)
      + unat (stride (pVertexBindingDescriptions (pVertexInputState pci) ! unat n)) \<le> 2 ^ 32"
  shows "\<exists>s1. vertex_binding h g bc pci (n, b) s = Some (Inr s1)"
proof -
  let ?bds = "pVertexBindingDescriptions (pVertexInputState pci)"
  from mm obtain e where e: "map_of (mappedMemory g) dm = Some e" by blast
  from vertex_data_total [OF sup strd fit, of h n "snd (snd (snd e))" s] obtain s1 where
    "vertex_data h pci n buffer (?bds ! unat n) (snd (snd (snd e))) s = Some (Inr s1)" by blast
  with buffer usage n rate bound bm e show ?thesis
    by (simp add: vertex_binding_def vertex_data_source_eq umap_at_def umap_count_def
        array_read_def)
qed

lemma vertex_binding_unbound_total:
  assumes buffer: "map_of (buffers g) b = Some buffer"
    and usage: "buf_usage buffer AND VK_BUFFER_USAGE_VERTEX_BUFFER_BIT \<noteq> 0"
    and n: "unat n < length (pVertexBindingDescriptions (pVertexInputState pci))"
    and rate: "inputRate (pVertexBindingDescriptions (pVertexInputState pci) ! unat n)
                 = VK_VERTEX_INPUT_RATE_VERTEX"
    and unbound: "map_of (bufferToMemory g) b = None"
  shows "\<exists>s1. vertex_binding h g bc pci (n, b) s = Some (Inr s1)"
  using assms by (simp add: vertex_binding_def umap_at_def umap_count_def array_read_def)

lemma binding_can_be_read_total:
  assumes "binding_can_be_read g bc pci vb"
  shows "\<exists>s1. vertex_binding h g bc pci vb s = Some (Inr s1)"
proof -
  obtain n b where vb: "vb = (n, b)" by (cases vb)
  let ?bds = "pVertexBindingDescriptions (pVertexInputState pci)"
  from assms vb obtain buffer where
    buffer: "map_of (buffers g) b = Some buffer"
    and usage: "buf_usage buffer AND VK_BUFFER_USAGE_VERTEX_BUFFER_BIT \<noteq> 0"
    and n: "unat n < length ?bds"
    and rate: "inputRate (?bds ! unat n) = VK_VERTEX_INPUT_RATE_VERTEX"
    and rest: "map_of (bufferToMemory g) b = None \<or>
            (case map_of (bufferToMemory g) (vertex_data_source bc b) of
               None \<Rightarrow> False
             | Some (deviceMemory, memoryOffset) \<Rightarrow>
                 map_of (mappedMemory g) deviceMemory \<noteq> None \<and>
                 list_all (\<lambda>d. supported_format (format d))
                   (pVertexAttributeDescriptions (pVertexInputState pci)) \<and>
                 stride (?bds ! unat n) \<noteq> 0 \<and>
                 unat (buf_size buffer) + unat (stride (?bds ! unat n)) \<le> 2 ^ 32)"
    by (auto simp: binding_can_be_read_def Let_def split: option.splits)
  show ?thesis
  proof (cases "map_of (bufferToMemory g) b = None")
    case True
    from vertex_binding_unbound_total [OF buffer usage n rate True] vb show ?thesis by simp
  next
    case False
    with rest obtain dm off where
      bm: "map_of (bufferToMemory g) (vertex_data_source bc b) = Some (dm, off)"
      and mm: "map_of (mappedMemory g) dm \<noteq> None"
      and sup: "\<forall>d\<in>set (pVertexAttributeDescriptions (pVertexInputState pci)).
                supported_format (format d)"
      and strd: "stride (?bds ! unat n) \<noteq> 0"
      and fit: "unat (buf_size buffer) + unat (stride (?bds ! unat n)) \<le> 2 ^ 32"
      by (auto simp: list_all_iff split: option.splits)
    from vertex_binding_total [OF buffer usage n rate False bm [unfolded vertex_data_source_eq]
        mm sup strd fit] vb
    show ?thesis by simp
  qed
qed

lemma vertex_section_total:
  "\<forall>vb\<in>set vbs. binding_can_be_read g bc pci vb \<Longrightarrow>
   \<exists>s'. vertex_section h g bc pci vbs s = Some (Inr s')"
proof (induction vbs arbitrary: s)
  case Nil
  then show ?case by simp
next
  case (Cons vb vbs)
  from Cons.prems have "binding_can_be_read g bc pci vb" by simp
  from binding_can_be_read_total [OF this] obtain s1 where
    s1: "vertex_binding h g bc pci vb s = Some (Inr s1)" by blast
  from Cons.prems have "\<forall>vb\<in>set vbs. binding_can_be_read g bc pci vb" by simp
  from Cons.IH [OF this] obtain s' where "vertex_section h g bc pci vbs s1 = Some (Inr s')"
    by blast
  with s1 show ?case by simp
qed

lemma vertex_section_parts:
  assumes step: "\<And>vb s s'. vertex_binding h g bc pci vb s = Some (Inr s') \<Longrightarrow>
      \<exists>part. P vb part \<and>
        s' = s\<lparr>graphicsPipelineStringStream := graphicsPipelineStringStream s @ snd part,
               bufferDeclarationStringStream := bufferDeclarationStringStream s @ fst part\<rparr>"
  shows "vertex_section h g bc pci vbs s = Some (Inr s') \<Longrightarrow>
     \<exists>parts. list_all2 P vbs parts \<and>
       s' = s\<lparr>graphicsPipelineStringStream :=
                graphicsPipelineStringStream s @ concat (map snd parts),
              bufferDeclarationStringStream :=
                bufferDeclarationStringStream s @ concat (map fst parts)\<rparr>"
proof (induction vbs arbitrary: s)
  case Nil
  then show ?case by simp
next
  case (Cons vb vbs)
  from Cons.prems obtain s1 where
    one: "vertex_binding h g bc pci vb s = Some (Inr s1)"
    and rest: "vertex_section h g bc pci vbs s1 = Some (Inr s')"
    by (auto split: option.splits sum.splits)
  from step [OF one] obtain part where
    p: "P vb part"
    and s1: "s1 = s\<lparr>graphicsPipelineStringStream := graphicsPipelineStringStream s @ snd part,
               bufferDeclarationStringStream := bufferDeclarationStringStream s @ fst part\<rparr>"
    by blast
  from Cons.IH [OF rest] obtain parts where
    ps: "list_all2 P vbs parts"
    and s': "s' = s1\<lparr>graphicsPipelineStringStream :=
                graphicsPipelineStringStream s1 @ concat (map snd parts),
              bufferDeclarationStringStream :=
                bufferDeclarationStringStream s1 @ concat (map fst parts)\<rparr>"
    by blast
  show ?case
    by (rule exI [where x = "part # parts"]) (simp add: p ps s' s1)
qed

lemma index_section_appends:
  "index_section h g bc t ic s = Inr s' \<Longrightarrow>
   \<exists>d p. bufferDeclarationStringStream s' = bufferDeclarationStringStream s @ d \<and>
         graphicsPipelineStringStream s' = graphicsPipelineStringStream s @ p"
  by (auto simp: index_section_def split: if_splits sum.splits)

lemma descriptor_slot_appends:
  "descriptor_slot h g n lay bb s = Inr s' \<Longrightarrow>
   \<exists>d. bufferDeclarationStringStream s' = bufferDeclarationStringStream s @ d \<and>
       graphicsPipelineStringStream s' = graphicsPipelineStringStream s"
  by (auto simp: descriptor_slot_def Let_def split: if_splits sum.splits)

lemma descriptor_slots_appends:
  "descriptor_slots h g n lay bbs s = Inr s' \<Longrightarrow>
   \<exists>d. bufferDeclarationStringStream s' = bufferDeclarationStringStream s @ d \<and>
       graphicsPipelineStringStream s' = graphicsPipelineStringStream s"
proof (induction bbs arbitrary: s)
  case Nil
  then show ?case by simp
next
  case (Cons bb bbs)
  from Cons.prems obtain s1 where
    one: "descriptor_slot h g n lay bb s = Inr s1"
    and rest: "descriptor_slots h g n lay bbs s1 = Inr s'"
    by (auto split: sum.splits)
  from descriptor_slot_appends [OF one] Cons.IH [OF rest] show ?case by auto
qed

lemma descriptor_section_appends:
  "descriptor_section h g sets s = Inr s' \<Longrightarrow>
   \<exists>d. bufferDeclarationStringStream s' = bufferDeclarationStringStream s @ d \<and>
       graphicsPipelineStringStream s' = graphicsPipelineStringStream s"
proof (induction sets arbitrary: s)
  case Nil
  then show ?case by simp
next
  case (Cons ds sets)
  from Cons.prems obtain lay bbs s1 where
    one: "descriptor_slots h g (fst ds) lay bbs s = Inr s1"
    and rest: "descriptor_section h g sets s1 = Inr s'"
    by (auto split: sum.splits)
  from descriptor_slots_appends [OF one] Cons.IH [OF rest] show ?case by auto
qed

lemma framebuffer_attachments_appends:
  "\<exists>d. bufferDeclarationStringStream (framebuffer_attachments cs s)
         = bufferDeclarationStringStream s @ d \<and>
       graphicsPipelineStringStream (framebuffer_attachments cs s)
         = graphicsPipelineStringStream s"
proof (induction cs arbitrary: s)
  case Nil
  then show ?case by simp
next
  case (Cons c cs)
  from Cons.IH [of "s\<lparr>bufferDeclarationStringStream :=
            bufferDeclarationStringStream s
              @ [Str ''BUFFER framebuffer_'', UInt c,
                 Str '' FORMAT B8G8R8A8_UNORM'', endl, endl],
          framebufferAttachmentStringStream :=
            framebufferAttachmentStringStream s
              @ [Str ''  BIND BUFFER framebuffer_'', UInt c,
                 Str '' AS color LOCATION '', UInt c, endl]\<rparr>"]
  show ?case by auto
qed

lemma fill_streams_parts:
  assumes "fill_streams h g bc t ic pci rp = Some (Inr s)"
  shows "\<exists>s1 d p. vertex_section h g bc pci (boundVertexBuffers t) empty_streams = Some (Inr s1) \<and>
     bufferDeclarationStringStream s = bufferDeclarationStringStream s1 @ d \<and>
     graphicsPipelineStringStream s = graphicsPipelineStringStream s1 @ p"
proof -
  from assms obtain s1 s2 s3 cs where
    v: "vertex_section h g bc pci (boundVertexBuffers t) empty_streams = Some (Inr s1)"
    and i: "index_section h g bc t ic s1 = Inr s2"
    and d: "descriptor_section h g (boundGraphicsDescriptorSets t) s2 = Inr s3"
    and s: "s = framebuffer_attachments cs s3"
    by (auto simp: fill_streams_def split: option.splits sum.splits)
  from index_section_appends [OF i] descriptor_section_appends [OF d]
    framebuffer_attachments_appends [of cs s3] v s
  show ?thesis by auto
qed

lemma HandleDrawCall_parts:
  assumes "HandleDrawCall h g bc t ic = Some (Exited out)"
  shows "\<exists>pci s1 vd fd mid post.
     map_of (graphicsPipelines g) (boundGraphicsPipeline t) = Some pci \<and>
     vertex_section h g bc pci (boundVertexBuffers t) empty_streams = Some (Inr s1) \<and>
     out = shader_header vd @ [Str fd] @ texture_preamble
             @ bufferDeclarationStringStream s1 @ mid
             @ graphicsPipelineStringStream s1 @ post"
proof -
  from assms obtain rp pci vd fd s fb tail where
    pci: "map_of (graphicsPipelines g) (boundGraphicsPipeline t) = Some pci"
    and f: "fill_streams h g bc t ic pci rp = Some (Inr s)"
    and out: "out = shader_header vd @ [Str fd] @ texture_preamble @ pipeline_opening s
                @ pipeline_body fb s @ tail"
    by (auto simp: HandleDrawCall_def Let_def umap_at_Inr
        split: if_splits option.splits sum.splits prod.splits)
  from fill_streams_parts [OF f] obtain s1 d p where
    v: "vertex_section h g bc pci (boundVertexBuffers t) empty_streams = Some (Inr s1)"
    and sd: "bufferDeclarationStringStream s = bufferDeclarationStringStream s1 @ d"
    and sp: "graphicsPipelineStringStream s = graphicsPipelineStringStream s1 @ p"
    by blast
  have "\<exists>tr. pipeline_body fb s =
      [Str ''  FRAMEBUFFER_SIZE '', UInt (unat (width fb)), Str '' '',
       UInt (unat (height fb)), endl]
        @ framebufferAttachmentStringStream s @ descriptorSetBindingStringStream s
        @ graphicsPipelineStringStream s @ tr"
    by (simp add: pipeline_body_def)
  then obtain tr where body: "pipeline_body fb s =
      [Str ''  FRAMEBUFFER_SIZE '', UInt (unat (width fb)), Str '' '',
       UInt (unat (height fb)), endl]
        @ framebufferAttachmentStringStream s @ descriptorSetBindingStringStream s
        @ graphicsPipelineStringStream s @ tr" by blast
  have eq: "out = shader_header vd @ [Str fd] @ texture_preamble
             @ bufferDeclarationStringStream s1
             @ (d @ [Str ''PIPELINE graphics pipeline'', endl,
                     Str ''  ATTACH vertex_shader'', endl,
                     Str ''  ATTACH fragment_shader'', endl]
                  @ [Str ''  FRAMEBUFFER_SIZE '', UInt (unat (width fb)), Str '' '',
                     UInt (unat (height fb)), endl]
                  @ framebufferAttachmentStringStream s @ descriptorSetBindingStringStream s)
             @ graphicsPipelineStringStream s1 @ (p @ tr @ tail)"
    unfolding out body by (simp add: pipeline_opening_def sd sp)
  show ?thesis
    by (rule exI [where x = pci], rule exI [where x = s1], rule exI [where x = vd],
        rule exI [where x = fd],
        rule exI [where x = "d @ [Str ''PIPELINE graphics pipeline'', endl,
                     Str ''  ATTACH vertex_shader'', endl,
                     Str ''  ATTACH fragment_shader'', endl]
                  @ [Str ''  FRAMEBUFFER_SIZE '', UInt (unat (width fb)), Str '' '',
                     UInt (unat (height fb)), endl]
                  @ framebufferAttachmentStringStream s @ descriptorSetBindingStringStream s"],
        rule exI [where x = "p @ tr @ tail"])
      (intro conjI pci v eq)
qed

lemmas closed_scene =
  vertex_blocks_def vertex_lines_def block_data_def attribute_literals_def components_def
  type_name_def literal_def walked_def supported_format_def upt_rec

lemma sample_walked: "walked 24 12 2"
  by (simp add: walked_def upt_rec)

lemma sample_blocks:
  "vertex_blocks (memory sample_host)
      (pVertexAttributeDescriptions (pVertexInputState sample_pipeline)) 0 0x2000 12 2 =
           [Str ''BUFFER '', Str ''vert_'', UInt 0, Str ''_'', UInt 0,
            Str '' DATA_TYPE '', Str ''vec'', UInt 2, Str ''<'', Str ''float'', Str ''>'',
            Str '' DATA '', endl, Str ''  '',
            Float 50462976, Str '' '', Float 117835012, Str '' '',
            Float 252579084, Str '' '', Float 319951120, Str '' '', endl,
            Str ''END'', endl, endl,
            Str ''BUFFER '', Str ''vert_'', UInt 0, Str ''_'', UInt 1,
            Str '' DATA_TYPE '', Str ''uint32'', Str '' DATA '', endl, Str ''  '',
            UInt 185207048, Str '' '', UInt 387323156, Str '' '', endl,
            Str ''END'', endl, endl]"
  by (simp add: closed_scene sample_scene)

lemma vertex_binding_part:
  assumes run: "vertex_binding h g bc pci vb s = Some (Inr s')"
  shows "\<exists>part.
     (if umap_count (bufferToMemory g) (snd vb) = 0 then part = ([Str ''...''], [])
      else
        (\<forall>k<length (pVertexAttributeDescriptions (pVertexInputState pci)).
           getBufferTypeName (format (pVertexAttributeDescriptions (pVertexInputState pci) ! k))
             = Inr (type_name (pVertexAttributeDescriptions (pVertexInputState pci) ! k))) \<and>
        (\<exists>ptr N.
           part =
             (vertex_blocks (memory h) (pVertexAttributeDescriptions (pVertexInputState pci))
                (fst vb) ptr
                (stride (pVertexBindingDescriptions (pVertexInputState pci) ! unat (fst vb))) N,
              vertex_lines (fst vb) (pVertexAttributeDescriptions (pVertexInputState pci))))) \<and>
     s' = s\<lparr>graphicsPipelineStringStream := graphicsPipelineStringStream s @ snd part,
            bufferDeclarationStringStream := bufferDeclarationStringStream s @ fst part\<rparr>"
proof -
  obtain n b where vb: "vb = (n, b)" by (cases vb)
  show ?thesis
  proof (cases "umap_count (bufferToMemory g) b = 0")
    case True
    from vertex_binding_placeholder [OF run [unfolded vb] True]
    show ?thesis
      by (intro exI [where x = "([Str ''...''], [])"]) (simp add: vb True)
  next
    case False
    let ?attrs = "pVertexAttributeDescriptions (pVertexInputState pci)"
    let ?strd = "stride (pVertexBindingDescriptions (pVertexInputState pci) ! unat n)"
    from vertex_binding_closed [OF run [unfolded vb] False] obtain dm e N where
      mm: "map_of (mappedMemory g) dm = Some e"
      and ty: "\<forall>k<length ?attrs. getBufferTypeName (format (?attrs ! k))
              = Inr (type_name (?attrs ! k))"
      and s': "s' = s\<lparr>graphicsPipelineStringStream :=
                  graphicsPipelineStringStream s @ vertex_lines n ?attrs,
                bufferDeclarationStringStream :=
                  bufferDeclarationStringStream s
                    @ vertex_blocks (memory h) ?attrs n (snd (snd (snd e))) ?strd N\<rparr>"
      by blast
    show ?thesis
      by (rule exI [where x = "(vertex_blocks (memory h) ?attrs n (snd (snd (snd e))) ?strd N,
            vertex_lines n ?attrs)"])
        (use False ty s' in \<open>auto simp: vb\<close>)
  qed
qed

section \<open>Staging buffers of vertex data\<close>

text \<open>
  C1 (as amended). For a serialized vertex-buffer binding whose bound buffer has a
  recorded memory binding, the data source is the source buffer of the first recorded copy
  whose destination is the bound buffer, unless there is no such copy or that source is
  the null handle: then the data source is the bound buffer itself. The vertex data is
  read from the data source: the blocks appended to the buffer declarations hold, element
  by element (\<open>N\<close> elements, one per multiple of the stride below the size of the bound
  buffer), the 32-bit words found at the pointer at which the memory of the data source is
  mapped. For a bound buffer without a recorded memory binding no data is read, whatever
  copies are recorded: the placeholder \<^verbatim>\<open>...\<close> is all that is emitted. And the
  serialization of the binding does return such a result when the bound buffer is
  registered with the vertex usage bit, its binding number has a per-vertex binding
  description, the memory of the data source is mapped, every attribute format is known,
  the stride is not 0 and size plus stride stays within 32 bits.
\<close>

theorem vertex_data_read_from_staging_source:
  "(umap_count (bufferToMemory g) b \<noteq> 0 \<longrightarrow>
      vertex_binding h g bc pci (n, b) s = Some (Inr s') \<longrightarrow>
      (\<exists>buffer dm off e N.
         map_of (buffers g) b = Some buffer \<and>
         unat n < length (pVertexBindingDescriptions (pVertexInputState pci)) \<and>
         map_of (bufferToMemory g)
           (case find (\<lambda>c. dstBuffer c = b) bc of
              None \<Rightarrow> b
            | Some c \<Rightarrow> if srcBuffer c = nullptr then b else srcBuffer c) = Some (dm, off) \<and>
         map_of (mappedMemory g) dm = Some e \<and>
         walked (buf_size buffer)
           (stride (pVertexBindingDescriptions (pVertexInputState pci) ! unat n)) N \<and>
         s' = s\<lparr>graphicsPipelineStringStream :=
                  graphicsPipelineStringStream s
                    @ vertex_lines n (pVertexAttributeDescriptions (pVertexInputState pci)),
                bufferDeclarationStringStream :=
                  bufferDeclarationStringStream s
                    @ vertex_blocks (memory h)
                        (pVertexAttributeDescriptions (pVertexInputState pci)) n
                        (snd (snd (snd e)))
                        (stride (pVertexBindingDescriptions (pVertexInputState pci) ! unat n))
                        N\<rparr>)) \<and>
   (umap_count (bufferToMemory g) b = 0 \<longrightarrow>
      vertex_binding h g bc pci (n, b) s = Some (Inr s') \<longrightarrow>
      s' = s\<lparr>bufferDeclarationStringStream := bufferDeclarationStringStream s @ [Str ''...'']\<rparr>) \<and>
   (map_of (buffers g) b = Some boundBuffer \<longrightarrow>
    buf_usage boundBuffer AND VK_BUFFER_USAGE_VERTEX_BUFFER_BIT \<noteq> 0 \<longrightarrow>
    unat n < length (pVertexBindingDescriptions (pVertexInputState pci)) \<longrightarrow>
    inputRate (pVertexBindingDescriptions (pVertexInputState pci) ! unat n)
      = VK_VERTEX_INPUT_RATE_VERTEX \<longrightarrow>
    map_of (bufferToMemory g) b \<noteq> None \<longrightarrow>
    map_of (bufferToMemory g)
      (case find (\<lambda>c. dstBuffer c = b) bc of
         None \<Rightarrow> b
       | Some c \<Rightarrow> if srcBuffer c = nullptr then b else srcBuffer c) = Some (deviceMemory, memoryOffset) \<longrightarrow>
    map_of (mappedMemory g) deviceMemory \<noteq> None \<longrightarrow>
    (\<forall>d\<in>set (pVertexAttributeDescriptions (pVertexInputState pci)). supported_format (format d)) \<longrightarrow>
    stride (pVertexBindingDescriptions (pVertexInputState pci) ! unat n) \<noteq> 0 \<longrightarrow>
    unat (buf_size boundBuffer)
      + unat (stride (pVertexBindingDescriptions (pVertexInputState pci) ! unat n)) \<le> 2 ^ 32 \<longrightarrow>
    (\<exists>s1. vertex_binding h g bc pci (n, b) s = Some (Inr s1)))"
proof (intro conjI impI)
  assume c: "umap_count (bufferToMemory g) b \<noteq> 0"
    and run: "vertex_binding h g bc pci (n, b) s = Some (Inr s')"
  from vertex_binding_closed [OF run c]
  show "\<exists>buffer dm off e N.
         map_of (buffers g) b = Some buffer \<and>
         unat n < length (pVertexBindingDescriptions (pVertexInputState pci)) \<and>
         map_of (bufferToMemory g)
           (case find (\<lambda>c. dstBuffer c = b) bc of
              None \<Rightarrow> b
            | Some c \<Rightarrow> if srcBuffer c = nullptr then b else srcBuffer c) = Some (dm, off) \<and>
         map_of (mappedMemory g) dm = Some e \<and>
         walked (buf_size buffer)
           (stride (pVertexBindingDescriptions (pVertexInputState pci) ! unat n)) N \<and>
         s' = s\<lparr>graphicsPipelineStringStream :=
                  graphicsPipelineStringStream s
                    @ vertex_lines n (pVertexAttributeDescriptions (pVertexInputState pci)),
                bufferDeclarationStringStream :=
                  bufferDeclarationStringStream s
                    @ vertex_blocks (memory h)
                        (pVertexAttributeDescriptions (pVertexInputState pci)) n
                        (snd (snd (snd e)))
                        (stride (pVertexBindingDescriptions (pVertexInputState pci) ! unat n))
                        N\<rparr>"
    by blast
next
  assume "umap_count (bufferToMemory g) b = 0"
    and "vertex_binding h g bc pci (n, b) s = Some (Inr s')"
  then show "s' = s\<lparr>bufferDeclarationStringStream :=
                     bufferDeclarationStringStream s @ [Str ''...'']\<rparr>"
    by (rule vertex_binding_placeholder [rotated])
next
  assume "map_of (buffers g) b = Some boundBuffer"
    and "buf_usage boundBuffer AND VK_BUFFER_USAGE_VERTEX_BUFFER_BIT \<noteq> 0"
    and "unat n < length (pVertexBindingDescriptions (pVertexInputState pci))"
    and "inputRate (pVertexBindingDescriptions (pVertexInputState pci) ! unat n)
      = VK_VERTEX_INPUT_RATE_VERTEX"
    and "map_of (bufferToMemory g) b \<noteq> None"
    and "map_of (bufferToMemory g)
      (case find (\<lambda>c. dstBuffer c = b) bc of
         None \<Rightarrow> b
       | Some c \<Rightarrow> if srcBuffer c = nullptr then b else srcBuffer c) = Some (deviceMemory, memoryOffset)"
    and "map_of (mappedMemory g) deviceMemory \<noteq> None"
    and "\<forall>d\<in>set (pVertexAttributeDescriptions (pVertexInputState pci)). supported_format (format d)"
    and "stride (pVertexBindingDescriptions (pVertexInputState pci) ! unat n) \<noteq> 0"
    and "unat (buf_size boundBuffer)
      + unat (stride (pVertexBindingDescriptions (pVertexInputState pci) ! unat n)) \<le> 2 ^ 32"
  then show "\<exists>s1. vertex_binding h g bc pci (n, b) s = Some (Inr s1)"
    by (rule vertex_binding_total)
qed

text \<open>
  The theorem at the sample scene: the bound vertex buffer 6 is the destination of a copy
  from buffer 8, whose memory 11 is mapped at 0x2000, and the two elements of the data
  are read there.
\<close>

theorem vertex_data_read_from_staging_source_witness:
  "umap_count (bufferToMemory sample_registries) 6 \<noteq> 0 \<and>
   map_of (buffers sample_registries) 6 = Some \<lparr>buf_size = 24, buf_usage = 0x80\<rparr> \<and>
   0x80 AND VK_BUFFER_USAGE_VERTEX_BUFFER_BIT \<noteq> 0 \<and>
   pVertexBindingDescriptions (pVertexInputState sample_pipeline) ! unat (0 :: uint32_t)
     = \<lparr>vib_binding = 0, stride = 12, inputRate = VK_VERTEX_INPUT_RATE_VERTEX\<rparr> \<and>
   list_all (\<lambda>d. supported_format (format d))
     (pVertexAttributeDescriptions (pVertexInputState sample_pipeline)) \<and>
   find (\<lambda>c. dstBuffer c = 6) sample_copies
     = Some \<lparr>srcBuffer = 8, dstBuffer = 6,
              regions = [\<lparr>srcOffset = 0, dstOffset = 0, copy_size = 24\<rparr>]\<rparr> \<and>
   map_of (bufferToMemory sample_registries) 8 = Some (11, 0) \<and>
   map_of (mappedMemory sample_registries) 11 = Some (0, 64, 0, 0x2000) \<and>
   walked 24 12 2 \<and>
   vertex_binding sample_host sample_registries sample_copies sample_pipeline (0, 6)
     empty_streams =
   Some (Inr (empty_streams
     \<lparr>graphicsPipelineStringStream :=
        vertex_lines 0 (pVertexAttributeDescriptions (pVertexInputState sample_pipeline)),
      bufferDeclarationStringStream :=
        vertex_blocks (memory sample_host)
          (pVertexAttributeDescriptions (pVertexInputState sample_pipeline)) 0 0x2000 12 2\<rparr>)) \<and>
   vertex_blocks (memory sample_host)
      (pVertexAttributeDescriptions (pVertexInputState sample_pipeline)) 0 0x2000 12 2 =
           [Str ''BUFFER '', Str ''vert_'', UInt 0, Str ''_'', UInt 0,
            Str '' DATA_TYPE '', Str ''vec'', UInt 2, Str ''<'', Str ''float'', Str ''>'',
            Str '' DATA '', endl, Str ''  '',
            Float 50462976, Str '' '', Float 117835012, Str '' '',
            Float 252579084, Str '' '', Float 319951120, Str '' '', endl,
            Str ''END'', endl, endl,
            Str ''BUFFER '', Str ''vert_'', UInt 0, Str ''_'', UInt 1,
            Str '' DATA_TYPE '', Str ''uint32'', Str '' DATA '', endl, Str ''  '',
            UInt 185207048, Str '' '', UInt 387323156, Str '' '', endl,
            Str ''END'', endl, endl]"
proof -
  have c: "umap_count (bufferToMemory sample_registries) 6 \<noteq> 0"
    by (simp add: sample_registries_def umap_count_def)
  have g: "map_of (buffers sample_registries) 6 = Some \<lparr>buf_size = 24, buf_usage = 0x80\<rparr>"
    by (simp add: sample_registries_def)
  have u: "0x80 AND VK_BUFFER_USAGE_VERTEX_BUFFER_BIT \<noteq> 0"
    by (simp add: VK_BUFFER_USAGE_VERTEX_BUFFER_BIT_def)
  have d: "pVertexBindingDescriptions (pVertexInputState sample_pipeline) ! unat (0 :: uint32_t)
     = \<lparr>vib_binding = 0, stride = 12, inputRate = VK_VERTEX_INPUT_RATE_VERTEX\<rparr>"
    by (simp add: sample_pipeline_def)
  have a: "list_all (\<lambda>d. supported_format (format d))
     (pVertexAttributeDescriptions (pVertexInputState sample_pipeline))"
    by (simp add: sample_pipeline_def supported_format_def)
  have f: "find (\<lambda>c. dstBuffer c = 6) sample_copies
     = Some \<lparr>srcBuffer = 8, dstBuffer = 6,
              regions = [\<lparr>srcOffset = 0, dstOffset = 0, copy_size = 24\<rparr>]\<rparr>"
    by (simp add: sample_copies_def)
  have b: "map_of (bufferToMemory sample_registries) 8 = Some (11, 0)"
    by (simp add: sample_registries_def)
  have m: "map_of (mappedMemory sample_registries) 11 = Some (0, 64, 0, 0x2000)"
    by (simp add: sample_registries_def)
  have l: "vertex_lines 0 (pVertexAttributeDescriptions (pVertexInputState sample_pipeline)) =
           [Str ''  VERTEX_DATA '', Str ''vert_'', UInt 0, Str ''_'', UInt 0,
            Str '' LOCATION '', UInt 0, endl,
            Str ''  VERTEX_DATA '', Str ''vert_'', UInt 0, Str ''_'', UInt 1,
            Str '' LOCATION '', UInt 1, endl]"
    by (simp add: closed_scene sample_scene)
  have run: "vertex_binding sample_host sample_registries sample_copies sample_pipeline (0, 6)
     empty_streams =
   Some (Inr (empty_streams
     \<lparr>graphicsPipelineStringStream :=
        vertex_lines 0 (pVertexAttributeDescriptions (pVertexInputState sample_pipeline)),
      bufferDeclarationStringStream :=
        vertex_blocks (memory sample_host)
          (pVertexAttributeDescriptions (pVertexInputState sample_pipeline)) 0 0x2000 12 2\<rparr>))"
    unfolding sample_vertex_binding sample_blocks l by (simp add: empty_streams_def)
  from vertex_data_read_from_staging_source [where g = sample_registries and b = 6
      and h = sample_host and bc = sample_copies and pci = sample_pipeline and n = 0
      and s = empty_streams and boundBuffer = "\<lparr>buf_size = 24, buf_usage = 0x80\<rparr>"
      and deviceMemory = 11 and memoryOffset = 0
      and s' = "empty_streams
     \<lparr>graphicsPipelineStringStream :=
        vertex_lines 0 (pVertexAttributeDescriptions (pVertexInputState sample_pipeline)),
      bufferDeclarationStringStream :=
        vertex_blocks (memory sample_host)
          (pVertexAttributeDescriptions (pVertexInputState sample_pipeline)) 0 0x2000 12 2\<rparr>"]
  show ?thesis
    by (simp only: c g u d a f b m sample_walked sample_blocks run simp_thms)
qed

text \<open>
  C1 as stated fails, in two ways. Buffer 14 of the sample scene has no recorded memory
  binding: with a recorded copy from buffer 8 into it, its binding is serialized as the
  placeholder and nothing is read from buffer 8. And with a recorded copy into buffer 6
  whose source is the null handle, the data source of the binding of buffer 6 is buffer
  6, not the source of that copy.
\<close>

theorem staging_source_is_not_always_read:
  "find (\<lambda>c. dstBuffer c = 14) [\<lparr>srcBuffer = 8, dstBuffer = 14, regions = []\<rparr>]
     = Some \<lparr>srcBuffer = 8, dstBuffer = 14, regions = []\<rparr> \<and>
   vertex_binding sample_host sample_registries
       [\<lparr>srcBuffer = 8, dstBuffer = 14, regions = []\<rparr>] sample_pipeline (0, 14) empty_streams
     = Some (Inr \<lparr>bufferDeclarationStringStream = [Str ''...''],
                  descriptorSetBindingStringStream = [],
                  framebufferAttachmentStringStream = [],
                  graphicsPipelineStringStream = []\<rparr>) \<and>
   find (\<lambda>c. dstBuffer c = 6) [\<lparr>srcBuffer = nullptr, dstBuffer = 6, regions = []\<rparr>]
     = Some \<lparr>srcBuffer = nullptr, dstBuffer = 6, regions = []\<rparr> \<and>
   vertex_data_source [\<lparr>srcBuffer = nullptr, dstBuffer = 6, regions = []\<rparr>] 6 = 6 \<and>
   vertex_data_source [\<lparr>srcBuffer = nullptr, dstBuffer = 6, regions = []\<rparr>] 6
     \<noteq> srcBuffer \<lparr>srcBuffer = nullptr, dstBuffer = 6, regions = []\<rparr>"
  by (simp add: sample_scene)

section \<open>Vertex data blocks and attribute descriptions\<close>

text \<open>
  C4 (as amended). For every serialized draw, the script holds, right after the
  preamble, one part per bound vertex-buffer binding, in the order of the bindings, and
  the pipeline lines of all of them further down. The part of a binding whose buffer has
  no recorded memory binding is the placeholder \<^verbatim>\<open>...\<close>, with no block and no
  pipeline line. The part of every other binding is one data block per element of the
  pipeline's array of vertex-input attribute descriptions, in the order of the array; the
  block at index \<open>k\<close> is declared with the data type (component type and count) of the
  format of the description at index \<open>k\<close>, and the pipeline binds it to location \<open>k\<close>.
  When the array lists the description of location \<open>k\<close> at index \<open>k\<close>, the declared
  type of each block is the type that the pipeline declares for the block's location.
  The vertex section returns these parts, and the draw call ends, whenever every bound
  binding can be read.
\<close>

theorem vertex_blocks_follow_description_array:
  "(HandleDrawCall h g bc t indexCount = Some (Exited out) \<longrightarrow>
      (\<exists>pci parts vd fd mid post.
         map_of (graphicsPipelines g) (boundGraphicsPipeline t) = Some pci \<and>
         list_all2
           (\<lambda>vb part.
              if umap_count (bufferToMemory g) (snd vb) = 0 then part = ([Str ''...''], [])
              else
                (\<forall>k<length (pVertexAttributeDescriptions (pVertexInputState pci)).
                   getBufferTypeName
                     (format (pVertexAttributeDescriptions (pVertexInputState pci) ! k))
                   = Inr (type_name (pVertexAttributeDescriptions (pVertexInputState pci) ! k))) \<and>
                ((\<forall>k<length (pVertexAttributeDescriptions (pVertexInputState pci)).
                    unat (location (pVertexAttributeDescriptions (pVertexInputState pci) ! k)) = k)
                 \<longrightarrow>
                 (\<forall>k<length (pVertexAttributeDescriptions (pVertexInputState pci)).
                    declared_type_for_location
                      (pVertexAttributeDescriptions (pVertexInputState pci)) k
                    = Some (Inr (type_name
                         (pVertexAttributeDescriptions (pVertexInputState pci) ! k))))) \<and>
                (\<exists>ptr N.
                   part =
                     (concat (map (\<lambda>k.
                          [Str ''BUFFER ''] @ vertex_buffer_name (fst vb) k @ [Str '' DATA_TYPE '']
                            @ type_name (pVertexAttributeDescriptions (pVertexInputState pci) ! k)
                            @ [Str '' DATA '', endl, Str ''  '']
                            @ block_data (memory h)
                                (pVertexAttributeDescriptions (pVertexInputState pci)) ptr
                                (stride (pVertexBindingDescriptions (pVertexInputState pci)
                                           ! unat (fst vb))) N k
                            @ [endl, Str ''END'', endl, endl])
                        [0 ..< length (pVertexAttributeDescriptions (pVertexInputState pci))]),
                      concat (map (\<lambda>k.
                          [Str ''  VERTEX_DATA ''] @ vertex_buffer_name (fst vb) k
                            @ [Str '' LOCATION '', UInt k, endl])
                        [0 ..< length (pVertexAttributeDescriptions (pVertexInputState pci))]))))
           (boundVertexBuffers t) parts \<and>
         out = shader_header vd @ [Str fd] @ texture_preamble
                 @ concat (map fst parts) @ mid @ concat (map snd parts) @ post)) \<and>
   ((\<forall>vb\<in>set vbs. binding_can_be_read g bc pipeline vb) \<longrightarrow>
      (\<exists>s'. vertex_section h g bc pipeline vbs s = Some (Inr s'))) \<and>
   (map_of (graphicsPipelines g) (boundGraphicsPipeline t) = Some pipeline \<longrightarrow>
    (\<forall>vb\<in>set (boundVertexBuffers t). binding_can_be_read g bc pipeline vb) \<longrightarrow>
      (\<exists>r. HandleDrawCall h g bc t indexCount = Some r))"
proof (intro conjI impI)
  assume run: "HandleDrawCall h g bc t indexCount = Some (Exited out)"
  from HandleDrawCall_parts [OF run] obtain pci s1 vd fd mid post where
    pci: "map_of (graphicsPipelines g) (boundGraphicsPipeline t) = Some pci"
    and v: "vertex_section h g bc pci (boundVertexBuffers t) empty_streams = Some (Inr s1)"
    and out: "out = shader_header vd @ [Str fd] @ texture_preamble
             @ bufferDeclarationStringStream s1 @ mid
             @ graphicsPipelineStringStream s1 @ post"
    by blast
  let ?attrs = "pVertexAttributeDescriptions (pVertexInputState pci)"
  let ?P = "\<lambda>vb part.
              if umap_count (bufferToMemory g) (snd vb) = 0 then part = ([Str ''...''], [])
              else
                (\<forall>k<length ?attrs. getBufferTypeName (format (?attrs ! k))
                   = Inr (type_name (?attrs ! k))) \<and>
                ((\<forall>k<length ?attrs. unat (location (?attrs ! k)) = k) \<longrightarrow>
                 (\<forall>k<length ?attrs. declared_type_for_location ?attrs k
                    = Some (Inr (type_name (?attrs ! k))))) \<and>
                (\<exists>ptr N.
                   part =
                     (concat (map (\<lambda>k.
                          [Str ''BUFFER ''] @ vertex_buffer_name (fst vb) k @ [Str '' DATA_TYPE '']
                            @ type_name (?attrs ! k)
                            @ [Str '' DATA '', endl, Str ''  '']
                            @ block_data (memory h) ?attrs ptr
                                (stride (pVertexBindingDescriptions (pVertexInputState pci)
                                           ! unat (fst vb))) N k
                            @ [endl, Str ''END'', endl, endl])
                        [0 ..< length ?attrs]),
                      concat (map (\<lambda>k.
                          [Str ''  VERTEX_DATA ''] @ vertex_buffer_name (fst vb) k
                            @ [Str '' LOCATION '', UInt k, endl])
                        [0 ..< length ?attrs])))"
  have step: "\<exists>part. ?P vb part \<and>
        s' = s\<lparr>graphicsPipelineStringStream := graphicsPipelineStringStream s @ snd part,
               bufferDeclarationStringStream := bufferDeclarationStringStream s @ fst part\<rparr>"
    if "vertex_binding h g bc pci vb s = Some (Inr s')" for vb s s'
  proof -
    from vertex_binding_part [OF that] obtain part where
      p: "if umap_count (bufferToMemory g) (snd vb) = 0 then part = ([Str ''...''], [])
          else
            (\<forall>k<length ?attrs. getBufferTypeName (format (?attrs ! k))
               = Inr (type_name (?attrs ! k))) \<and>
            (\<exists>ptr N.
               part =
                 (vertex_blocks (memory h) ?attrs (fst vb) ptr
                    (stride (pVertexBindingDescriptions (pVertexInputState pci) ! unat (fst vb))) N,
                  vertex_lines (fst vb) ?attrs))"
      and s': "s' = s\<lparr>graphicsPipelineStringStream := graphicsPipelineStringStream s @ snd part,
               bufferDeclarationStringStream := bufferDeclarationStringStream s @ fst part\<rparr>"
      by blast
    have "?P vb part"
    proof (cases "umap_count (bufferToMemory g) (snd vb) = 0")
      case True
      with p show ?thesis by simp
    next
      case False
      with p have ty: "\<forall>k<length ?attrs. getBufferTypeName (format (?attrs ! k))
               = Inr (type_name (?attrs ! k))"
        and ex: "\<exists>ptr N.
               part =
                 (vertex_blocks (memory h) ?attrs (fst vb) ptr
                    (stride (pVertexBindingDescriptions (pVertexInputState pci) ! unat (fst vb))) N,
                  vertex_lines (fst vb) ?attrs)"
        by simp_all
      have rt: "\<forall>k<length ?attrs. declared_type_for_location ?attrs k
                    = Some (Inr (type_name (?attrs ! k)))"
        if "\<forall>k<length ?attrs. unat (location (?attrs ! k)) = k"
        using find_by_location [OF that] ty by (simp add: declared_type_for_location_def)
      from ex have ex': "\<exists>ptr N.
                   part =
                     (concat (map (\<lambda>k.
                          [Str ''BUFFER ''] @ vertex_buffer_name (fst vb) k @ [Str '' DATA_TYPE '']
                            @ type_name (?attrs ! k)
                            @ [Str '' DATA '', endl, Str ''  '']
                            @ block_data (memory h) ?attrs ptr
                                (stride (pVertexBindingDescriptions (pVertexInputState pci)
                                           ! unat (fst vb))) N k
                            @ [endl, Str ''END'', endl, endl])
                        [0 ..< length ?attrs]),
                      concat (map (\<lambda>k.
                          [Str ''  VERTEX_DATA ''] @ vertex_buffer_name (fst vb) k
                            @ [Str '' LOCATION '', UInt k, endl])
                        [0 ..< length ?attrs]))"
        unfolding vertex_blocks_def vertex_lines_def .
      from False ty rt ex' show ?thesis by simp
    qed
    with s' show ?thesis by blast
  qed
  from vertex_section_parts [where P = ?P, OF step v] obtain parts where
    ps: "list_all2 ?P (boundVertexBuffers t) parts"
    and s1: "s1 = empty_streams\<lparr>graphicsPipelineStringStream :=
                graphicsPipelineStringStream empty_streams @ concat (map snd parts),
              bufferDeclarationStringStream :=
                bufferDeclarationStringStream empty_streams @ concat (map fst parts)\<rparr>"
    by blast
  have eq: "out = shader_header vd @ [Str fd] @ texture_preamble
                 @ concat (map fst parts) @ mid @ concat (map snd parts) @ post"
    unfolding out s1 by (simp add: empty_streams_def)
  show "\<exists>pci parts vd fd mid post.
         map_of (graphicsPipelines g) (boundGraphicsPipeline t) = Some pci \<and>
         list_all2
           (\<lambda>vb part.
              if umap_count (bufferToMemory g) (snd vb) = 0 then part = ([Str ''...''], [])
              else
                (\<forall>k<length (pVertexAttributeDescriptions (pVertexInputState pci)).
                   getBufferTypeName
                     (format (pVertexAttributeDescriptions (pVertexInputState pci) ! k))
                   = Inr (type_name (pVertexAttributeDescriptions (pVertexInputState pci) ! k))) \<and>
                ((\<forall>k<length (pVertexAttributeDescriptions (pVertexInputState pci)).
                    unat (location (pVertexAttributeDescriptions (pVertexInputState pci) ! k)) = k)
                 \<longrightarrow>
                 (\<forall>k<length (pVertexAttributeDescriptions (pVertexInputState pci)).
                    declared_type_for_location
                      (pVertexAttributeDescriptions (pVertexInputState pci)) k
                    = Some (Inr (type_name
                         (pVertexAttributeDescriptions (pVertexInputState pci) ! k))))) \<and>
                (\<exists>ptr N.
                   part =
                     (concat (map (\<lambda>k.
                          [Str ''BUFFER ''] @ vertex_buffer_name (fst vb) k @ [Str '' DATA_TYPE '']
                            @ type_name (pVertexAttributeDescriptions (pVertexInputState pci) ! k)
                            @ [Str '' DATA '', endl, Str ''  '']
                            @ block_data (memory h)
                                (pVertexAttributeDescriptions (pVertexInputState pci)) ptr
                                (stride (pVertexBindingDescriptions (pVertexInputState pci)
                                           ! unat (fst vb))) N k
                            @ [endl, Str ''END'', endl, endl])
                        [0 ..< length (pVertexAttributeDescriptions (pVertexInputState pci))]),
                      concat (map (\<lambda>k.
                          [Str ''  VERTEX_DATA ''] @ vertex_buffer_name (fst vb) k
                            @ [Str '' LOCATION '', UInt k, endl])
                        [0 ..< length (pVertexAttributeDescriptions (pVertexInputState pci))]))))
           (boundVertexBuffers t) parts \<and>
         out = shader_header vd @ [Str fd] @ texture_preamble
                 @ concat (map fst parts) @ mid @ concat (map snd parts) @ post"
    by (rule exI [where x = pci], rule exI [where x = parts], rule exI [where x = vd],
        rule exI [where x = fd], rule exI [where x = mid], rule exI [where x = post])
      (intro conjI pci ps eq)
next
  assume "\<forall>vb\<in>set vbs. binding_can_be_read g bc pipeline vb"
  then show "\<exists>s'. vertex_section h g bc pipeline vbs s = Some (Inr s')"
    by (rule vertex_section_total)
next
  assume pci: "map_of (graphicsPipelines g) (boundGraphicsPipeline t) = Some pipeline"
    and all: "\<forall>vb\<in>set (boundVertexBuffers t). binding_can_be_read g bc pipeline vb"
  from vertex_section_total [OF all, of h empty_streams] obtain s1 where
    "vertex_section h g bc pipeline (boundVertexBuffers t) empty_streams = Some (Inr s1)" by blast
  with pci show "\<exists>r. HandleDrawCall h g bc t indexCount = Some r"
    by (simp add: HandleDrawCall_def fill_streams_def Let_def umap_at_def
        split: option.splits sum.splits prod.splits)
qed

text \<open>
  The theorem at the sample scene, whose pipeline lists location 0 (two floats) and
  location 1 (one unsigned integer) in this order, with the binding of buffer 6, which has
  its data in the staging buffer 8, and with the binding of buffer 14, which has no
  memory.
\<close>

theorem vertex_blocks_follow_description_array_witness:
  "(\<exists>out. HandleDrawCall sample_host sample_registries sample_copies sample_tracker 3
            = Some (Exited out)) \<and>
   map_of (graphicsPipelines sample_registries) (boundGraphicsPipeline sample_tracker)
     = Some sample_pipeline \<and>
   boundVertexBuffers sample_tracker = [(0, 6)] \<and>
   binding_can_be_read sample_registries sample_copies sample_pipeline (0, 6) \<and>
   binding_can_be_read sample_registries sample_copies sample_pipeline (0, 14) \<and>
   unat (location (pVertexAttributeDescriptions (pVertexInputState sample_pipeline) ! 0)) = 0 \<and>
   unat (location (pVertexAttributeDescriptions (pVertexInputState sample_pipeline) ! 1)) = 1 \<and>
   declared_type_for_location (pVertexAttributeDescriptions (pVertexInputState sample_pipeline)) 0
     = Some (Inr [Str ''vec'', UInt 2, Str ''<'', Str ''float'', Str ''>'']) \<and>
   declared_type_for_location (pVertexAttributeDescriptions (pVertexInputState sample_pipeline)) 1
     = Some (Inr [Str ''uint32'']) \<and>
   vertex_section sample_host sample_registries sample_copies sample_pipeline [(0, 6)]
     empty_streams = Some (Inr
       \<lparr>bufferDeclarationStringStream =
           [Str ''BUFFER '', Str ''vert_'', UInt 0, Str ''_'', UInt 0,
            Str '' DATA_TYPE '', Str ''vec'', UInt 2, Str ''<'', Str ''float'', Str ''>'',
            Str '' DATA '', endl, Str ''  '',
            Float 50462976, Str '' '', Float 117835012, Str '' '',
            Float 252579084, Str '' '', Float 319951120, Str '' '', endl,
            Str ''END'', endl, endl,
            Str ''BUFFER '', Str ''vert_'', UInt 0, Str ''_'', UInt 1,
            Str '' DATA_TYPE '', Str ''uint32'', Str '' DATA '', endl, Str ''  '',
            UInt 185207048, Str '' '', UInt 387323156, Str '' '', endl,
            Str ''END'', endl, endl],
         descriptorSetBindingStringStream = [],
         framebufferAttachmentStringStream = [],
         graphicsPipelineStringStream =
           [Str ''  VERTEX_DATA '', Str ''vert_'', UInt 0, Str ''_'', UInt 0,
            Str '' LOCATION '', UInt 0, endl,
            Str ''  VERTEX_DATA '', Str ''vert_'', UInt 0, Str ''_'', UInt 1,
            Str '' LOCATION '', UInt 1, endl]\<rparr>) \<and>
   vertex_section sample_host sample_registries sample_copies sample_pipeline [(0, 14)]
     empty_streams = Some (Inr
       \<lparr>bufferDeclarationStringStream = [Str ''...''],
         descriptorSetBindingStringStream = [],
         framebufferAttachmentStringStream = [],
         graphicsPipelineStringStream = []\<rparr>)"
proof -
  have ex: "\<exists>out. HandleDrawCall sample_host sample_registries sample_copies sample_tracker 3
            = Some (Exited out)"
    by (simp add: sample_scene_script)
  then obtain out where
    run: "HandleDrawCall sample_host sample_registries sample_copies sample_tracker 3
            = Some (Exited out)" ..
  have pci: "map_of (graphicsPipelines sample_registries) (boundGraphicsPipeline sample_tracker)
     = Some sample_pipeline"
    by (simp add: sample_registries_def sample_tracker_def)
  have vbs: "boundVertexBuffers sample_tracker = [(0, 6)]"
    by (simp add: sample_tracker_def)
  have r6: "binding_can_be_read sample_registries sample_copies sample_pipeline (0, 6)"
    by (simp add: binding_can_be_read_def closed_scene sample_scene)
  have r14: "binding_can_be_read sample_registries sample_copies sample_pipeline (0, 14)"
    by (simp add: binding_can_be_read_def closed_scene sample_scene)
  have locs:
    "unat (location (pVertexAttributeDescriptions (pVertexInputState sample_pipeline) ! 0)) = 0"
    "unat (location (pVertexAttributeDescriptions (pVertexInputState sample_pipeline) ! 1)) = 1"
    by (simp_all add: sample_pipeline_def)
  have tys:
    "declared_type_for_location (pVertexAttributeDescriptions (pVertexInputState sample_pipeline)) 0
     = Some (Inr [Str ''vec'', UInt 2, Str ''<'', Str ''float'', Str ''>''])"
    "declared_type_for_location (pVertexAttributeDescriptions (pVertexInputState sample_pipeline)) 1
     = Some (Inr [Str ''uint32''])"
    by (simp_all add: declared_type_for_location_def sample_pipeline_def getBufferTypeName_def)
  have v6: "vertex_section sample_host sample_registries sample_copies sample_pipeline [(0, 6)]
     empty_streams = Some (Inr
       \<lparr>bufferDeclarationStringStream =
           [Str ''BUFFER '', Str ''vert_'', UInt 0, Str ''_'', UInt 0,
            Str '' DATA_TYPE '', Str ''vec'', UInt 2, Str ''<'', Str ''float'', Str ''>'',
            Str '' DATA '', endl, Str ''  '',
            Float 50462976, Str '' '', Float 117835012, Str '' '',
            Float 252579084, Str '' '', Float 319951120, Str '' '', endl,
            Str ''END'', endl, endl,
            Str ''BUFFER '', Str ''vert_'', UInt 0, Str ''_'', UInt 1,
            Str '' DATA_TYPE '', Str ''uint32'', Str '' DATA '', endl, Str ''  '',
            UInt 185207048, Str '' '', UInt 387323156, Str '' '', endl,
            Str ''END'', endl, endl],
         descriptorSetBindingStringStream = [],
         framebufferAttachmentStringStream = [],
         graphicsPipelineStringStream =
           [Str ''  VERTEX_DATA '', Str ''vert_'', UInt 0, Str ''_'', UInt 0,
            Str '' LOCATION '', UInt 0, endl,
            Str ''  VERTEX_DATA '', Str ''vert_'', UInt 0, Str ''_'', UInt 1,
            Str '' LOCATION '', UInt 1, endl]\<rparr>)"
    by (simp add: sample_vertex_binding)
  have v14: "vertex_section sample_host sample_registries sample_copies sample_pipeline [(0, 14)]
     empty_streams = Some (Inr
       \<lparr>bufferDeclarationStringStream = [Str ''...''],
         descriptorSetBindingStringStream = [],
         framebufferAttachmentStringStream = [],
         graphicsPipelineStringStream = []\<rparr>)"
    by (simp add: sample_scene)
  from vertex_blocks_follow_description_array [where h = sample_host and g = sample_registries
      and bc = sample_copies and t = sample_tracker and indexCount = 3 and out = out
      and vbs = "[(0, 6)]" and pipeline = sample_pipeline and s = empty_streams]
  show ?thesis
    by (simp only: ex pci vbs r6 r14 locs tys v6 v14 simp_thms)
qed

text \<open>
  C4 as stated fails: the pipeline that lists the description of location 1 before the
  one of location 0 declares two floats for location 0, and the block that the serializer
  binds to location 0 is declared \<^verbatim>\<open>uint32\<close>, the type of the description at index 0.
\<close>

theorem location_is_taken_from_array_index:
  "vertex_data sample_host swapped_pipeline 0 \<lparr>buf_size = 24, buf_usage = 0x80\<rparr>
     \<lparr>vib_binding = 0, stride = 12, inputRate = VK_VERTEX_INPUT_RATE_VERTEX\<rparr> 0x2000
     empty_streams = Some (Inr
       \<lparr>bufferDeclarationStringStream =
           [Str ''BUFFER '', Str ''vert_'', UInt 0, Str ''_'', UInt 0,
            Str '' DATA_TYPE '', Str ''uint32'', Str '' DATA '', endl, Str ''  '',
            UInt 50462976, Str '' '', UInt 252579084, Str '' '', endl,
            Str ''END'', endl, endl,
            Str ''BUFFER '', Str ''vert_'', UInt 0, Str ''_'', UInt 1,
            Str '' DATA_TYPE '', Str ''vec'', UInt 2, Str ''<'', Str ''float'', Str ''>'',
            Str '' DATA '', endl, Str ''  '',
            Float 117835012, Str '' '', Float 185207048, Str '' '',
            Float 319951120, Str '' '', Float 387323156, Str '' '', endl,
            Str ''END'', endl, endl],
         descriptorSetBindingStringStream = [],
         framebufferAttachmentStringStream = [],
         graphicsPipelineStringStream =
           [Str ''  VERTEX_DATA '', Str ''vert_'', UInt 0, Str ''_'', UInt 0,
            Str '' LOCATION '', UInt 0, endl,
            Str ''  VERTEX_DATA '', Str ''vert_'', UInt 0, Str ''_'', UInt 1,
            Str '' LOCATION '', UInt 1, endl]\<rparr>) \<and>
   declared_type_for_location (pVertexAttributeDescriptions (pVertexInputState swapped_pipeline)) 0
     = Some (Inr [Str ''vec'', UInt 2, Str ''<'', Str ''float'', Str ''>'']) \<and>
   declared_type_for_location (pVertexAttributeDescriptions (pVertexInputState swapped_pipeline)) 0
     \<noteq> Some (getBufferTypeName
           (format (pVertexAttributeDescriptions (pVertexInputState swapped_pipeline) ! 0)))"
  by (simp add: swapped_vertex_data)
    (simp add: declared_type_for_location_def swapped_pipeline_def sample_pipeline_def
      getBufferTypeName_def)

end
